theory Spec2Isabelle
  imports Complex_Main
begin

section \<open>Data model (src/domain/types.ts)\<close>

text \<open>
  JavaScript numbers are modelled as exact reals: sums, products and quotients carry no
  rounding error.  An ISO date-time string is modelled by its text together with the instant
  (milliseconds since the epoch) that \<^verbatim>\<open>dayjs(text)\<close> parses from it; the instant is
  \<open>None\<close> when the text does not parse (\<^verbatim>\<open>isValid()\<close> is false, every numeric
  reading is NaN).  Local calendar fields are read in the host zone, taken to be UTC.
  A date string is \<open>YMD d\<close> when it is the \<^verbatim>\<open>YYYY-MM-DD\<close> text of day number \<open>d\<close>
  (days since 1970-01-01), \<open>Invalid_Date\<close> when it is the text \<^verbatim>\<open>format\<close> prints for an
  invalid date, and \<open>OtherText\<close> otherwise.
\<close>

datatype ShiftType = MOSES | WEILER | IP_CONSULT | NIGHT_FLOAT | BACKUP

record isoString =
  isoText :: string
  isoInstant :: "int option"

type_synonym calendarDay = int

datatype dateString = YMD calendarDay | Invalid_Date | OtherText string

record RotationAssignment =
  weekStartISO :: isoString
  rotation :: string
  rawRotation :: string
  vacationDates :: "dateString list"

record ResidentAcademicYearAssignment =
  academicYearStartISO :: string
  label :: string

record Resident =
  res_id :: string
  res_name :: string
  eligibleShiftTypes :: "ShiftType list"
  rotations :: "RotationAssignment list"
  academicYears :: "ResidentAcademicYearAssignment list"

record Shift =
  shift_id :: string
  residentId :: string
  startISO :: isoString
  endISO :: isoString
  shift_type :: ShiftType
  location :: "string option"
  isHoliday :: "bool option"

record RuleConfig =
  restHoursMin :: real
  typeWhitelist :: "ShiftType list"

text \<open>
  A JavaScript \<^verbatim>\<open>Map\<close> is the list of its entries in insertion order, read with
  \<open>map_of\<close>; a \<^verbatim>\<open>Set\<close> of strings is the list of its members.
\<close>

record Context =
  ruleConfig :: RuleConfig
  residentsById :: "(string \<times> Resident) list"
  shiftsByResident :: "(string \<times> Shift list) list"
  shabbosObservers :: "string list"

datatype SwapAdvisoryCode = ADV_REST_WINDOW | ADV_OVERLAP

text \<open>The advisory's human-readable \<^verbatim>\<open>message\<close> is left out; \<^verbatim>\<open>kind\<close> is the constant
  \<^verbatim>\<open>'backup-conflict'\<close>.\<close>

record SwapAdvisory =
  adv_code :: SwapAdvisoryCode
  adv_residentId :: string
  backupShiftId :: string
  otherShiftId :: string
  adv_restHours :: "real option"
  minimumRestHours :: "real option"

section \<open>Strings and regular expressions\<close>

text \<open>
  A string is the list of its code units; the model has the code units below 256.
  \<^verbatim>\<open>toLowerCase()\<close> maps the letters A to Z and the upper-case letters from U+00C0 to
  U+00DE (the multiplication sign U+00D7 is not one); with the \<^verbatim>\<open>i\<close> flag a literal
  of a pattern matches the code units with the same lower-case form.
\<close>

definition upperCaseUnits :: string where
  "upperCaseUnits =
     ''ABCDEFGHIJKLMNOPQRSTUVWXYZ''
     @ [CHR 0xC0, CHR 0xC1, CHR 0xC2, CHR 0xC3, CHR 0xC4, CHR 0xC5, CHR 0xC6,
        CHR 0xC7, CHR 0xC8, CHR 0xC9, CHR 0xCA, CHR 0xCB, CHR 0xCC, CHR 0xCD,
        CHR 0xCE, CHR 0xCF, CHR 0xD0, CHR 0xD1, CHR 0xD2, CHR 0xD3, CHR 0xD4,
        CHR 0xD5, CHR 0xD6, CHR 0xD8, CHR 0xD9, CHR 0xDA, CHR 0xDB, CHR 0xDC,
        CHR 0xDD, CHR 0xDE]"

definition lowerCaseUnits :: string where
  "lowerCaseUnits =
     ''abcdefghijklmnopqrstuvwxyz''
     @ [CHR 0xE0, CHR 0xE1, CHR 0xE2, CHR 0xE3, CHR 0xE4, CHR 0xE5, CHR 0xE6,
        CHR 0xE7, CHR 0xE8, CHR 0xE9, CHR 0xEA, CHR 0xEB, CHR 0xEC, CHR 0xED,
        CHR 0xEE, CHR 0xEF, CHR 0xF0, CHR 0xF1, CHR 0xF2, CHR 0xF3, CHR 0xF4,
        CHR 0xF5, CHR 0xF6, CHR 0xF8, CHR 0xF9, CHR 0xFA, CHR 0xFB, CHR 0xFC,
        CHR 0xFD, CHR 0xFE]"

definition toLowerChar :: "char \<Rightarrow> char" where
  "toLowerChar c =
     (case map_of (zip upperCaseUnits lowerCaseUnits) c of Some l \<Rightarrow> l | None \<Rightarrow> c)"

definition toLowerCase :: "string \<Rightarrow> string" where
  "toLowerCase s = map toLowerChar s"

fun startsWith :: "string \<Rightarrow> string \<Rightarrow> bool" where
  "startsWith s [] = True"
| "startsWith [] (p # ps) = False"
| "startsWith (c # cs) (p # ps) = (c = p \<and> startsWith cs ps)"

text \<open>\<^verbatim>\<open>s.includes(sub)\<close>\<close>

fun includesStr :: "string \<Rightarrow> string \<Rightarrow> bool" where
  "includesStr [] sub = (sub = [])"
| "includesStr (c # cs) sub = (startsWith (c # cs) sub \<or> includesStr cs sub)"

text \<open>The white space of \<^verbatim>\<open>\s\<close> and \<^verbatim>\<open>trim()\<close> among these code units: space, tab, line
  feed, vertical tab, form feed, carriage return and the no-break space U+00A0.\<close>

definition isSpaceChar :: "char \<Rightarrow> bool" where
  "isSpaceChar c =
     (c \<in> set [CHR '' '', CHR 0x09, CHR 0x0A, CHR 0x0B, CHR 0x0C, CHR 0x0D, CHR 0xA0])"

definition isWordChar :: "char \<Rightarrow> bool" where
  "isWordChar c =
     (c \<in> set ''abcdefghijklmnopqrstuvwxyzABCDEFGHIJKLMNOPQRSTUVWXYZ0123456789_'')"

definition trim :: "string \<Rightarrow> string" where
  "trim s = rev (dropWhile isSpaceChar (rev (dropWhile isSpaceChar s)))"

text \<open>
  The regular expressions of the source use literals, \<^verbatim>\<open>\s\<close>, \<^verbatim>\<open>[\s-]\<close>, the
  quantifiers \<^verbatim>\<open>*\<close>, \<^verbatim>\<open>+\<close>, \<^verbatim>\<open>?\<close> on one atom, and \<^verbatim>\<open>\b\<close>, all under the
  \<^verbatim>\<open>i\<close> flag.  A pattern is a list of such items; \<open>regexTest\<close> is \<^verbatim>\<open>pattern.test(s)\<close>.
\<close>

datatype reAtom = Ch char | Ws | WsDash

datatype reItem = One reAtom | Star reAtom | Plus reAtom | Opt reAtom | WordB

fun atomOk :: "reAtom \<Rightarrow> char \<Rightarrow> bool" where
  "atomOk (Ch x) c = (toLowerChar c = toLowerChar x)"
| "atomOk Ws c = isSpaceChar c"
| "atomOk WsDash c = (isSpaceChar c \<or> c = CHR ''-'')"

definition atWordBoundary :: "char option \<Rightarrow> string \<Rightarrow> bool" where
  "atWordBoundary prev s =
     ((case prev of None \<Rightarrow> False | Some p \<Rightarrow> isWordChar p)
        \<noteq> (case s of [] \<Rightarrow> False | c # cs \<Rightarrow> isWordChar c))"

fun matchHere :: "reItem list \<Rightarrow> char option \<Rightarrow> string \<Rightarrow> bool" where
  "matchHere [] prev s = True"
| "matchHere (WordB # ps) prev s = (atWordBoundary prev s \<and> matchHere ps prev s)"
| "matchHere (One a # ps) prev [] = False"
| "matchHere (One a # ps) prev (c # cs) = (atomOk a c \<and> matchHere ps (Some c) cs)"
| "matchHere (Opt a # ps) prev [] = matchHere ps prev []"
| "matchHere (Opt a # ps) prev (c # cs) =
     ((atomOk a c \<and> matchHere ps (Some c) cs) \<or> matchHere ps prev (c # cs))"
| "matchHere (Star a # ps) prev [] = matchHere ps prev []"
| "matchHere (Star a # ps) prev (c # cs) =
     ((atomOk a c \<and> matchHere (Star a # ps) (Some c) cs) \<or> matchHere ps prev (c # cs))"
| "matchHere (Plus a # ps) prev [] = False"
| "matchHere (Plus a # ps) prev (c # cs) = (atomOk a c \<and> matchHere (Star a # ps) (Some c) cs)"

fun searchFrom :: "reItem list \<Rightarrow> char option \<Rightarrow> string \<Rightarrow> bool" where
  "searchFrom p prev [] = matchHere p prev []"
| "searchFrom p prev (c # cs) = (matchHere p prev (c # cs) \<or> searchFrom p (Some c) cs)"

definition regexTest :: "reItem list \<Rightarrow> string \<Rightarrow> bool" where
  "regexTest p s = searchFrom p None s"

definition lit :: "string \<Rightarrow> reItem list" where
  "lit s = map (\<lambda>c. One (Ch c)) s"

text \<open>
  \<^verbatim>\<open>a.localeCompare(b)\<close> compares by the collation of the host's default locale, which the
  program does not fix.  The collation is a parameter of the model: the last argument
  \<open>coll\<close> of every function that sorts with it, directly or through a function it calls.
\<close>

type_synonym collation = "string \<Rightarrow> string \<Rightarrow> int"

definition localeCompare :: "string \<Rightarrow> string \<Rightarrow> collation \<Rightarrow> int" where
  "localeCompare a b coll = coll a b"

text \<open>\<^verbatim>\<open>Array.prototype.sort(cmp)\<close>: a stable sort by the comparator.\<close>

fun insertBy :: "('a \<Rightarrow> 'a \<Rightarrow> bool) \<Rightarrow> 'a \<Rightarrow> 'a list \<Rightarrow> 'a list" where
  "insertBy le x [] = [x]"
| "insertBy le x (y # ys) = (if le x y then x # y # ys else y # insertBy le x ys)"

definition sortBy :: "('a \<Rightarrow> 'a \<Rightarrow> bool) \<Rightarrow> 'a list \<Rightarrow> 'a list" where
  "sortBy le xs = foldr (insertBy le) xs []"

section \<open>Dates (the dayjs calls of the source)\<close>

definition MS_PER_HOUR :: int where "MS_PER_HOUR = 3600000"
definition MS_PER_DAY :: int where "MS_PER_DAY = 86400000"

text \<open>\<^verbatim>\<open>dayjs(iso)\<close>: \<open>None\<close> is the invalid date.\<close>

definition dayjs :: "isoString \<Rightarrow> int option" where
  "dayjs s = isoInstant s"

text \<open>The day number of \<^verbatim>\<open>.startOf('day')\<close> of a valid date.\<close>

definition dayOf :: "int \<Rightarrow> calendarDay" where
  "dayOf t = t div MS_PER_DAY"

text \<open>\<^verbatim>\<open>.format('YYYY-MM-DD')\<close> of a start of day; \<open>None\<close> is the invalid date.\<close>

definition formatYMD :: "calendarDay option \<Rightarrow> dateString" where
  "formatYMD d = (case d of None \<Rightarrow> Invalid_Date | Some n \<Rightarrow> YMD n)"

text \<open>\<^verbatim>\<open>x.isAfter(y, 'day')\<close> on starts of day: false when either date is invalid.\<close>

definition isAfterDay :: "calendarDay option \<Rightarrow> calendarDay option \<Rightarrow> bool" where
  "isAfterDay x y = (case (x, y) of (Some a, Some b) \<Rightarrow> b < a | _ \<Rightarrow> False)"

text \<open>\<^verbatim>\<open>.day()\<close>: 0 is Sunday; 1970-01-01 was a Thursday.\<close>

definition weekday :: "int \<Rightarrow> int" where
  "weekday t = (dayOf t + 4) mod 7"

definition hour :: "int \<Rightarrow> int" where
  "hour t = (t mod MS_PER_DAY) div MS_PER_HOUR"

text \<open>\<^verbatim>\<open>x.isBefore(y)\<close>: false when either date is invalid.\<close>

definition isBefore :: "int option \<Rightarrow> int option \<Rightarrow> bool" where
  "isBefore x y = (case (x, y) of (Some a, Some b) \<Rightarrow> a < b | _ \<Rightarrow> False)"

text \<open>\<^verbatim>\<open>x.diff(y, 'hour', true)\<close>: \<open>None\<close> is NaN.\<close>

definition diffHours :: "int option \<Rightarrow> int option \<Rightarrow> real option" where
  "diffHours x y =
     (case (x, y) of (Some a, Some b) \<Rightarrow> Some (real_of_int (a - b) / real_of_int MS_PER_HOUR)
      | _ \<Rightarrow> None)"

text \<open>Year and month of a day number in the proleptic Gregorian calendar.\<close>

definition civilYearMonth :: "calendarDay \<Rightarrow> int \<times> int" where
  "civilYearMonth d =
     (let z = d + 719468;
          era = z div 146097;
          doe = z - era * 146097;
          yoe = (doe - doe div 1460 + doe div 36524 - doe div 146096) div 365;
          doy = doe - (365 * yoe + yoe div 4 - yoe div 100);
          mp = (5 * doy + 2) div 153;
          m = (if mp < 10 then mp + 3 else mp - 9);
          y = yoe + era * 400 + (if m \<le> 2 then 1 else 0)
      in (y, m))"

definition digitChar :: "int \<Rightarrow> char" where
  "digitChar n = ''0123456789'' ! nat (n mod 10)"

text \<open>The year as \<^verbatim>\<open>toISOString()\<close> prints it, four digits, for the years 0 to 9999.\<close>

definition year4 :: "int \<Rightarrow> string" where
  "year4 y = [digitChar (y div 1000), digitChar (y div 100), digitChar (y div 10), digitChar y]"

section \<open>Calendar (src/domain/calendar.ts)\<close>

definition isWeekend :: "isoString \<Rightarrow> bool" where
  "isWeekend isoStr = (case dayjs isoStr of None \<Rightarrow> False | Some t \<Rightarrow> weekday t \<in> {0, 6})"

definition isWeekendOrHoliday :: "Shift \<Rightarrow> bool" where
  "isWeekendOrHoliday shift =
     (if isHoliday shift = Some True then True
      else isWeekend (startISO shift) \<or> isWeekend (endISO shift))"

section \<open>Shabbos helpers (src/domain/shabbos.ts)\<close>

definition FRIDAY :: int where "FRIDAY = 5"
definition SATURDAY :: int where "SATURDAY = 6"

definition SATURDAY_DAYTIME_TYPES :: "ShiftType list" where
  "SATURDAY_DAYTIME_TYPES = [MOSES, WEILER]"

datatype ShabbosRestriction =
  observer_friday_call | observer_saturday_daytime | observer_night_float
  | nonobserver_night_float

definition isFridayCall :: "Shift \<Rightarrow> bool" where
  "isFridayCall shift =
     (case dayjs (startISO shift) of None \<Rightarrow> False | Some start \<Rightarrow> weekday start = FRIDAY)"

definition isNightFloat :: "Shift \<Rightarrow> bool" where
  "isNightFloat shift = (shift_type shift = NIGHT_FLOAT)"

definition isSaturdayNightFloat :: "Shift \<Rightarrow> bool" where
  "isSaturdayNightFloat shift =
     (if \<not> isNightFloat shift then False
      else (case dayjs (startISO shift) of None \<Rightarrow> False
            | Some start \<Rightarrow> weekday start = SATURDAY))"

definition isSaturdayDaytimeCall :: "Shift \<Rightarrow> bool" where
  "isSaturdayDaytimeCall shift =
     (if shift_type shift \<notin> set SATURDAY_DAYTIME_TYPES then False
      else (case dayjs (startISO shift) of None \<Rightarrow> False
            | Some start \<Rightarrow>
                if weekday start \<noteq> SATURDAY then False else hour start < 17))"

fun resolveShabbosObservers :: "(string \<times> Shift list) list \<Rightarrow> string list" where
  "resolveShabbosObservers [] = []"
| "resolveShabbosObservers ((rid, shifts) # rest) =
     (let hasSaturdayDaytimeCall = list_ex isSaturdayDaytimeCall shifts
      in if \<not> hasSaturdayDaytimeCall then rid # resolveShabbosObservers rest
         else resolveShabbosObservers rest)"

section \<open>Feasibility rules (src/domain/rules.ts)\<close>

definition hasOverlap :: "isoString \<Rightarrow> isoString \<Rightarrow> isoString \<Rightarrow> isoString \<Rightarrow> bool" where
  "hasOverlap aStartISO aEndISO bStartISO bEndISO =
     (let aStart = dayjs aStartISO; aEnd = dayjs aEndISO;
          bStart = dayjs bStartISO; bEnd = dayjs bEndISO
      in isBefore aStart bEnd \<and> isBefore bStart aEnd)"

datatype RuleViolationCode = OVERLAP | REST_WINDOW | ELIGIBILITY | TYPE_WHITELIST

text \<open>
  What a \<^verbatim>\<open>throw\<close> carries: a \<^verbatim>\<open>RuleViolationError\<close> with its code and resident id
  (the message text is left out), or any other thrown value with its message.
\<close>

datatype exn = RuleViolationError RuleViolationCode string | OtherError string

definition EMPTY_SOFT_TYPES :: "ShiftType list" where
  "EMPTY_SOFT_TYPES = []"

definition BACKUP_SOFT_TYPES :: "ShiftType list" where
  "BACKUP_SOFT_TYPES = [BACKUP]"

definition CALL_BLOCK_ROTATION_PATTERNS :: "reItem list list" where
  "CALL_BLOCK_ROTATION_PATTERNS =
     [ [WordB] @ lit ''vacation'' @ [WordB],
       [WordB] @ lit ''research'' @ [WordB],
       [WordB] @ lit ''nf'' @ [WordB],
       [WordB] @ lit ''airp'' @ [WordB],
       [WordB] @ lit ''ed'' @ [Star WsDash] @ lit ''night'' @ [Opt (Ch (CHR ''s''))],
       [WordB] @ lit ''rsna'' @ [WordB],
       [WordB] @ lit ''physics'' @ [Plus Ws] @ lit ''review'' @ [WordB],
       [WordB] @ lit ''nyrs'' @ [Plus Ws] @ lit ''review'' @ [WordB],
       [WordB] @ lit ''mmc'' @ [Plus Ws] @ lit ''board'' @ [Plus Ws] @ lit ''review''
         @ [Plus Ws] @ lit ''prep'' @ [WordB],
       [WordB] @ lit ''non-interpretive'' @ [Plus Ws] @ lit ''skills'' @ [Plus Ws]
         @ lit ''review'' @ [WordB],
       [WordB] @ lit ''abr'' @ [Plus Ws] @ lit ''board'' @ [Plus Ws] @ lit ''exam'' @ [WordB],
       [WordB] @ lit ''us'' @ [Plus Ws] @ lit ''scanning'' @ [WordB] ]"

definition MRI_COURSE_PATTERN :: "reItem list" where
  "MRI_COURSE_PATTERN = [WordB] @ lit ''mri'' @ [Plus Ws] @ lit ''course'' @ [WordB]"

definition selectBackupPair :: "Shift \<Rightarrow> Shift \<Rightarrow> ShiftType list \<Rightarrow> Shift \<times> Shift" where
  "selectBackupPair first second softTypes =
     (let firstIsSoft = shift_type first \<in> set softTypes;
          secondIsSoft = shift_type second \<in> set softTypes
      in if firstIsSoft \<and> \<not> secondIsSoft then (first, second)
         else if \<not> firstIsSoft \<and> secondIsSoft then (second, first)
         else (first, second))"

definition shouldEvaluatePair :: "Shift \<Rightarrow> Shift \<Rightarrow> string list option \<Rightarrow> bool" where
  "shouldEvaluatePair prev current focusShiftIds =
     (case focusShiftIds of None \<Rightarrow> True
      | Some focus \<Rightarrow> shift_id prev \<in> set focus \<or> shift_id current \<in> set focus)"

datatype MosesTier = junior | senior

definition getMosesTier :: "Shift \<Rightarrow> MosesTier option" where
  "getMosesTier shift =
     (if shift_type shift \<noteq> MOSES then None
      else let loc = toLowerCase (case location shift of None \<Rightarrow> [] | Some l \<Rightarrow> l);
               sid = toLowerCase (shift_id shift)
           in if includesStr loc ''junior'' \<or> includesStr sid ''moses_jr'' then Some junior
              else if includesStr loc ''senior'' \<or> includesStr sid ''moses_sr'' then Some senior
              else None)"

definition collectVacationDates :: "Resident \<Rightarrow> dateString list" where
  "collectVacationDates resident = concat (map vacationDates (rotations resident))"

definition isCallBlockedRotation :: "string \<Rightarrow> bool" where
  "isCallBlockedRotation rot =
     (let trimmed = trim rot
      in if trimmed = [] then False
         else list_ex (\<lambda>pattern. regexTest pattern trimmed) CALL_BLOCK_ROTATION_PATTERNS)"

definition matchesRotationPattern :: "string \<Rightarrow> reItem list \<Rightarrow> bool" where
  "matchesRotationPattern v pattern = regexTest pattern v"

definition resolveAcademicYearStartForDate :: "isoString \<Rightarrow> string option" where
  "resolveAcademicYearStartForDate isoDate =
     (case dayjs isoDate of None \<Rightarrow> None
      | Some target \<Rightarrow>
          (let (y, m) = civilYearMonth (dayOf target);
               academicYear = (if m < 7 then y - 1 else y)
           in Some (year4 academicYear @ ''-07-01T00:00:00.000Z'')))"

definition findResidentAcademicYearLabel :: "Resident \<Rightarrow> Shift \<Rightarrow> string option" where
  "findResidentAcademicYearLabel resident shift =
     (let assignments = academicYears resident
      in if assignments = [] then None
         else (case resolveAcademicYearStartForDate (startISO shift) of None \<Rightarrow> None
               | Some academicYearStart \<Rightarrow>
                   (case find (\<lambda>entry. academicYearStartISO entry = academicYearStart)
                           assignments of
                      None \<Rightarrow> None | Some entry \<Rightarrow> Some (label entry))))"

definition isResidentR3ForShift :: "Resident \<Rightarrow> Shift \<Rightarrow> bool" where
  "isResidentR3ForShift resident shift =
     (case findResidentAcademicYearLabel resident shift of None \<Rightarrow> False
      | Some l \<Rightarrow> if l = [] then False else toLowerCase (trim l) = ''r3'')"

definition isRotationBlockedForResident :: "RotationAssignment \<Rightarrow> Resident \<Rightarrow> Shift \<Rightarrow> bool"
  where
  "isRotationBlockedForResident assignment resident shift =
     (if isCallBlockedRotation (rotation assignment)
         \<or> isCallBlockedRotation (rawRotation assignment) then True
      else let isMriCourse =
                 matchesRotationPattern (rotation assignment) MRI_COURSE_PATTERN
                 \<or> matchesRotationPattern (rawRotation assignment) MRI_COURSE_PATTERN
           in if \<not> isMriCourse then False else isResidentR3ForShift resident shift)"

definition collectRotationBlockedDates :: "RotationAssignment \<Rightarrow> dateString list" where
  "collectRotationBlockedDates assignment =
     (case dayjs (weekStartISO assignment) of None \<Rightarrow> []
      | Some weekStart \<Rightarrow>
          (let d = dayOf weekStart
           in [YMD (d - 2), YMD (d - 1)] @ map (\<lambda>offset. YMD (d + offset)) [0..6]
              @ [YMD (d + 12), YMD (d + 13)]))"

record RotationBlockConflict =
  rbc_rotation :: string
  rbc_rotationWeekStartISO :: isoString
  rbc_conflictDates :: "dateString list"

text \<open>
  The \<^verbatim>\<open>while\<close> loop of \<^verbatim>\<open>enumerateShiftCalendarDays\<close>.  \<open>None\<close> is a loop that never
  returns: \<^verbatim>\<open>isAfter\<close> is false for an invalid date, so the loop condition stays true.
\<close>

partial_function (option) enumerateLoop ::
  "calendarDay option \<Rightarrow> calendarDay option \<Rightarrow> dateString list \<Rightarrow> dateString list option"
  where
  "enumerateLoop cursor endDay days =
     (if \<not> isAfterDay cursor endDay
      then enumerateLoop (map_option (\<lambda>d. d + 1) cursor) endDay (days @ [formatYMD cursor])
      else Some days)"

definition enumerateShiftCalendarDays :: "Shift \<Rightarrow> dateString list option" where
  "enumerateShiftCalendarDays shift =
     (let startDay = map_option dayOf (dayjs (startISO shift));
          endDay = map_option dayOf (dayjs (endISO shift))
      in enumerateLoop startDay endDay [])"

fun firstRotationConflict ::
  "RotationAssignment list \<Rightarrow> Resident \<Rightarrow> Shift \<Rightarrow> dateString list
     \<Rightarrow> RotationBlockConflict option" where
  "firstRotationConflict [] resident shift shiftDates = None"
| "firstRotationConflict (assignment # rest) resident shift shiftDates =
     (if \<not> isRotationBlockedForResident assignment resident shift
      then firstRotationConflict rest resident shift shiftDates
      else let blockedDates = collectRotationBlockedDates assignment;
               conflictDates = filter (\<lambda>date. date \<in> set blockedDates) shiftDates
           in if conflictDates \<noteq> []
              then Some \<lparr> rbc_rotation = rotation assignment,
                          rbc_rotationWeekStartISO = weekStartISO assignment,
                          rbc_conflictDates = conflictDates \<rparr>
              else firstRotationConflict rest resident shift shiftDates)"

text \<open>The outer \<open>option\<close> of the next two functions is \<open>None\<close> when the enumeration of the
  shift's days never returns.\<close>

definition shiftRotationConflicts :: "Shift \<Rightarrow> Resident \<Rightarrow> RotationBlockConflict option option"
  where
  "shiftRotationConflicts shift resident =
     (let assignments = rotations resident
      in if assignments = [] then Some None
         else (case enumerateShiftCalendarDays shift of None \<Rightarrow> None
               | Some shiftDates \<Rightarrow>
                   if shiftDates = [] then Some None
                   else Some (firstRotationConflict assignments resident shift shiftDates)))"

definition shiftVacationConflicts :: "Shift \<Rightarrow> Resident \<Rightarrow> dateString list option" where
  "shiftVacationConflicts shift resident =
     (let vacation = collectVacationDates resident
      in if vacation = [] then Some []
         else (case enumerateShiftCalendarDays shift of None \<Rightarrow> None
               | Some shiftDates \<Rightarrow> Some (filter (\<lambda>date. date \<in> set vacation) shiftDates)))"

text \<open>
  The tagged union of rejection reasons, one constructor per \<^verbatim>\<open>kind\<close>, with the fields
  of the source in their order (message texts of rule violations left out).
\<close>

datatype SwapRejectionReason =
    missing_input "string option" "string option"
  | identical_shift string
  | same_resident string string string
  | resident_missing string string string string
  | type_whitelist "ShiftType list" "string \<times> ShiftType" "string \<times> ShiftType"
  | moses_tier_mismatch string string MosesTier MosesTier
  | weekend_mismatch string string bool bool
  | eligibility_a string ShiftType "ShiftType list" string string
  | eligibility_b string ShiftType "ShiftType list" string string
  | rule_violation RuleViolationCode string string string
  | vacation_conflict string string "dateString list"
  | rotation_block string string string isoString "dateString list"
  | shabbos_restriction string string ShiftType isoString ShabbosRestriction
  | unexpected_error string string string

definition buildShabbosRestriction ::
  "Resident \<Rightarrow> Shift \<Rightarrow> ShabbosRestriction \<Rightarrow> SwapRejectionReason" where
  "buildShabbosRestriction resident incomingShift restriction =
     shabbos_restriction (res_id resident) (shift_id incomingShift) (shift_type incomingShift)
       (startISO incomingShift) restriction"

definition evaluateShabbosRestriction ::
  "Resident \<Rightarrow> Shift \<Rightarrow> string list \<Rightarrow> SwapRejectionReason option" where
  "evaluateShabbosRestriction resident incomingShift observers =
     (let observesShabbos = res_id resident \<in> set observers
      in if observesShabbos
         then (if isNightFloat incomingShift \<and> \<not> isSaturdayNightFloat incomingShift
               then Some (buildShabbosRestriction resident incomingShift observer_night_float)
               else if isFridayCall incomingShift
               then Some (buildShabbosRestriction resident incomingShift observer_friday_call)
               else if isSaturdayDaytimeCall incomingShift
               then Some (buildShabbosRestriction resident incomingShift
                            observer_saturday_daytime)
               else None)
         else if isNightFloat incomingShift \<and> \<not> isSaturdayNightFloat incomingShift
         then Some (buildShabbosRestriction resident incomingShift nonobserver_night_float)
         else None)"

fun resolveShabbosRestrictionForSwap ::
  "string list \<Rightarrow> (Resident \<times> Shift) list \<Rightarrow> SwapRejectionReason option" where
  "resolveShabbosRestrictionForSwap observers [] = None"
| "resolveShabbosRestrictionForSwap observers ((resident, incoming) # rest) =
     (case evaluateShabbosRestriction resident incoming observers of
        Some restriction \<Rightarrow> Some restriction
      | None \<Rightarrow> resolveShabbosRestrictionForSwap observers rest)"

text \<open>A function that may throw returns \<open>Inl\<close> of what it throws.\<close>

definition assertShiftAllowed :: "Shift \<Rightarrow> RuleConfig \<Rightarrow> Resident \<Rightarrow> exn + unit" where
  "assertShiftAllowed shift cfg resident =
     (if typeWhitelist cfg \<noteq> [] \<and> shift_type shift \<notin> set (typeWhitelist cfg)
      then Inl (RuleViolationError TYPE_WHITELIST (res_id resident))
      else if shift_type shift \<notin> set (eligibleShiftTypes resident)
      then Inl (RuleViolationError ELIGIBILITY (res_id resident))
      else Inr ())"

definition buildOverlapAdvisory ::
  "Shift \<Rightarrow> Shift \<Rightarrow> Resident \<Rightarrow> ShiftType list \<Rightarrow> SwapAdvisory" where
  "buildOverlapAdvisory prev current resident softTypes =
     (let (backup, other) = selectBackupPair prev current softTypes
      in \<lparr> adv_code = ADV_OVERLAP, adv_residentId = res_id resident,
           backupShiftId = shift_id backup, otherShiftId = shift_id other,
           adv_restHours = None, minimumRestHours = None \<rparr>)"

definition buildRestAdvisory ::
  "Shift \<Rightarrow> Shift \<Rightarrow> Resident \<Rightarrow> ShiftType list \<Rightarrow> real \<Rightarrow> real \<Rightarrow> SwapAdvisory" where
  "buildRestAdvisory prev current resident softTypes restHours restMin =
     (let (backup, other) = selectBackupPair prev current softTypes
      in \<lparr> adv_code = ADV_REST_WINDOW, adv_residentId = res_id resident,
           backupShiftId = shift_id backup, otherShiftId = shift_id other,
           adv_restHours = Some restHours, minimumRestHours = Some restMin \<rparr>)"

definition evaluatePair ::
  "Shift \<Rightarrow> Shift \<Rightarrow> RuleConfig \<Rightarrow> Resident \<Rightarrow> ShiftType list \<Rightarrow> exn + SwapAdvisory list"
  where
  "evaluatePair prev current cfg resident softTypes =
     (let involvesSoftType =
            (shift_type prev \<in> set softTypes \<or> shift_type current \<in> set softTypes);
          overlapping = hasOverlap (startISO prev) (endISO prev) (startISO current)
                          (endISO current)
      in if overlapping \<and> \<not> involvesSoftType
         then Inl (RuleViolationError OVERLAP (res_id resident))
         else let advisories =
                    (if overlapping then [buildOverlapAdvisory prev current resident softTypes]
                     else []);
                  restMin = restHoursMin cfg
              in if restMin > 0
                 then (case diffHours (dayjs (startISO current)) (dayjs (endISO prev)) of
                         None \<Rightarrow> Inr advisories
                       | Some restHours \<Rightarrow>
                           if restHours < restMin
                           then (if involvesSoftType
                                 then Inr (advisories @
                                        [buildRestAdvisory prev current resident softTypes
                                           restHours restMin])
                                 else Inl (RuleViolationError REST_WINDOW (res_id resident)))
                           else Inr advisories)
                 else Inr advisories)"

text \<open>The first loop of \<^verbatim>\<open>validateResidentTimeline\<close>.\<close>

fun assertShiftsAllowed ::
  "Shift list \<Rightarrow> string list option \<Rightarrow> RuleConfig \<Rightarrow> Resident \<Rightarrow> exn + unit" where
  "assertShiftsAllowed [] focusShiftIds cfg resident = Inr ()"
| "assertShiftsAllowed (shift # rest) focusShiftIds cfg resident =
     (let shouldEvaluateShift =
            (case focusShiftIds of None \<Rightarrow> True | Some focus \<Rightarrow> shift_id shift \<in> set focus)
      in if \<not> shouldEvaluateShift then assertShiftsAllowed rest focusShiftIds cfg resident
         else (case assertShiftAllowed shift cfg resident of
                 Inl e \<Rightarrow> Inl e
               | Inr u \<Rightarrow> assertShiftsAllowed rest focusShiftIds cfg resident))"

text \<open>The second loop: \<open>sorted[i - 1]\<close> and \<open>sorted[i]\<close> for \<open>i\<close> from 1, the advisories so
  far carried along.\<close>

fun evaluateTimelinePairs ::
  "Shift list \<Rightarrow> string list option \<Rightarrow> RuleConfig \<Rightarrow> Resident \<Rightarrow> ShiftType list
     \<Rightarrow> SwapAdvisory list \<Rightarrow> exn + SwapAdvisory list" where
  "evaluateTimelinePairs (prev # current # rest) focusShiftIds cfg resident softTypes advisories =
     (if \<not> shouldEvaluatePair prev current focusShiftIds
      then evaluateTimelinePairs (current # rest) focusShiftIds cfg resident softTypes advisories
      else (case evaluatePair prev current cfg resident softTypes of
              Inl e \<Rightarrow> Inl e
            | Inr pairAdvisories \<Rightarrow>
                evaluateTimelinePairs (current # rest) focusShiftIds cfg resident softTypes
                  (advisories @ pairAdvisories)))"
| "evaluateTimelinePairs shifts focusShiftIds cfg resident softTypes advisories = Inr advisories"

definition validateResidentTimeline ::
  "Shift list \<Rightarrow> RuleConfig \<Rightarrow> Resident \<Rightarrow> string list option \<Rightarrow> ShiftType list option
     \<Rightarrow> collation \<Rightarrow> exn + SwapAdvisory list" where
  "validateResidentTimeline shifts cfg resident focusShiftIds softTypesOpt coll =
     (let sorted = sortBy (\<lambda>a b. localeCompare (isoText (startISO a)) (isoText (startISO b)) coll
                                   \<le> 0) shifts;
          softTypes = (case softTypesOpt of None \<Rightarrow> EMPTY_SOFT_TYPES | Some t \<Rightarrow> t)
      in case assertShiftsAllowed sorted focusShiftIds cfg resident of
           Inl e \<Rightarrow> Inl e
         | Inr u \<Rightarrow> evaluateTimelinePairs sorted focusShiftIds cfg resident softTypes [])"

record PreparedSwap =
  p_ctx :: Context
  p_shiftA :: Shift
  p_shiftB :: Shift
  p_residentA :: Resident
  p_residentB :: Resident

definition prepareSwap ::
  "Shift option \<Rightarrow> Shift option \<Rightarrow> Context option \<Rightarrow> SwapRejectionReason + PreparedSwap" where
  "prepareSwap a' b' ctx' =
     (case (a', b', ctx') of
        (Some a, Some b, Some ctx) \<Rightarrow>
          if shift_id a = shift_id b then Inl (identical_shift (shift_id a))
          else if residentId a = residentId b
          then Inl (same_resident (residentId a) (shift_id a) (shift_id b))
          else (case (map_of (residentsById ctx) (residentId a),
                      map_of (residentsById ctx) (residentId b)) of
                  (Some residentA, Some residentB) \<Rightarrow>
                    (let tierA = getMosesTier a; tierB = getMosesTier b
                     in if tierA \<noteq> None \<and> tierB \<noteq> None \<and> tierA \<noteq> tierB
                        then Inl (moses_tier_mismatch (shift_id a) (shift_id b)
                                    (the tierA) (the tierB))
                        else let weekendOrHolidayA = isWeekendOrHoliday a;
                                 weekendOrHolidayB = isWeekendOrHoliday b
                        in if weekendOrHolidayA \<noteq> weekendOrHolidayB
                           then Inl (weekend_mismatch (shift_id a) (shift_id b)
                                       weekendOrHolidayA weekendOrHolidayB)
                           else let whitelist = typeWhitelist (ruleConfig ctx)
                           in if whitelist \<noteq> []
                                 \<and> (shift_type a \<notin> set whitelist \<or> shift_type b \<notin> set whitelist)
                              then Inl (type_whitelist whitelist (shift_id a, shift_type a)
                                          (shift_id b, shift_type b))
                              else if shift_type b \<notin> set (eligibleShiftTypes residentA)
                              then Inl (eligibility_a (res_id residentA) (shift_type b)
                                          (eligibleShiftTypes residentA) (shift_id a)
                                          (shift_id b))
                              else if shift_type a \<notin> set (eligibleShiftTypes residentB)
                              then Inl (eligibility_b (res_id residentB) (shift_type a)
                                          (eligibleShiftTypes residentB) (shift_id a)
                                          (shift_id b))
                              else Inr \<lparr> p_ctx = ctx, p_shiftA = a, p_shiftB = b,
                                         p_residentA = residentA, p_residentB = residentB \<rparr>)
                | _ \<Rightarrow> Inl (resident_missing (residentId a) (residentId b) (shift_id a)
                             (shift_id b)))
      | _ \<Rightarrow> Inl (missing_input (map_option shift_id a') (map_option shift_id b')))"

datatype SwapEvaluation =
    Feasible "SwapAdvisory list option"
  | Infeasible SwapRejectionReason "SwapAdvisory list option"

definition feasible :: "SwapEvaluation \<Rightarrow> bool" where
  "feasible e = (case e of Feasible advisories \<Rightarrow> True | Infeasible reason advisories \<Rightarrow> False)"

text \<open>The \<^verbatim>\<open>catch\<close> block of \<^verbatim>\<open>evaluateSwap\<close>.\<close>

definition catchTimelineError ::
  "exn \<Rightarrow> Shift \<Rightarrow> Shift \<Rightarrow> SwapAdvisory list \<Rightarrow> SwapEvaluation" where
  "catchTimelineError error shiftA shiftB advisories =
     (case error of
        RuleViolationError code rid \<Rightarrow>
          Infeasible (rule_violation code rid (shift_id shiftA) (shift_id shiftB))
            (if advisories \<noteq> [] then Some advisories else None)
      | OtherError message \<Rightarrow>
          Infeasible (unexpected_error message (shift_id shiftA) (shift_id shiftB))
            (if advisories \<noteq> [] then Some advisories else None))"

text \<open>The \<^verbatim>\<open>try\<close> block with its \<^verbatim>\<open>catch\<close> and the final \<^verbatim>\<open>return\<close>.\<close>

definition validateTimelines ::
  "Shift list \<Rightarrow> Shift list \<Rightarrow> RuleConfig \<Rightarrow> Resident \<Rightarrow> Resident \<Rightarrow> Shift \<Rightarrow> Shift
     \<Rightarrow> Shift \<Rightarrow> Shift
     \<Rightarrow> collation \<Rightarrow> SwapEvaluation" where
  "validateTimelines timelineA timelineB cfg residentA residentB swappedForA swappedForB
       shiftA shiftB coll =
     (case validateResidentTimeline timelineA cfg residentA (Some [shift_id swappedForA])
             (Some BACKUP_SOFT_TYPES) coll of
        Inl error \<Rightarrow> catchTimelineError error shiftA shiftB []
      | Inr advisoriesA \<Rightarrow>
          (case validateResidentTimeline timelineB cfg residentB (Some [shift_id swappedForB])
                  (Some BACKUP_SOFT_TYPES) coll of
             Inl error \<Rightarrow> catchTimelineError error shiftA shiftB advisoriesA
           | Inr advisoriesB \<Rightarrow>
               (let advisories = advisoriesA @ advisoriesB
                in if advisories \<noteq> [] then Feasible (Some advisories) else Feasible None)))"

text \<open>\<open>None\<close> is a call that never returns.\<close>

definition evaluateSwap ::
  "Shift option \<Rightarrow> Shift option \<Rightarrow> Context option
     \<Rightarrow> collation \<Rightarrow> SwapEvaluation option" where
  "evaluateSwap a b ctx coll =
     (case prepareSwap a b ctx of
        Inl failure \<Rightarrow> Some (Infeasible failure None)
      | Inr prepared \<Rightarrow>
          (let preparedCtx = p_ctx prepared;
               shiftA = p_shiftA prepared; shiftB = p_shiftB prepared;
               residentA = p_residentA prepared; residentB = p_residentB prepared;
               timelineA = filter (\<lambda>shift. shift_id shift \<noteq> shift_id shiftA)
                 (case map_of (shiftsByResident preparedCtx) (residentId shiftA) of
                    None \<Rightarrow> [] | Some shifts \<Rightarrow> shifts);
               timelineB = filter (\<lambda>shift. shift_id shift \<noteq> shift_id shiftB)
                 (case map_of (shiftsByResident preparedCtx) (residentId shiftB) of
                    None \<Rightarrow> [] | Some shifts \<Rightarrow> shifts);
               swappedForA = shiftB \<lparr> residentId := res_id residentA \<rparr>;
               swappedForB = shiftA \<lparr> residentId := res_id residentB \<rparr>
           in case resolveShabbosRestrictionForSwap (shabbosObservers preparedCtx)
                     [(residentA, swappedForA), (residentB, swappedForB)] of
                Some shabbosRestriction \<Rightarrow> Some (Infeasible shabbosRestriction None)
              | None \<Rightarrow>
           (case shiftVacationConflicts swappedForA residentA of None \<Rightarrow> None
            | Some vacationConflictsA \<Rightarrow>
           if vacationConflictsA \<noteq> []
           then Some (Infeasible (vacation_conflict (res_id residentA) (shift_id swappedForA)
                                    vacationConflictsA) None)
           else
           (case shiftRotationConflicts swappedForA residentA of None \<Rightarrow> None
            | Some (Some rotationBlockA) \<Rightarrow>
                Some (Infeasible (rotation_block (res_id residentA) (shift_id swappedForA)
                        (rbc_rotation rotationBlockA) (rbc_rotationWeekStartISO rotationBlockA)
                        (rbc_conflictDates rotationBlockA)) None)
            | Some None \<Rightarrow>
           (case shiftVacationConflicts swappedForB residentB of None \<Rightarrow> None
            | Some vacationConflictsB \<Rightarrow>
           if vacationConflictsB \<noteq> []
           then Some (Infeasible (vacation_conflict (res_id residentB) (shift_id swappedForB)
                                    vacationConflictsB) None)
           else
           (case shiftRotationConflicts swappedForB residentB of None \<Rightarrow> None
            | Some (Some rotationBlockB) \<Rightarrow>
                Some (Infeasible (rotation_block (res_id residentB) (shift_id swappedForB)
                        (rbc_rotation rotationBlockB) (rbc_rotationWeekStartISO rotationBlockB)
                        (rbc_conflictDates rotationBlockB)) None)
            | Some None \<Rightarrow>
                Some (validateTimelines (timelineA @ [swappedForA]) (timelineB @ [swappedForB])
                        (ruleConfig preparedCtx) residentA residentB swappedForA swappedForB
                        shiftA shiftB coll)))))))"

definition explainSwap :: "Shift \<Rightarrow> Shift \<Rightarrow> Context
     \<Rightarrow> collation \<Rightarrow> SwapEvaluation option" where
  "explainSwap a b ctx coll = evaluateSwap (Some a) (Some b) (Some ctx) coll"

definition isFeasibleSwap :: "Shift \<Rightarrow> Shift \<Rightarrow> Context
     \<Rightarrow> collation \<Rightarrow> bool option" where
  "isFeasibleSwap a b ctx coll = map_option feasible (evaluateSwap (Some a) (Some b) (Some ctx) coll)"

section \<open>Rotation lookup (src/utils/rotations.ts)\<close>

text \<open>The loop runs from the last assignment to the first and returns the first match.\<close>

definition findRotationForDate ::
  "RotationAssignment list \<Rightarrow> isoString \<Rightarrow> RotationAssignment option" where
  "findRotationForDate assignments isoDate =
     (if assignments = [] then None
      else (case dayjs isoDate of None \<Rightarrow> None
            | Some target \<Rightarrow>
                (let d = dayOf target
                 in find (\<lambda>assignment.
                            (case dayjs (weekStartISO assignment) of None \<Rightarrow> False
                             | Some weekStart \<Rightarrow>
                                 \<not> d < dayOf weekStart \<and> \<not> dayOf weekStart + 6 < d))
                      (rev assignments))))"

section \<open>Pressure scoring (src/domain/simipar.ts)\<close>

datatype CalendarContext = weekend | holiday

text \<open>\<open>c_rotationLabel\<close> and \<open>c_calendarContext\<close> are \<open>None\<close> for both \<^verbatim>\<open>null\<close> and
  \<^verbatim>\<open>undefined\<close>.\<close>

record SwapPressureCall =
  c_shiftId :: string
  c_shiftType :: ShiftType
  c_startISO :: isoString
  c_endISO :: isoString
  c_weight :: real
  c_baseline :: real
  c_swapped :: real
  c_delta :: real
  c_calendarContext :: "CalendarContext option"
  c_rotationLabel :: "string option"

record SwapPressureSection =
  s_residentId :: string
  s_focusShiftId :: string
  s_windowHours :: real
  s_calls :: "SwapPressureCall list"
  s_baselineTotal :: real
  s_swappedTotal :: real
  s_deltaTotal :: real

record SwapPressureBreakdown =
  score :: real
  baselineScore :: real
  swappedScore :: real
  original :: SwapPressureSection
  counterpart :: SwapPressureSection

definition COMFORTABLE_REST_BUFFER_HOURS :: real where "COMFORTABLE_REST_BUFFER_HOURS = 12"
definition CALL_WINDOW_DAYS :: real where "CALL_WINDOW_DAYS = 4"
definition CALL_WINDOW_HOURS :: real where "CALL_WINDOW_HOURS = CALL_WINDOW_DAYS * 24"
definition ZERO_CALLS :: "SwapPressureCall list" where "ZERO_CALLS = []"
definition MIN_CLOSENESS :: real where "MIN_CLOSENESS = 1 / 1000"
definition SCORE_SCALE :: real where "SCORE_SCALE = 100"
definition IP_CONSULT_MISMATCH_PENALTY :: real where "IP_CONSULT_MISMATCH_PENALTY = -50"
definition ROTATION_PRESSURE_BONUS :: real where "ROTATION_PRESSURE_BONUS = 100"

definition ROTATION_PRESSURE_PATTERNS :: "reItem list list" where
  "ROTATION_PRESSURE_PATTERNS =
     [ [WordB] @ lit ''gi'' @ [WordB],
       [WordB] @ lit ''wet'' @ [Plus Ws] @ lit ''desk'' @ [WordB],
       [WordB] @ lit ''angio'' @ [WordB],
       [WordB] @ lit ''m'' @ [Star Ws] @ lit ''neuro'' @ [Star Ws] @ lit ''&'' @ [Star Ws]
         @ lit ''procedures'' @ [WordB] ]"

definition ROTATION_MAMMO_PATTERN :: "reItem list" where
  "ROTATION_MAMMO_PATTERN = lit ''mammo''"

definition buildZeroBreakdown :: "Shift option \<Rightarrow> Shift option \<Rightarrow> SwapPressureBreakdown" where
  "buildZeroBreakdown a b =
     \<lparr> score = 0, baselineScore = 0, swappedScore = 0,
       original =
         \<lparr> s_residentId = (case a of None \<Rightarrow> [] | Some x \<Rightarrow> residentId x),
           s_focusShiftId = (case a of None \<Rightarrow> [] | Some x \<Rightarrow> shift_id x),
           s_windowHours = CALL_WINDOW_HOURS, s_calls = ZERO_CALLS,
           s_baselineTotal = 0, s_swappedTotal = 0, s_deltaTotal = 0 \<rparr>,
       counterpart =
         \<lparr> s_residentId = (case b of None \<Rightarrow> [] | Some x \<Rightarrow> residentId x),
           s_focusShiftId = (case b of None \<Rightarrow> [] | Some x \<Rightarrow> shift_id x),
           s_windowHours = CALL_WINDOW_HOURS, s_calls = ZERO_CALLS,
           s_baselineTotal = 0, s_swappedTotal = 0, s_deltaTotal = 0 \<rparr> \<rparr>"

record ScenarioContribution =
  sc_shift :: Shift
  closeness :: real
  penalty :: real

text \<open>\<^verbatim>\<open>map.set(k, v)\<close>: a present key keeps its place.\<close>

fun mapSet :: "('k \<times> 'v) list \<Rightarrow> 'k \<Rightarrow> 'v \<Rightarrow> ('k \<times> 'v) list" where
  "mapSet [] k v = [(k, v)]"
| "mapSet ((k', v') # m) k v = (if k' = k then (k, v) # m else (k', v') # mapSet m k v)"

record ScenarioSummary =
  contributions :: "(string \<times> ScenarioContribution) list"
  weightTotal :: real

text \<open>The two guarded \<^verbatim>\<open>diff\<close> calls read valid dates only, so the result is a number.\<close>

definition computeGapHours ::
  "int option \<Rightarrow> int option \<Rightarrow> int option \<Rightarrow> int option \<Rightarrow> real" where
  "computeGapHours focusStart focusEnd otherStart otherEnd =
     (case (otherEnd, focusStart) of
        (Some oe, Some fs) \<Rightarrow>
          if oe \<le> fs then real_of_int (fs - oe) / real_of_int MS_PER_HOUR
          else (case (otherStart, focusEnd) of
                  (Some os, Some fe) \<Rightarrow>
                    if os \<ge> fe then real_of_int (os - fe) / real_of_int MS_PER_HOUR else 0
                | _ \<Rightarrow> 0)
      | _ \<Rightarrow>
          (case (otherStart, focusEnd) of
             (Some os, Some fe) \<Rightarrow>
               if os \<ge> fe then real_of_int (os - fe) / real_of_int MS_PER_HOUR else 0
           | _ \<Rightarrow> 0))"

text \<open>The \<^verbatim>\<open>Number.isFinite\<close> guard is always passed: the gap is a number.\<close>

definition normaliseGap :: "real \<Rightarrow> real \<Rightarrow> real \<Rightarrow> real" where
  "normaliseGap v restMin comfortable =
     (if v \<le> restMin then 0
      else if v \<ge> comfortable then 1
      else (v - restMin) / (comfortable - restMin))"

definition collectStep :: "Shift \<Rightarrow> real \<Rightarrow> ScenarioSummary \<Rightarrow> Shift \<Rightarrow> ScenarioSummary" where
  "collectStep focusShift restMin summary other =
     (let focusStart = dayjs (startISO focusShift);
          focusEnd = dayjs (endISO focusShift);
          comfortable = max (restMin + COMFORTABLE_REST_BUFFER_HOURS) CALL_WINDOW_HOURS
      in if shift_type other = BACKUP then summary
         else let otherStart = dayjs (startISO other);
                  otherEnd = dayjs (endISO other);
                  distanceHours = map_option abs (diffHours focusStart otherStart)
              in if (case distanceHours of None \<Rightarrow> False | Some dh \<Rightarrow> dh > CALL_WINDOW_HOURS)
                 then summary
                 else let closenessRaw =
                            map_option (\<lambda>dh. 1 - dh / CALL_WINDOW_HOURS) distanceHours;
                          cl = (case closenessRaw of None \<Rightarrow> MIN_CLOSENESS
                                | Some raw \<Rightarrow> if raw > 0 then raw else MIN_CLOSENESS);
                          gapHours = computeGapHours focusStart focusEnd otherStart otherEnd;
                          restValue = normaliseGap gapHours restMin comfortable;
                          pen = - (1 - restValue)
                      in \<lparr> contributions =
                             mapSet (contributions summary) (shift_id other)
                               \<lparr> sc_shift = other, closeness = cl, penalty = pen \<rparr>,
                           weightTotal = weightTotal summary + cl \<rparr>)"

definition collectScenario :: "Shift \<Rightarrow> Shift list \<Rightarrow> real \<Rightarrow> ScenarioSummary" where
  "collectScenario focusShift otherShifts restMin =
     foldl (collectStep focusShift restMin) \<lparr> contributions = [], weightTotal = 0 \<rparr> otherShifts"

definition resolveCallCalendarContext :: "Shift \<Rightarrow> CalendarContext option" where
  "resolveCallCalendarContext shift =
     (if isHoliday shift = Some True then Some holiday
      else if isWeekend (startISO shift) \<or> isWeekend (endISO shift) then Some weekend
      else None)"

record Entry =
  e_shift :: Shift
  before :: "ScenarioContribution option"
  after :: "ScenarioContribution option"
  e_weight :: real

text \<open>The members of \<^verbatim>\<open>new Set([...xs])\<close> in insertion order.\<close>

definition setOrder :: "'a list \<Rightarrow> 'a list" where
  "setOrder xs = rev (remdups (rev xs))"

definition buildEntries ::
  "ScenarioSummary \<Rightarrow> ScenarioSummary \<Rightarrow> string list \<Rightarrow> Entry list" where
  "buildEntries baselineS swappedS mergedIds =
     concat (map (\<lambda>shiftId.
        (let bf = map_of (contributions baselineS) shiftId;
             af = map_of (contributions swappedS) shiftId
         in case (case bf of Some c \<Rightarrow> Some (sc_shift c)
                  | None \<Rightarrow> map_option sc_shift af) of
              None \<Rightarrow> []
            | Some shift \<Rightarrow>
                (let w = max (case bf of None \<Rightarrow> 0 | Some c \<Rightarrow> closeness c)
                             (case af of None \<Rightarrow> 0 | Some c \<Rightarrow> closeness c)
                 in if w \<le> 0 then []
                    else [\<lparr> e_shift = shift, before = bf, after = af, e_weight = w \<rparr>])))
       mergedIds)"

definition entryCall :: "real \<Rightarrow> Entry \<Rightarrow> SwapPressureCall" where
  "entryCall totalWeight entry =
     (let normalizedWeight = (if totalWeight > 0 then e_weight entry / totalWeight else 0);
          baselineContribution =
            (case before entry of None \<Rightarrow> 0 | Some c \<Rightarrow> penalty c * normalizedWeight);
          swappedContribution =
            (case after entry of None \<Rightarrow> 0 | Some c \<Rightarrow> penalty c * normalizedWeight);
          deltaContribution = swappedContribution - baselineContribution
      in \<lparr> c_shiftId = shift_id (e_shift entry), c_shiftType = shift_type (e_shift entry),
           c_startISO = startISO (e_shift entry), c_endISO = endISO (e_shift entry),
           c_weight = e_weight entry, c_baseline = baselineContribution,
           c_swapped = swappedContribution, c_delta = deltaContribution,
           c_calendarContext = resolveCallCalendarContext (e_shift entry),
           c_rotationLabel = None \<rparr>)"

text \<open>The comparator of \<^verbatim>\<open>calls.sort\<close>.\<close>

definition compareCalls :: "SwapPressureCall \<Rightarrow> SwapPressureCall \<Rightarrow> collation \<Rightarrow> real" where
  "compareCalls x y coll =
     (let deltaMagnitude = \<bar>c_delta y\<bar> - \<bar>c_delta x\<bar>
      in if deltaMagnitude \<noteq> 0 then deltaMagnitude
         else let weightDiff = c_weight y - c_weight x
              in if weightDiff \<noteq> 0 then weightDiff
                 else real_of_int (localeCompare (c_shiftId x) (c_shiftId y) coll))"

definition buildSection :: "Shift \<Rightarrow> Shift \<Rightarrow> Shift list \<Rightarrow> real
     \<Rightarrow> collation \<Rightarrow> SwapPressureSection" where
  "buildSection baselineShift swappedShift otherShifts restMin coll =
     (let baselineS = collectScenario baselineShift otherShifts restMin;
          swappedS = collectScenario swappedShift otherShifts restMin;
          mergedIds = setOrder (map fst (contributions baselineS)
                                @ map fst (contributions swappedS));
          entries = buildEntries baselineS swappedS mergedIds
      in if entries = []
         then \<lparr> s_residentId = residentId baselineShift, s_focusShiftId = shift_id baselineShift,
                s_windowHours = CALL_WINDOW_HOURS, s_calls = ZERO_CALLS,
                s_baselineTotal = 0, s_swappedTotal = 0, s_deltaTotal = 0 \<rparr>
         else let totalWeight = foldl (\<lambda>acc entry. acc + e_weight entry) 0 entries;
                  cs = map (entryCall totalWeight) entries;
                  baselineTot = foldl (\<lambda>acc c. acc + c_baseline c) 0 cs;
                  swappedTot = foldl (\<lambda>acc c. acc + c_swapped c) 0 cs
              in \<lparr> s_residentId = residentId baselineShift,
                   s_focusShiftId = shift_id baselineShift,
                   s_windowHours = CALL_WINDOW_HOURS,
                   s_calls = sortBy (\<lambda>x y. compareCalls x y coll \<le> 0) cs,
                   s_baselineTotal = baselineTot, s_swappedTotal = swappedTot,
                   s_deltaTotal = swappedTot - baselineTot \<rparr>)"

definition resolveShiftMultiplier :: "Shift \<Rightarrow> real" where
  "resolveShiftMultiplier shift =
     (if shift_type shift = BACKUP then 1
      else let weekendOrHoliday = isWeekendOrHoliday shift;
               nightFloat = (shift_type shift = NIGHT_FLOAT)
           in if \<not> weekendOrHoliday \<and> \<not> nightFloat then 1
              else if weekendOrHoliday \<and> nightFloat then 4 else 2)"

definition scaleCall :: "real \<Rightarrow> SwapPressureCall \<Rightarrow> SwapPressureCall" where
  "scaleCall factor c =
     c \<lparr> c_baseline := c_baseline c * factor, c_swapped := c_swapped c * factor,
         c_delta := c_delta c * factor \<rparr>"

definition scaleSection :: "real \<Rightarrow> SwapPressureSection \<Rightarrow> SwapPressureSection" where
  "scaleSection factor section =
     section \<lparr> s_calls := (if s_calls section = [] then s_calls section
                           else map (scaleCall factor) (s_calls section)),
               s_baselineTotal := s_baselineTotal section * factor,
               s_swappedTotal := s_swappedTotal section * factor,
               s_deltaTotal := s_deltaTotal section * factor \<rparr>"

text \<open>The factor is a product of numbers, hence finite.\<close>

definition scaleBreakdown :: "SwapPressureBreakdown \<Rightarrow> real \<Rightarrow> SwapPressureBreakdown" where
  "scaleBreakdown breakdown factor =
     (if factor = 1 then breakdown
      else breakdown \<lparr> score := score breakdown * factor,
                       baselineScore := baselineScore breakdown * factor,
                       swappedScore := swappedScore breakdown * factor,
                       original := scaleSection factor (original breakdown),
                       counterpart := scaleSection factor (counterpart breakdown) \<rparr>)"

definition isMosesSenior :: "Shift \<Rightarrow> bool" where
  "isMosesSenior shift =
     (if shift_type shift \<noteq> MOSES then False
      else let loc = toLowerCase (case location shift of None \<Rightarrow> [] | Some l \<Rightarrow> l)
           in if includesStr loc ''senior'' then True
              else includesStr (toLowerCase (shift_id shift)) ''moses_sr'')"

definition hasAssociatedIpConsult :: "Shift \<Rightarrow> Context \<Rightarrow> bool" where
  "hasAssociatedIpConsult shift ctx =
     (case map_of (shiftsByResident ctx) (residentId shift) of None \<Rightarrow> False
      | Some residentShifts \<Rightarrow>
          (case dayjs (startISO shift) of None \<Rightarrow> False
           | Some targetDay \<Rightarrow>
               list_ex (\<lambda>other.
                  if shift_id other = shift_id shift then False
                  else if shift_type other \<noteq> IP_CONSULT then False
                  else (case dayjs (startISO other) of None \<Rightarrow> False
                        | Some otherDay \<Rightarrow> dayOf otherDay = dayOf targetDay))
                 residentShifts))"

definition resolveIpConsultPenalty :: "Shift \<Rightarrow> Shift \<Rightarrow> Context \<Rightarrow> real" where
  "resolveIpConsultPenalty a b ctx =
     (if \<not> isMosesSenior a \<or> \<not> isMosesSenior b then 0
      else let aHasConsult = hasAssociatedIpConsult a ctx;
               bHasConsult = hasAssociatedIpConsult b ctx
           in if aHasConsult = bHasConsult then 0 else IP_CONSULT_MISMATCH_PENALTY)"

definition appendPenalty :: "real \<Rightarrow> SwapPressureSection \<Rightarrow> Shift \<Rightarrow> SwapPressureSection" where
  "appendPenalty share section shift =
     (let penaltyCall =
            \<lparr> c_shiftId = ''penalty:ip-consult:'' @ shift_id shift,
              c_shiftType = shift_type shift, c_startISO = startISO shift,
              c_endISO = endISO shift, c_weight = 0, c_baseline = 0, c_swapped = share,
              c_delta = share, c_calendarContext = resolveCallCalendarContext shift,
              c_rotationLabel = None \<rparr>
      in section \<lparr> s_calls := s_calls section @ [penaltyCall],
                   s_swappedTotal := s_swappedTotal section + share,
                   s_deltaTotal := s_deltaTotal section + share \<rparr>)"

definition applyIpConsultPenalty ::
  "SwapPressureBreakdown \<Rightarrow> real \<Rightarrow> Shift \<Rightarrow> Shift \<Rightarrow> SwapPressureBreakdown" where
  "applyIpConsultPenalty breakdown pen originalShift counterpartShift =
     (if pen = 0 then breakdown
      else let share = pen / 2
           in breakdown \<lparr> score := score breakdown + pen,
                          swappedScore := swappedScore breakdown + pen,
                          original := appendPenalty share (original breakdown) originalShift,
                          counterpart :=
                            appendPenalty share (counterpart breakdown) counterpartShift \<rparr>)"

record RotationPressureBonus =
  bonus_value :: real
  bonus_label :: "string option"

definition isHighPressureRotationName :: "string \<Rightarrow> bool" where
  "isHighPressureRotationName v =
     (if v = [] then False
      else let normalized = trim v
           in if normalized = [] then False
              else if regexTest ROTATION_MAMMO_PATTERN normalized then True
              else list_ex (\<lambda>pattern. regexTest pattern normalized) ROTATION_PRESSURE_PATTERNS)"

definition resolveRotationPressureBonus :: "Resident \<Rightarrow> Shift \<Rightarrow> RotationPressureBonus" where
  "resolveRotationPressureBonus resident shift =
     (if rotations resident = [] then \<lparr> bonus_value = 0, bonus_label = None \<rparr>
      else (case findRotationForDate (rotations resident) (startISO shift) of
              None \<Rightarrow> \<lparr> bonus_value = 0, bonus_label = None \<rparr>
            | Some assignment \<Rightarrow>
                (case find isHighPressureRotationName
                        [rotation assignment, rawRotation assignment] of
                   None \<Rightarrow> \<lparr> bonus_value = 0, bonus_label = None \<rparr>
                 | Some matched \<Rightarrow>
                     \<lparr> bonus_value = ROTATION_PRESSURE_BONUS,
                       bonus_label =
                         (if trim matched \<noteq> [] then Some (trim matched)
                          else if rotation assignment \<noteq> [] then Some (rotation assignment)
                          else if rawRotation assignment \<noteq> []
                          then Some (rawRotation assignment) else None) \<rparr>)))"

datatype SectionKey = original_key | counterpart_key

datatype PressureMode = baseline_mode | swapped_mode

definition appendRotationPressureCall ::
  "SwapPressureBreakdown \<Rightarrow> SectionKey \<Rightarrow> Shift \<Rightarrow> Resident \<Rightarrow> PressureMode
     \<Rightarrow> RotationPressureBonus \<Rightarrow> SwapPressureBreakdown" where
  "appendRotationPressureCall breakdown sectionKey shift resident mode bonus =
     (let section = (if sectionKey = original_key then original breakdown
                     else counterpart breakdown);
          bl = (if mode = baseline_mode then - bonus_value bonus else 0);
          sw = (if mode = baseline_mode then 0 else - bonus_value bonus);
          dl = (if mode = baseline_mode then bonus_value bonus else - bonus_value bonus);
          rotationCall =
            \<lparr> c_shiftId = ''bonus:rotation:''
                  @ (if mode = baseline_mode then ''baseline'' else ''swapped'')
                  @ '':'' @ shift_id shift @ '':'' @ res_id resident,
              c_shiftType = shift_type shift, c_startISO = startISO shift,
              c_endISO = endISO shift, c_weight = 0, c_baseline = bl, c_swapped = sw,
              c_delta = dl, c_calendarContext = resolveCallCalendarContext shift,
              c_rotationLabel = bonus_label bonus \<rparr>;
          updatedSection =
            section \<lparr> s_calls := s_calls section @ [rotationCall],
                      s_baselineTotal := s_baselineTotal section + bl,
                      s_swappedTotal := s_swappedTotal section + sw,
                      s_deltaTotal := s_deltaTotal section + dl \<rparr>
      in breakdown \<lparr> score := score breakdown + dl,
                     baselineScore := baselineScore breakdown + bl,
                     swappedScore := swappedScore breakdown + sw,
                     original := (if sectionKey = original_key then updatedSection
                                  else original breakdown),
                     counterpart := (if sectionKey = counterpart_key then updatedSection
                                     else counterpart breakdown) \<rparr>)"

definition applyRotationPressure ::
  "SwapPressureBreakdown \<Rightarrow> Shift \<Rightarrow> Shift \<Rightarrow> Resident \<Rightarrow> Resident \<Rightarrow> SwapPressureBreakdown"
  where
  "applyRotationPressure breakdown originalShift counterpartShift originalResident
       counterpartResident =
     (let originalBaseline = resolveRotationPressureBonus originalResident originalShift;
          updated1 = (if bonus_value originalBaseline > 0
                      then appendRotationPressureCall breakdown original_key originalShift
                             originalResident baseline_mode originalBaseline
                      else breakdown);
          originalSwapped = resolveRotationPressureBonus originalResident counterpartShift;
          updated2 = (if bonus_value originalSwapped > 0
                      then appendRotationPressureCall updated1 original_key counterpartShift
                             originalResident swapped_mode originalSwapped
                      else updated1);
          counterpartBaseline =
            resolveRotationPressureBonus counterpartResident counterpartShift;
          updated3 = (if bonus_value counterpartBaseline > 0
                      then appendRotationPressureCall updated2 counterpart_key counterpartShift
                             counterpartResident baseline_mode counterpartBaseline
                      else updated2);
          counterpartSwapped = resolveRotationPressureBonus counterpartResident originalShift;
          updated4 = (if bonus_value counterpartSwapped > 0
                      then appendRotationPressureCall updated3 counterpart_key originalShift
                             counterpartResident swapped_mode counterpartSwapped
                      else updated3)
      in updated4)"

text \<open>
  The score before the consult penalty and the rotation-pressure calls are added:
  the two sections combined and scaled (\<^verbatim>\<open>scaledBreakdown\<close> in the source).
\<close>

definition scaledPressure ::
  "Shift \<Rightarrow> Shift \<Rightarrow> Context \<Rightarrow> Resident \<Rightarrow> Resident
     \<Rightarrow> collation \<Rightarrow> SwapPressureBreakdown" where
  "scaledPressure a b ctx residentA residentB coll =
     (let otherShiftsA = filter (\<lambda>shift. shift_id shift \<noteq> shift_id a)
            (case map_of (shiftsByResident ctx) (residentId a) of
               None \<Rightarrow> [] | Some shifts \<Rightarrow> shifts);
          otherShiftsB = filter (\<lambda>shift. shift_id shift \<noteq> shift_id b)
            (case map_of (shiftsByResident ctx) (residentId b) of
               None \<Rightarrow> [] | Some shifts \<Rightarrow> shifts);
          restMin = max 0 (restHoursMin (ruleConfig ctx));
          originalSection =
            buildSection a (b \<lparr> residentId := res_id residentA \<rparr>) otherShiftsA restMin coll;
          counterpartSection =
            buildSection b (a \<lparr> residentId := res_id residentB \<rparr>) otherShiftsB restMin coll;
          baselineSc = s_baselineTotal originalSection + s_baselineTotal counterpartSection;
          swappedSc = s_swappedTotal originalSection + s_swappedTotal counterpartSection;
          deltaScore = swappedSc - baselineSc;
          breakdown = \<lparr> score = deltaScore, baselineScore = baselineSc,
                        swappedScore = swappedSc, original = originalSection,
                        counterpart = counterpartSection \<rparr>;
          multiplier = SCORE_SCALE * resolveShiftMultiplier a * resolveShiftMultiplier b
      in scaleBreakdown breakdown multiplier)"

definition calculateSwapPressure ::
  "Shift option \<Rightarrow> Shift option \<Rightarrow> Context option
     \<Rightarrow> collation \<Rightarrow> SwapPressureBreakdown" where
  "calculateSwapPressure a' b' ctx' coll =
     (let zero = buildZeroBreakdown a' b'
      in case (a', b', ctx') of
           (Some a, Some b, Some ctx) \<Rightarrow>
             if shift_id a = shift_id b \<or> residentId a = residentId b then zero
             else (case (map_of (residentsById ctx) (residentId a),
                         map_of (residentsById ctx) (residentId b)) of
                     (Some residentA, Some residentB) \<Rightarrow>
                       if shift_type b \<notin> set (eligibleShiftTypes residentA) then zero
                       else if shift_type a \<notin> set (eligibleShiftTypes residentB) then zero
                       else let scaledBreakdown = scaledPressure a b ctx residentA residentB coll;
                                pen = resolveIpConsultPenalty a b ctx;
                                withConsultPenalty =
                                  applyIpConsultPenalty scaledBreakdown pen a b
                            in applyRotationPressure withConsultPenalty a b residentA residentB
                   | _ \<Rightarrow> zero)
         | _ \<Rightarrow> zero)"

definition proximityPressure :: "Shift \<Rightarrow> Shift \<Rightarrow> Context \<Rightarrow> collation \<Rightarrow> real" where
  "proximityPressure a b ctx coll = score (calculateSwapPressure (Some a) (Some b) (Some ctx) coll)"

section \<open>Context transfer (src/engine/contextTransfer.ts)\<close>

record SerializableContext =
  sz_ruleConfig :: RuleConfig
  sz_residentsById :: "(string \<times> Resident) list"
  sz_shiftsByResident :: "(string \<times> Shift list) list"
  sz_shabbosObservers :: "string list"

text \<open>\<^verbatim>\<open>new Map(entries)\<close> and \<^verbatim>\<open>new Set(members)\<close>.\<close>

definition newMap :: "('k \<times> 'v) list \<Rightarrow> ('k \<times> 'v) list" where
  "newMap entries = foldl (\<lambda>m (k, v). mapSet m k v) [] entries"

definition newSet :: "'a list \<Rightarrow> 'a list" where
  "newSet members = setOrder members"

definition serializeContext :: "Context \<Rightarrow> SerializableContext" where
  "serializeContext ctx =
     \<lparr> sz_ruleConfig = ruleConfig ctx,
       sz_residentsById = residentsById ctx,
       sz_shiftsByResident = shiftsByResident ctx,
       sz_shabbosObservers = shabbosObservers ctx \<rparr>"

definition hydrateContext :: "SerializableContext \<Rightarrow> Context" where
  "hydrateContext d =
     \<lparr> ruleConfig = sz_ruleConfig d,
       residentsById = newMap (sz_residentsById d),
       shiftsByResident = newMap (sz_shiftsByResident d),
       shabbosObservers = newSet (sz_shabbosObservers d) \<rparr>"

text \<open>A context whose maps and set are JavaScript \<^verbatim>\<open>Map\<close>s and a \<^verbatim>\<open>Set\<close>: no key and no
  member occurs twice.\<close>

definition wellFormedContext :: "Context \<Rightarrow> bool" where
  "wellFormedContext ctx =
     (distinct (map fst (residentsById ctx)) \<and> distinct (map fst (shiftsByResident ctx))
      \<and> distinct (shabbosObservers ctx))"

section \<open>Worker protocol, worker and pool (src/engine)\<close>

record ShiftPair =
  pair_a :: Shift
  pair_b :: Shift

record SwapCandidate =
  cand_a :: Shift
  cand_b :: Shift
  cand_score :: real
  pressure :: SwapPressureBreakdown
  advisories :: "SwapAdvisory list option"

type_synonym DiagnosticSample = "SwapRejectionReason \<times> string \<times> string"

record EvaluationDiagnostics =
  totalPairs :: nat
  accepted :: nat
  rejectionReasons :: "(string \<times> nat) list"
  samples :: "DiagnosticSample list option"

record WorkerIn =
  in_pairs :: "ShiftPair list"
  in_ctx :: SerializableContext

record WorkerOut =
  candidates :: "SwapCandidate list"
  chunkSize :: nat
  diagnostics :: "EvaluationDiagnostics option"

text \<open>\<^verbatim>\<open>reason.kind\<close>\<close>

fun kind :: "SwapRejectionReason \<Rightarrow> string" where
  "kind (missing_input x y) = ''missing-input''"
| "kind (identical_shift x) = ''identical-shift''"
| "kind (same_resident x y z) = ''same-resident''"
| "kind (resident_missing x y z w) = ''resident-missing''"
| "kind (type_whitelist x y z) = ''type-whitelist''"
| "kind (moses_tier_mismatch x y z w) = ''moses-tier-mismatch''"
| "kind (weekend_mismatch x y z w) = ''weekend-mismatch''"
| "kind (eligibility_a x y z w v) = ''eligibility-a''"
| "kind (eligibility_b x y z w v) = ''eligibility-b''"
| "kind (rule_violation x y z w) = ''rule-violation''"
| "kind (vacation_conflict x y z) = ''vacation-conflict''"
| "kind (rotation_block x y z w v) = ''rotation-block''"
| "kind (shabbos_restriction x y z w v) = ''shabbos-restriction''"
| "kind (unexpected_error x y z) = ''unexpected-error''"

definition countReason :: "(string \<times> nat) list \<Rightarrow> string \<Rightarrow> (string \<times> nat) list" where
  "countReason reasons key =
     mapSet reasons key ((case map_of reasons key of None \<Rightarrow> 0 | Some n \<Rightarrow> n) + 1)"

definition pushSample ::
  "DiagnosticSample list \<Rightarrow> SwapRejectionReason \<Rightarrow> ShiftPair \<Rightarrow> DiagnosticSample list" where
  "pushSample smp reason pair =
     (if length smp < 10 then smp @ [(reason, shift_id (pair_a pair), shift_id (pair_b pair))]
      else smp)"

definition makeCandidate :: "ShiftPair \<Rightarrow> Context \<Rightarrow> SwapAdvisory list option
     \<Rightarrow> collation \<Rightarrow> SwapCandidate"
  where
  "makeCandidate pair ctx advs coll =
     (let pr = calculateSwapPressure (Some (pair_a pair)) (Some (pair_b pair)) (Some ctx) coll
      in \<lparr> cand_a = pair_a pair, cand_b = pair_b pair, cand_score = score pr, pressure = pr,
           advisories = advs \<rparr>)"

text \<open>The loop of the worker's \<^verbatim>\<open>onmessage\<close>, with the candidates, the rejection counts
  and the samples so far.  \<open>None\<close>: an evaluation in the loop never returns.\<close>

fun workerLoop ::
  "ShiftPair list \<Rightarrow> Context \<Rightarrow> SwapCandidate list \<Rightarrow> (string \<times> nat) list
     \<Rightarrow> DiagnosticSample list
     \<Rightarrow> collation \<Rightarrow> (SwapCandidate list \<times> (string \<times> nat) list \<times> DiagnosticSample list) option" where
  "workerLoop [] ctx cands reasons smp coll = Some (cands, reasons, smp)"
| "workerLoop (pair # rest) ctx cands reasons smp coll =
     (case explainSwap (pair_a pair) (pair_b pair) ctx coll of
        None \<Rightarrow> None
      | Some (Infeasible reason advs) \<Rightarrow>
          workerLoop rest ctx cands (countReason reasons (kind reason))
            (pushSample smp reason pair) coll
      | Some (Feasible advs) \<Rightarrow>
          workerLoop rest ctx (cands @ [makeCandidate pair ctx advs coll]) reasons smp coll)"

definition workerOnMessage :: "WorkerIn \<Rightarrow> collation \<Rightarrow> WorkerOut option" where
  "workerOnMessage message coll =
     (let ctx = hydrateContext (in_ctx message)
      in case workerLoop (in_pairs message) ctx [] [] [] coll of
           None \<Rightarrow> None
         | Some (cands, reasons, smp) \<Rightarrow>
             Some \<lparr> candidates = cands, chunkSize = length (in_pairs message),
                    diagnostics =
                      Some \<lparr> totalPairs = length (in_pairs message), accepted = length cands,
                             rejectionReasons = reasons,
                             samples = (if smp \<noteq> [] then Some smp else None) \<rparr> \<rparr>)"

definition CANDIDATE_WORKER_THRESHOLD :: nat where "CANDIDATE_WORKER_THRESHOLD = 200"
definition MAX_POOL_SIZE :: nat where "MAX_POOL_SIZE = 4"

text \<open>
  The pool: its threshold and size, whether workers can be spawned
  (\<^verbatim>\<open>canSpawnWorkers(this.spawnability)\<close>), the number of adapters alive, and the
  \<^verbatim>\<open>terminated\<close> flag.  Every adapter runs the same worker; a task's reply is the value
  of the worker's handler on the task's message.
\<close>

record SwapWorkerPool =
  threshold :: nat
  canSpawnWorkers :: bool
  pool_size :: nat
  adapters :: nat
  terminated :: bool

fun addReasonCounts :: "(string \<times> nat) list \<Rightarrow> (string \<times> nat) list \<Rightarrow> (string \<times> nat) list"
  where
  "addReasonCounts target [] = target"
| "addReasonCounts target ((reason, n) # rest) =
     addReasonCounts
       (mapSet target reason ((case map_of target reason of None \<Rightarrow> 0 | Some m \<Rightarrow> m) + n))
       rest"

definition collectSamples :: "EvaluationDiagnostics list \<Rightarrow> DiagnosticSample list" where
  "collectSamples entries =
     take 10 (concat (map (\<lambda>entry. case samples entry of None \<Rightarrow> [] | Some smp \<Rightarrow> smp)
                        entries))"

definition mergeDiagnostics ::
  "EvaluationDiagnostics option list \<Rightarrow> EvaluationDiagnostics option" where
  "mergeDiagnostics entries =
     (let present = concat (map (\<lambda>entry. case entry of None \<Rightarrow> [] | Some d \<Rightarrow> [d]) entries)
      in if present = [] then None
         else let smp = collectSamples present
              in Some \<lparr> totalPairs = foldl (\<lambda>acc item. acc + totalPairs item) 0 present,
                        accepted = foldl (\<lambda>acc item. acc + accepted item) 0 present,
                        rejectionReasons =
                          foldl (\<lambda>target entry. addReasonCounts target (rejectionReasons entry))
                            [] present,
                        samples = (if smp \<noteq> [] then Some smp else None) \<rparr>)"

definition shouldUseWorkers :: "SwapWorkerPool \<Rightarrow> nat \<Rightarrow> bool" where
  "shouldUseWorkers pool candidateCount =
     (if \<not> canSpawnWorkers pool then False
      else if pool_size pool \<le> 1 then False
      else candidateCount \<ge> threshold pool)"

text \<open>The number of adapters after \<^verbatim>\<open>ensureAdapters\<close>; it throws when none could be made.\<close>

definition ensureAdapters :: "SwapWorkerPool \<Rightarrow> exn + nat" where
  "ensureAdapters pool =
     (if adapters pool > 0 \<or> \<not> canSpawnWorkers pool then Inr (adapters pool)
      else if pool_size pool = 0 then Inl (OtherError ''Unable to spawn worker pool'')
      else Inr (pool_size pool))"

text \<open>The loop of \<^verbatim>\<open>evaluatePairsSync\<close>, with \<^verbatim>\<open>out\<close>, the rejection counts, the
  samples and \<^verbatim>\<open>accepted\<close> so far.\<close>

fun syncLoop ::
  "ShiftPair list \<Rightarrow> Context \<Rightarrow> SwapCandidate list \<Rightarrow> (string \<times> nat) list
     \<Rightarrow> DiagnosticSample list \<Rightarrow> nat
     \<Rightarrow> collation \<Rightarrow> (SwapCandidate list \<times> (string \<times> nat) list \<times> DiagnosticSample list \<times> nat) option"
  where
  "syncLoop [] ctx out reasons smp acc coll = Some (out, reasons, smp, acc)"
| "syncLoop (pair # rest) ctx out reasons smp acc coll =
     (case explainSwap (pair_a pair) (pair_b pair) ctx coll of
        None \<Rightarrow> None
      | Some (Infeasible reason advs) \<Rightarrow>
          syncLoop rest ctx out (countReason reasons (kind reason))
            (pushSample smp reason pair) acc coll
      | Some (Feasible advs) \<Rightarrow>
          syncLoop rest ctx (out @ [makeCandidate pair ctx advs coll]) reasons smp (acc + 1) coll)"

definition evaluatePairsSync :: "ShiftPair list \<Rightarrow> Context
     \<Rightarrow> collation \<Rightarrow> SwapCandidate list option" where
  "evaluatePairsSync pairs ctx coll =
     (case syncLoop pairs ctx [] [] [] 0 coll of None \<Rightarrow> None
      | Some (out, reasons, smp, acc) \<Rightarrow> Some out)"

text \<open>\<^verbatim>\<open>pairs.slice(i, i + chunkSize)\<close> for \<open>i = 0, chunkSize, 2 * chunkSize, ...\<close>; the
  chunk size is at least 1.\<close>

function chunkPairs :: "nat \<Rightarrow> 'a list \<Rightarrow> 'a list list" where
  "chunkPairs k xs = (if xs = [] \<or> k = 0 then [] else take k xs # chunkPairs k (drop k xs))"
  by pat_completeness auto
termination
  by (relation "measure (\<lambda>(k, xs). length xs)") auto

text \<open>\<^verbatim>\<open>await Promise.all(tasks)\<close>: all replies in task order, or no return when a task
  never replies.\<close>

fun promiseAll :: "'a option list \<Rightarrow> 'a list option" where
  "promiseAll [] = Some []"
| "promiseAll (None # rest) = None"
| "promiseAll (Some r # rest) = (case promiseAll rest of None \<Rightarrow> None | Some rs \<Rightarrow> Some (r # rs))"

text \<open>\<^verbatim>\<open>SwapWorkerPool.evaluatePairs\<close>: \<open>Some (Inl e)\<close> is a rejected promise, \<open>None\<close> a
  promise that never settles.\<close>

definition evaluatePairs ::
  "SwapWorkerPool \<Rightarrow> ShiftPair list \<Rightarrow> Context
     \<Rightarrow> collation \<Rightarrow> (exn + SwapCandidate list) option" where
  "evaluatePairs pool pairs ctx coll =
     (if terminated pool then Some (Inl (OtherError ''SwapWorkerPool has been terminated''))
      else if \<not> shouldUseWorkers pool (length pairs)
      then map_option Inr (evaluatePairsSync pairs ctx coll)
      else (case ensureAdapters pool of
              Inl e \<Rightarrow> Some (Inl e)
            | Inr adapterCount \<Rightarrow>
                (let serializedCtx = serializeContext ctx;
                     size = max 1 ((length pairs + adapterCount - 1) div adapterCount);
                     tasks = map (\<lambda>chunk. workerOnMessage
                                    \<lparr> in_pairs = chunk, in_ctx = serializedCtx \<rparr> coll)
                               (chunkPairs size pairs)
                 in case promiseAll tasks of
                      None \<Rightarrow> None
                    | Some results \<Rightarrow>
                        (let flattened = concat (map candidates results);
                             diag = mergeDiagnostics (map diagnostics results);
                             diagnosticsMismatch =
                               (case diag of None \<Rightarrow> True
                                | Some d \<Rightarrow> accepted d \<noteq> length flattened)
                         in if length pairs > 0 \<and> diagnosticsMismatch
                            then map_option Inr (evaluatePairsSync pairs ctx coll)
                            else Some (Inr flattened)))))"

section \<open>Notions used in the statements\<close>

text \<open>The checks of \<^verbatim>\<open>prepareSwap\<close> that a pair passes to reach the later checks, with
  the two residents found in the context.\<close>

definition gatesPass :: "Shift \<Rightarrow> Shift \<Rightarrow> Context \<Rightarrow> Resident \<Rightarrow> Resident \<Rightarrow> bool" where
  "gatesPass a b ctx rA rB =
     (shift_id a \<noteq> shift_id b \<and> residentId a \<noteq> residentId b
      \<and> map_of (residentsById ctx) (residentId a) = Some rA
      \<and> map_of (residentsById ctx) (residentId b) = Some rB
      \<and> (getMosesTier a = None \<or> getMosesTier b = None \<or> getMosesTier a = getMosesTier b)
      \<and> isWeekendOrHoliday a = isWeekendOrHoliday b
      \<and> (typeWhitelist (ruleConfig ctx) = []
          \<or> (shift_type a \<in> set (typeWhitelist (ruleConfig ctx))
              \<and> shift_type b \<in> set (typeWhitelist (ruleConfig ctx))))
      \<and> shift_type b \<in> set (eligibleShiftTypes rA)
      \<and> shift_type a \<in> set (eligibleShiftTypes rB))"

text \<open>A person's shifts without the one given away.\<close>

definition otherShiftsOf :: "Context \<Rightarrow> Shift \<Rightarrow> Shift list" where
  "otherShiftsOf ctx sh =
     filter (\<lambda>shift. shift_id shift \<noteq> shift_id sh)
       (case map_of (shiftsByResident ctx) (residentId sh) of None \<Rightarrow> [] | Some shifts \<Rightarrow> shifts)"

definition timelineOk :: "Context \<Rightarrow> Resident \<Rightarrow> Shift \<Rightarrow> Shift list
     \<Rightarrow> collation \<Rightarrow> bool" where
  "timelineOk ctx r incoming others coll =
     (\<exists>advs. validateResidentTimeline (others @ [incoming]) (ruleConfig ctx) r
               (Some [shift_id incoming]) (Some BACKUP_SOFT_TYPES) coll = Inr advs)"

definition personAccepts :: "Context \<Rightarrow> Resident \<Rightarrow> Shift \<Rightarrow> Shift list
     \<Rightarrow> collation \<Rightarrow> bool" where
  "personAccepts ctx r incoming others coll =
     (evaluateShabbosRestriction r incoming (shabbosObservers ctx) = None
      \<and> shiftVacationConflicts incoming r = Some []
      \<and> shiftRotationConflicts incoming r = Some None
      \<and> timelineOk ctx r incoming others coll)"

text \<open>Both date-time strings of the shift parse.\<close>

definition validShift :: "Shift \<Rightarrow> bool" where
  "validShift s = (dayjs (startISO s) \<noteq> None \<and> dayjs (endISO s) \<noteq> None)"

text \<open>The shift as the receiving person would hold it.\<close>

definition received :: "Shift \<Rightarrow> Resident \<Rightarrow> Shift" where
  "received sh r = sh \<lparr> residentId := res_id r \<rparr>"

text \<open>The vacation check and the rotation check of one person in \<^verbatim>\<open>evaluateSwap\<close>, followed
  by the rest of the evaluation.\<close>

definition personDateChecks ::
  "Resident \<Rightarrow> Shift \<Rightarrow> SwapEvaluation option \<Rightarrow> SwapEvaluation option" where
  "personDateChecks r inc rest =
     (case shiftVacationConflicts inc r of None \<Rightarrow> None
      | Some conflicts \<Rightarrow>
          if conflicts \<noteq> []
          then Some (Infeasible (vacation_conflict (res_id r) (shift_id inc) conflicts) None)
          else (case shiftRotationConflicts inc r of None \<Rightarrow> None
                | Some (Some block) \<Rightarrow>
                    Some (Infeasible (rotation_block (res_id r) (shift_id inc)
                            (rbc_rotation block) (rbc_rotationWeekStartISO block)
                            (rbc_conflictDates block)) None)
                | Some None \<Rightarrow> rest))"

text \<open>The advisories attached to an evaluation, none when the field is absent.\<close>

definition advisoriesOf :: "SwapEvaluation \<Rightarrow> SwapAdvisory list" where
  "advisoriesOf e =
     (case e of
        Feasible advs \<Rightarrow> (case advs of None \<Rightarrow> [] | Some l \<Rightarrow> l)
      | Infeasible reason advs \<Rightarrow> (case advs of None \<Rightarrow> [] | Some l \<Rightarrow> l))"

text \<open>The context with another configured minimum rest.\<close>

definition withRestHoursMin :: "Context \<Rightarrow> real \<Rightarrow> Context" where
  "withRestHoursMin ctx m = ctx \<lparr> ruleConfig := (ruleConfig ctx) \<lparr> restHoursMin := m \<rparr> \<rparr>"



text \<open>The candidates a batch yields, pair by pair: the accepted pairs in order, each with
  its pressure breakdown; \<open>None\<close> when an evaluation never returns.\<close>

fun candidatesOf :: "ShiftPair list \<Rightarrow> Context
     \<Rightarrow> collation \<Rightarrow> SwapCandidate list option" where
  "candidatesOf [] ctx coll = Some []"
| "candidatesOf (pair # rest) ctx coll =
     (case explainSwap (pair_a pair) (pair_b pair) ctx coll of
        None \<Rightarrow> None
      | Some (Infeasible reason advs) \<Rightarrow> candidatesOf rest ctx coll
      | Some (Feasible advs) \<Rightarrow>
          (case candidatesOf rest ctx coll of None \<Rightarrow> None
           | Some cs \<Rightarrow> Some (makeCandidate pair ctx advs coll # cs)))"

text \<open>A person passes the Shabbos check, the vacation check and the rotation check for the
  assignment they would receive.\<close>

definition passesDateChecks :: "Context \<Rightarrow> Resident \<Rightarrow> Shift \<Rightarrow> bool" where
  "passesDateChecks ctx r inc =
     (evaluateShabbosRestriction r inc (shabbosObservers ctx) = None
      \<and> shiftVacationConflicts inc r = Some []
      \<and> shiftRotationConflicts inc r = Some None)"

text \<open>The neighbouring pairs of a list, in order.\<close>

fun adjacentPairs :: "'a list \<Rightarrow> ('a \<times> 'a) list" where
  "adjacentPairs (x # y # rest) = (x, y) # adjacentPairs (y # rest)"
| "adjacentPairs xs = []"

text \<open>A timeline in the order of the start texts, and the neighbouring pairs of a person's
  timeline after the swap that include the incoming assignment.\<close>

definition startOrdered :: "Shift list \<Rightarrow> collation \<Rightarrow> Shift list" where
  "startOrdered shifts coll =
     sortBy (\<lambda>a b. localeCompare (isoText (startISO a)) (isoText (startISO b)) coll \<le> 0) shifts"

definition examinedPairs :: "Shift \<Rightarrow> Shift list
     \<Rightarrow> collation \<Rightarrow> (Shift \<times> Shift) list" where
  "examinedPairs incoming others coll =
     filter (\<lambda>(prev, current). shift_id prev = shift_id incoming
                                  \<or> shift_id current = shift_id incoming)
       (adjacentPairs (startOrdered (others @ [incoming]) coll))"

text \<open>The error of the first pair of a list that the pair check rejects.\<close>

fun firstPairError ::
  "(Shift \<times> Shift) list \<Rightarrow> RuleConfig \<Rightarrow> Resident \<Rightarrow> ShiftType list \<Rightarrow> exn option" where
  "firstPairError [] cfg r soft = None"
| "firstPairError ((prev, current) # rest) cfg r soft =
     (case evaluatePair prev current cfg r soft of
        Inl e \<Rightarrow> Some e
      | Inr advs \<Rightarrow> firstPairError rest cfg r soft)"

text \<open>What the re-validation of a person's timeline after the swap throws: the error of the
  type checks of the incoming assignment, or else the error of the first examined pair that is
  rejected; and the advisories of the examined pairs.\<close>

definition timelineVerdict :: "Shift \<Rightarrow> Shift list \<Rightarrow> RuleConfig \<Rightarrow> Resident
     \<Rightarrow> collation \<Rightarrow> exn option" where
  "timelineVerdict incoming others cfg r coll =
     (case assertShiftsAllowed (startOrdered (others @ [incoming]) coll) (Some [shift_id incoming])
             cfg r of
        Inl e \<Rightarrow> Some e
      | Inr u \<Rightarrow> firstPairError (examinedPairs incoming others coll) cfg r BACKUP_SOFT_TYPES)"

definition timelineAdvisories ::
  "Shift \<Rightarrow> Shift list \<Rightarrow> RuleConfig \<Rightarrow> Resident
     \<Rightarrow> collation \<Rightarrow> SwapAdvisory list" where
  "timelineAdvisories incoming others cfg r coll =
     concat (map (\<lambda>(prev, current). projr (evaluatePair prev current cfg r BACKUP_SOFT_TYPES))
               (examinedPairs incoming others coll))"

text \<open>The rest gap of a pair in hours; a pair of two assignments that are not backup
  assignments, do not overlap and have a gap that is a number; an incoming assignment whose
  id none of the person's other assignments has.\<close>

definition pairGap :: "Shift \<times> Shift \<Rightarrow> real option" where
  "pairGap pc = diffHours (dayjs (startISO (snd pc))) (dayjs (endISO (fst pc)))"

definition plainPair :: "Shift \<times> Shift \<Rightarrow> bool" where
  "plainPair pc =
     (shift_type (fst pc) \<noteq> BACKUP \<and> shift_type (snd pc) \<noteq> BACKUP
      \<and> \<not> hasOverlap (startISO (fst pc)) (endISO (fst pc)) (startISO (snd pc))
             (endISO (snd pc))
      \<and> pairGap pc \<noteq> None)"

definition freshId :: "Shift \<Rightarrow> Shift list \<Rightarrow> bool" where
  "freshId incoming others = list_all (\<lambda>s. shift_id s \<noteq> shift_id incoming) others"

section \<open>Example data\<close>

text \<open>The collation of the examples: the order of the code units.\<close>

fun codeUnitOrder :: collation where
  "codeUnitOrder [] [] = 0"
| "codeUnitOrder [] (y # ys) = -1"
| "codeUnitOrder (x # xs) [] = 1"
| "codeUnitOrder (x # xs) (y # ys) =
     (if (of_char x :: nat) < of_char y then -1
      else if (of_char y :: nat) < of_char x then 1
      else codeUnitOrder xs ys)"

text \<open>The builders of the unit tests; \<open>utc\<close> pairs a UTC date-time text with its instant.\<close>

definition utc :: "string \<Rightarrow> int \<Rightarrow> isoString" where
  "utc txt ms = \<lparr> isoText = txt, isoInstant = Some ms \<rparr>"

definition buildResident :: "string \<Rightarrow> ShiftType list \<Rightarrow> RotationAssignment list \<Rightarrow> Resident"
  where
  "buildResident rid eligible rots =
     \<lparr> res_id = rid, res_name = rid, eligibleShiftTypes = eligible, rotations = rots,
       academicYears = [] \<rparr>"

definition buildShift :: "string \<Rightarrow> string \<Rightarrow> isoString \<Rightarrow> isoString \<Rightarrow> ShiftType \<Rightarrow> Shift"
  where
  "buildShift sid rid start end t =
     \<lparr> shift_id = sid, residentId = rid, startISO = start, endISO = end, shift_type = t,
       location = None, isHoliday = None \<rparr>"

definition buildContextWithShifts ::
  "RuleConfig \<Rightarrow> Resident list \<Rightarrow> (string \<times> Shift list) list \<Rightarrow> Context" where
  "buildContextWithShifts cfg residents sbr =
     \<lparr> ruleConfig = cfg, residentsById = map (\<lambda>r. (res_id r, r)) residents,
       shiftsByResident = sbr, shabbosObservers = resolveShabbosObservers sbr \<rparr>"

definition allTypes :: "ShiftType list" where
  "allTypes = [MOSES, WEILER, IP_CONSULT, NIGHT_FLOAT, BACKUP]"

text \<open>Example 1: R1 holds two calls six hours apart on 1 September and a call on Monday
  6 October; R2 holds a call on Wednesday 8 October; the minimum rest is ten hours.\<close>

definition ex1_C1 :: Shift where
  "ex1_C1 = buildShift ''C1'' ''R1'' (utc ''2025-09-01T08:00:00Z'' 1756713600000)
              (utc ''2025-09-01T16:00:00Z'' 1756742400000) MOSES"

definition ex1_C2 :: Shift where
  "ex1_C2 = buildShift ''C2'' ''R1'' (utc ''2025-09-01T22:00:00Z'' 1756764000000)
              (utc ''2025-09-02T06:00:00Z'' 1756792800000) MOSES"

definition ex1_S1 :: Shift where
  "ex1_S1 = buildShift ''S1'' ''R1'' (utc ''2025-10-06T08:00:00Z'' 1759737600000)
              (utc ''2025-10-06T20:00:00Z'' 1759780800000) MOSES"

definition ex1_S2 :: Shift where
  "ex1_S2 = buildShift ''S2'' ''R2'' (utc ''2025-10-08T08:00:00Z'' 1759910400000)
              (utc ''2025-10-08T20:00:00Z'' 1759953600000) MOSES"

definition ex1_R1 :: Resident where
  "ex1_R1 = buildResident ''R1'' [MOSES] []"

definition ex1_R2 :: Resident where
  "ex1_R2 = buildResident ''R2'' [MOSES] []"

definition ex1_ctx :: Context where
  "ex1_ctx = buildContextWithShifts \<lparr> restHoursMin = 10, typeWhitelist = allTypes \<rparr>
               [ex1_R1, ex1_R2]
               [(''R1'', [ex1_C1, ex1_C2, ex1_S1]), (''R2'', [ex1_S2])]"

text \<open>Example 2: R1 and R2 each hold a Saturday night float (4 October, 1 November) that
  starts when a Saturday daytime call of theirs ends; the minimum rest is eight hours and no
  type whitelist is configured.\<close>

definition ex2_n1 :: Shift where
  "ex2_n1 = buildShift ''N1'' ''R1'' (utc ''2025-10-04T08:00:00Z'' 1759564800000)
              (utc ''2025-10-04T20:00:00Z'' 1759608000000) MOSES"

definition ex2_a :: Shift where
  "ex2_a = buildShift ''NF1'' ''R1'' (utc ''2025-10-04T20:00:00Z'' 1759608000000)
             (utc ''2025-10-05T08:00:00Z'' 1759651200000) NIGHT_FLOAT"

definition ex2_n2 :: Shift where
  "ex2_n2 = buildShift ''N2'' ''R2'' (utc ''2025-11-01T08:00:00Z'' 1761984000000)
              (utc ''2025-11-01T20:00:00Z'' 1762027200000) MOSES"

definition ex2_b :: Shift where
  "ex2_b = buildShift ''NF2'' ''R2'' (utc ''2025-11-01T20:00:00Z'' 1762027200000)
             (utc ''2025-11-02T08:00:00Z'' 1762070400000) NIGHT_FLOAT"

definition ex2_R1 :: Resident where
  "ex2_R1 = buildResident ''R1'' [MOSES, NIGHT_FLOAT] []"

definition ex2_R2 :: Resident where
  "ex2_R2 = buildResident ''R2'' [MOSES, NIGHT_FLOAT] []"

definition ex2_ctx :: Context where
  "ex2_ctx = buildContextWithShifts \<lparr> restHoursMin = 8, typeWhitelist = [] \<rparr>
               [ex2_R1, ex2_R2]
               [(''R1'', [ex2_n1, ex2_a]), (''R2'', [ex2_n2, ex2_b])]"

text \<open>Example 3: R1 has a rotation week without vacation days; the call of R2 has a start
  text that does not parse.\<close>

definition ex3_rotation :: RotationAssignment where
  "ex3_rotation = \<lparr> weekStartISO = utc ''2025-10-13T00:00:00.000Z'' 1760313600000,
                    rotation = ''Chest'', rawRotation = ''Chest'', vacationDates = [] \<rparr>"

definition ex3_a :: Shift where
  "ex3_a = buildShift ''S1'' ''R1'' (utc ''2025-10-06T08:00:00Z'' 1759737600000)
             (utc ''2025-10-06T20:00:00Z'' 1759780800000) MOSES"

definition ex3_b :: Shift where
  "ex3_b = buildShift ''S2'' ''R2'' \<lparr> isoText = ''not-a-date'', isoInstant = None \<rparr>
             (utc ''2025-10-08T20:00:00Z'' 1759953600000) MOSES"

definition ex3_R1 :: Resident where
  "ex3_R1 = buildResident ''R1'' [MOSES] [ex3_rotation]"

definition ex3_R2 :: Resident where
  "ex3_R2 = buildResident ''R2'' [MOSES] []"

definition ex3_ctx :: Context where
  "ex3_ctx = buildContextWithShifts \<lparr> restHoursMin = 10, typeWhitelist = allTypes \<rparr>
               [ex3_R1, ex3_R2] [(''R1'', [ex3_a]), (''R2'', [ex3_b])]"

text \<open>Example 4: a junior and a senior Moses call of R1, and a senior Moses call of R2.\<close>

definition ex4_jr :: Shift where
  "ex4_jr = buildShift ''moses_jr_1'' ''R1'' (utc ''2025-10-06T08:00:00Z'' 1759737600000)
              (utc ''2025-10-06T20:00:00Z'' 1759780800000) MOSES"

definition ex4_sr :: Shift where
  "ex4_sr = buildShift ''moses_sr_1'' ''R1'' (utc ''2025-10-07T08:00:00Z'' 1759824000000)
              (utc ''2025-10-07T20:00:00Z'' 1759867200000) MOSES"

definition ex4_sr2 :: Shift where
  "ex4_sr2 = buildShift ''moses_sr_2'' ''R2'' (utc ''2025-10-08T08:00:00Z'' 1759910400000)
               (utc ''2025-10-08T20:00:00Z'' 1759953600000) MOSES"

definition ex4_ctx :: Context where
  "ex4_ctx = buildContextWithShifts \<lparr> restHoursMin = 10, typeWhitelist = allTypes \<rparr>
               [ex1_R1, ex1_R2] [(''R1'', [ex4_jr, ex4_sr]), (''R2'', [ex4_sr2])]"

text \<open>Example 5: R1 is on vacation in the week of Monday 6 October and holds a call on
  Saturday 27 September; R2 holds a call on Saturday 18 October.\<close>

definition ex5_rotation :: RotationAssignment where
  "ex5_rotation = \<lparr> weekStartISO = utc ''2025-10-06T00:00:00.000Z'' 1759708800000,
                    rotation = ''Vacation'', rawRotation = ''Vacation'', vacationDates = [] \<rparr>"

definition ex5_a :: Shift where
  "ex5_a = buildShift ''S1'' ''R1'' (utc ''2025-09-27T08:00:00Z'' 1758960000000)
             (utc ''2025-09-27T20:00:00Z'' 1759003200000) MOSES"

definition ex5_b :: Shift where
  "ex5_b = buildShift ''S2'' ''R2'' (utc ''2025-10-18T08:00:00Z'' 1760774400000)
             (utc ''2025-10-18T20:00:00Z'' 1760817600000) MOSES"

definition ex5_R1 :: Resident where
  "ex5_R1 = buildResident ''R1'' [MOSES] [ex5_rotation]"

definition ex5_ctx :: Context where
  "ex5_ctx = buildContextWithShifts \<lparr> restHoursMin = 10, typeWhitelist = allTypes \<rparr>
               [ex5_R1, ex1_R2] [(''R1'', [ex5_a]), (''R2'', [ex5_b])]"

text \<open>Example 7: on Monday 6 October R1 holds a call that ends at 08:00 and R2 a call that
  starts at 18:00; R1 also holds a call on Wednesday 8 October.  The minimum rest is ten
  hours.  A fourth call overlaps the first call of R1.\<close>

definition ex7_P :: Shift where
  "ex7_P = buildShift ''P'' ''R1'' (utc ''2025-10-06T00:00:00Z'' 1759708800000)
             (utc ''2025-10-06T08:00:00Z'' 1759737600000) MOSES"

definition ex7_O :: Shift where
  "ex7_O = buildShift ''O'' ''R1'' (utc ''2025-10-06T04:00:00Z'' 1759723200000)
             (utc ''2025-10-06T10:00:00Z'' 1759744800000) MOSES"

definition ex7_S1 :: Shift where
  "ex7_S1 = buildShift ''S1'' ''R1'' (utc ''2025-10-08T08:00:00Z'' 1759910400000)
              (utc ''2025-10-08T20:00:00Z'' 1759953600000) MOSES"

definition ex7_S2 :: Shift where
  "ex7_S2 = buildShift ''S2'' ''R2'' (utc ''2025-10-06T18:00:00Z'' 1759773600000)
              (utc ''2025-10-06T23:00:00Z'' 1759791600000) MOSES"

definition ex7_ctx :: Context where
  "ex7_ctx = buildContextWithShifts \<lparr> restHoursMin = 10, typeWhitelist = allTypes \<rparr>
               [ex1_R1, ex1_R2] [(''R1'', [ex7_P, ex7_S1]), (''R2'', [ex7_S2])]"

text \<open>Example 6: a pool of two workers that goes parallel from one pair on.\<close>

definition ex6_pool :: SwapWorkerPool where
  "ex6_pool = \<lparr> threshold = 1, canSpawnWorkers = True, pool_size = 2, adapters = 0,
                 terminated = False \<rparr>"

definition ex6_pairs :: "ShiftPair list" where
  "ex6_pairs = [\<lparr> pair_a = ex1_S1, pair_b = ex1_S2 \<rparr>, \<lparr> pair_a = ex1_S1, pair_b = ex1_C1 \<rparr>,
                \<lparr> pair_a = ex1_S2, pair_b = ex1_C2 \<rparr>]"

section \<open>Properties\<close>

lemmas builder_defs = utc_def buildResident_def buildShift_def buildContextWithShifts_def
  allTypes_def

lemmas ex1_defs = ex1_C1_def ex1_C2_def ex1_S1_def ex1_S2_def ex1_R1_def ex1_R2_def ex1_ctx_def

lemmas date_defs = dayjs_def dayOf_def weekday_def hour_def isBefore_def diffHours_def
  MS_PER_DAY_def MS_PER_HOUR_def isWeekend_def isWeekendOrHoliday_def
  isFridayCall_def isNightFloat_def isSaturdayNightFloat_def isSaturdayDaytimeCall_def
  FRIDAY_def SATURDAY_def SATURDAY_DAYTIME_TYPES_def

lemmas string_defs = toLowerCase_def toLowerChar_def upperCaseUnits_def lowerCaseUnits_def
  trim_def isSpaceChar_def isWordChar_def
  regexTest_def lit_def atWordBoundary_def

lemmas check_defs = evaluateShabbosRestriction_def shiftVacationConflicts_def
  shiftRotationConflicts_def collectVacationDates_def validateTimelines_def
  validateResidentTimeline_def sortBy_def assertShiftAllowed_def shouldEvaluatePair_def
  evaluatePair_def hasOverlap_def BACKUP_SOFT_TYPES_def localeCompare_def

subsection \<open>The day loop\<close>

lemma enumerateLoop_valid:
  "enumerateLoop (Some c) (Some e) days = Some (days @ map YMD [c..e])"
proof (induction "nat (e - c + 1)" arbitrary: c days)
  case 0
  then have "e < c" by simp
  then show ?case
    by (subst enumerateLoop.simps) (simp add: isAfterDay_def)
next
  case (Suc n)
  then have le: "c \<le> e" by simp
  have n: "n = nat (e - (c + 1) + 1)" using Suc(2) by simp
  have "enumerateLoop (Some c) (Some e) days
        = enumerateLoop (Some (c + 1)) (Some e) (days @ [YMD c])"
    using le by (subst enumerateLoop.simps) (simp add: isAfterDay_def formatYMD_def)
  also have "\<dots> = Some ((days @ [YMD c]) @ map YMD [c + 1..e])"
    using Suc(1)[OF n] .
  also have "(days @ [YMD c]) @ map YMD [c + 1..e] = days @ map YMD [c..e]"
    using le by (simp add: upto_rec1)
  finally show ?case .
qed

lemma enumerateLoop_Some_valid:
  "enumerateLoop cursor endDay days = Some y \<Longrightarrow> cursor \<noteq> None \<and> endDay \<noteq> None"
proof (rule enumerateLoop.raw_induct
         [where P = "\<lambda>c e d y. c \<noteq> None \<and> e \<noteq> None" and y = y and cursor = cursor
            and endDay = endDay and days = days])
  show "enumerateLoop cursor endDay days = Some y \<Longrightarrow> enumerateLoop cursor endDay days = Some y" .
next
  fix f :: "calendarDay option \<Rightarrow> calendarDay option \<Rightarrow> dateString list \<Rightarrow> dateString list option"
    and c e d r
  assume IH: "\<And>c e d r. f c e d = Some r \<Longrightarrow> c \<noteq> None \<and> e \<noteq> None"
    and step: "(if \<not> isAfterDay c e then f (map_option (\<lambda>d. d + 1) c) e (d @ [formatYMD c])
               else Some d) = Some r"
  show "c \<noteq> None \<and> e \<noteq> None"
  proof (cases "isAfterDay c e")
    case True
    then show ?thesis by (auto simp: isAfterDay_def split: option.splits)
  next
    case False
    with step have "f (map_option (\<lambda>d. d + 1) c) e (d @ [formatYMD c]) = Some r" by simp
    from IH[OF this] show ?thesis by auto
  qed
qed

lemma enumerateLoop_invalid:
  "cursor = None \<or> endDay = None \<Longrightarrow> enumerateLoop cursor endDay days = None"
  using enumerateLoop_Some_valid[of cursor endDay days]
  by (cases "enumerateLoop cursor endDay days") auto

subsection \<open>The gates of \<open>prepareSwap\<close>\<close>

lemma prepareSwap_Inr_iff:
  "prepareSwap a' b' ctx' = Inr p \<longleftrightarrow>
     (\<exists>a b ctx rA rB. a' = Some a \<and> b' = Some b \<and> ctx' = Some ctx
        \<and> gatesPass a b ctx rA rB
        \<and> p = \<lparr> p_ctx = ctx, p_shiftA = a, p_shiftB = b, p_residentA = rA, p_residentB = rB \<rparr>)"
  unfolding prepareSwap_def gatesPass_def
  by (cases a'; cases b'; cases ctx') (auto simp: Let_def split: option.splits)

lemma gatesPass_sym: "gatesPass a b ctx rA rB \<Longrightarrow> gatesPass b a ctx rB rA"
  unfolding gatesPass_def by auto

subsection \<open>When a swap is feasible\<close>

lemma validateTimelines_feasible_iff:
  "(\<exists>adv. validateTimelines tA tB cfg rA rB sA sB a b coll = Feasible adv) \<longleftrightarrow>
     (\<exists>x. validateResidentTimeline tA cfg rA (Some [shift_id sA]) (Some BACKUP_SOFT_TYPES) coll = Inr x)
     \<and> (\<exists>y. validateResidentTimeline tB cfg rB (Some [shift_id sB]) (Some BACKUP_SOFT_TYPES) coll = Inr y)"
  unfolding validateTimelines_def catchTimelineError_def
  by (auto simp: Let_def split: sum.splits exn.splits)

lemma evaluateSwap_prepared:
  assumes "gatesPass a b ctx rA rB"
  shows "(\<exists>adv. evaluateSwap (Some a) (Some b) (Some ctx) coll = Some (Feasible adv)) \<longleftrightarrow>
     personAccepts ctx rA (b\<lparr>residentId := res_id rA\<rparr>) (otherShiftsOf ctx a) coll
     \<and> personAccepts ctx rB (a\<lparr>residentId := res_id rB\<rparr>) (otherShiftsOf ctx b) coll"
proof -
  have prep: "prepareSwap (Some a) (Some b) (Some ctx) =
      Inr \<lparr> p_ctx = ctx, p_shiftA = a, p_shiftB = b, p_residentA = rA, p_residentB = rB \<rparr>"
    using assms by (simp add: prepareSwap_Inr_iff)
  show ?thesis
    unfolding evaluateSwap_def prep personAccepts_def timelineOk_def otherShiftsOf_def
    by (auto simp: Let_def validateTimelines_feasible_iff split: option.splits)
qed

lemma evaluateSwap_feasible_iff:
  "(\<exists>adv. evaluateSwap a' b' ctx' coll = Some (Feasible adv)) \<longleftrightarrow>
     (\<exists>a b ctx rA rB. a' = Some a \<and> b' = Some b \<and> ctx' = Some ctx \<and> gatesPass a b ctx rA rB
        \<and> personAccepts ctx rA (b\<lparr>residentId := res_id rA\<rparr>) (otherShiftsOf ctx a) coll
        \<and> personAccepts ctx rB (a\<lparr>residentId := res_id rB\<rparr>) (otherShiftsOf ctx b) coll)"
proof (cases "prepareSwap a' b' ctx'")
  case (Inl f)
  then have "\<not> (\<exists>adv. evaluateSwap a' b' ctx' coll = Some (Feasible adv))"
    by (simp add: evaluateSwap_def)
  moreover have "\<not> (\<exists>a b ctx rA rB. a' = Some a \<and> b' = Some b \<and> ctx' = Some ctx
        \<and> gatesPass a b ctx rA rB)"
  proof
    assume "\<exists>a b ctx rA rB. a' = Some a \<and> b' = Some b \<and> ctx' = Some ctx
        \<and> gatesPass a b ctx rA rB"
    then obtain a b ctx rA rB where "a' = Some a" "b' = Some b" "ctx' = Some ctx"
      "gatesPass a b ctx rA rB" by blast
    then have "prepareSwap a' b' ctx' =
        Inr \<lparr> p_ctx = ctx, p_shiftA = a, p_shiftB = b, p_residentA = rA, p_residentB = rB \<rparr>"
      by (simp add: prepareSwap_Inr_iff)
    with Inl show False by simp
  qed
  ultimately show ?thesis by blast
next
  case (Inr p)
  then obtain a b ctx rA rB where eq: "a' = Some a" "b' = Some b" "ctx' = Some ctx"
    and g: "gatesPass a b ctx rA rB"
    using prepareSwap_Inr_iff[of a' b' ctx' p] by auto
  show ?thesis
  proof
    assume "\<exists>adv. evaluateSwap a' b' ctx' coll = Some (Feasible adv)"
    then have "personAccepts ctx rA (b\<lparr>residentId := res_id rA\<rparr>) (otherShiftsOf ctx a) coll
         \<and> personAccepts ctx rB (a\<lparr>residentId := res_id rB\<rparr>) (otherShiftsOf ctx b) coll"
      using evaluateSwap_prepared[OF g] eq by simp
    with eq g show "\<exists>a b ctx rA rB. a' = Some a \<and> b' = Some b \<and> ctx' = Some ctx
        \<and> gatesPass a b ctx rA rB
        \<and> personAccepts ctx rA (b\<lparr>residentId := res_id rA\<rparr>) (otherShiftsOf ctx a) coll
        \<and> personAccepts ctx rB (a\<lparr>residentId := res_id rB\<rparr>) (otherShiftsOf ctx b) coll"
      by blast
  next
    assume "\<exists>a b ctx rA rB. a' = Some a \<and> b' = Some b \<and> ctx' = Some ctx
        \<and> gatesPass a b ctx rA rB
        \<and> personAccepts ctx rA (b\<lparr>residentId := res_id rA\<rparr>) (otherShiftsOf ctx a) coll
        \<and> personAccepts ctx rB (a\<lparr>residentId := res_id rB\<rparr>) (otherShiftsOf ctx b) coll"
    then obtain rA' rB' where g': "gatesPass a b ctx rA' rB'"
      and acc: "personAccepts ctx rA' (b\<lparr>residentId := res_id rA'\<rparr>) (otherShiftsOf ctx a) coll"
        "personAccepts ctx rB' (a\<lparr>residentId := res_id rB'\<rparr>) (otherShiftsOf ctx b) coll"
      using eq by auto
    show "\<exists>adv. evaluateSwap a' b' ctx' coll = Some (Feasible adv)"
      unfolding eq using evaluateSwap_prepared[OF g'] acc by simp
  qed
qed

subsection \<open>Example 1 evaluated\<close>

lemma ex1_prepare:
  "prepareSwap (Some ex1_S1) (Some ex1_S2) (Some ex1_ctx) =
     Inr \<lparr> p_ctx = ex1_ctx, p_shiftA = ex1_S1, p_shiftB = ex1_S2,
           p_residentA = ex1_R1, p_residentB = ex1_R2 \<rparr>"
  by (simp add: prepareSwap_def getMosesTier_def string_defs builder_defs ex1_defs date_defs
      Let_def)

lemma ex1_feasible:
  "evaluateSwap (Some ex1_S1) (Some ex1_S2) (Some ex1_ctx) codeUnitOrder = Some (Feasible None)"
  unfolding evaluateSwap_def ex1_prepare
  by (simp add: builder_defs ex1_defs date_defs check_defs Let_def)

subsection \<open>Claims\<close>

text \<open>
  C1.  Feasibility is symmetric: \<open>evaluateSwap\<close> returns an accepted evaluation for
  \<open>(a, b)\<close> exactly when it returns one for \<open>(b, a)\<close>, for all shifts (present or not) and
  every context (present or not).  The rejection reasons of the two calls may differ.
\<close>

theorem feasibility_symmetric:
  "(\<exists>adv. evaluateSwap a b ctx coll = Some (Feasible adv))
     \<longleftrightarrow> (\<exists>adv. evaluateSwap b a ctx coll = Some (Feasible adv))"
  unfolding evaluateSwap_feasible_iff using gatesPass_sym by blast

theorem feasibility_symmetric_witness:
  "\<exists>adv. evaluateSwap (Some ex1_S2) (Some ex1_S1) (Some ex1_ctx) codeUnitOrder = Some (Feasible adv)"
  using feasibility_symmetric [of "Some ex1_S1" "Some ex1_S2" "Some ex1_ctx", where coll = codeUnitOrder] ex1_feasible
  by simp

subsection \<open>The Shabbos check\<close>

lemma evaluateShabbosRestriction_fires:
  "evaluateShabbosRestriction resident incoming observers \<noteq> None \<longleftrightarrow>
     (if res_id resident \<in> set observers
      then (isNightFloat incoming \<and> \<not> isSaturdayNightFloat incoming)
           \<or> isFridayCall incoming \<or> isSaturdayDaytimeCall incoming
      else isNightFloat incoming \<and> \<not> isSaturdayNightFloat incoming)"
  by (simp add: evaluateShabbosRestriction_def Let_def)

lemma saturdayNightFloat_not_friday:
  "isSaturdayNightFloat s \<Longrightarrow> \<not> isFridayCall s \<and> \<not> isSaturdayDaytimeCall s"
  by (auto simp: isSaturdayNightFloat_def isFridayCall_def isSaturdayDaytimeCall_def
      isNightFloat_def SATURDAY_DAYTIME_TYPES_def FRIDAY_def SATURDAY_def
      split: option.splits if_splits)

lemma resolveShabbosObservers_iff:
  "rid \<in> set (resolveShabbosObservers sbr) \<longleftrightarrow>
     (\<exists>shifts. (rid, shifts) \<in> set sbr \<and> \<not> list_ex isSaturdayDaytimeCall shifts)"
  by (induction sbr rule: resolveShabbosObservers.induct) (auto simp: Let_def)

lemma evaluateShabbosRestriction_Some:
  "evaluateShabbosRestriction r s obs = Some reason \<Longrightarrow>
     \<exists>restriction. reason = shabbos_restriction (res_id r) (shift_id s) (shift_type s)
                               (startISO s) restriction"
  by (auto simp: evaluateShabbosRestriction_def buildShabbosRestriction_def Let_def
      split: if_splits)

lemma validateTimelines_kind:
  "validateTimelines tA tB cfg rA rB sA sB a b coll = Infeasible r adv \<Longrightarrow>
     (\<exists>c rid. r = rule_violation c rid (shift_id a) (shift_id b))
     \<or> (\<exists>m. r = unexpected_error m (shift_id a) (shift_id b))"
  unfolding validateTimelines_def catchTimelineError_def
  by (auto simp: Let_def split: sum.splits exn.splits if_splits)

lemma prepared_eq:
  "gatesPass a b ctx rA rB \<Longrightarrow> prepareSwap (Some a) (Some b) (Some ctx) =
      Inr \<lparr> p_ctx = ctx, p_shiftA = a, p_shiftB = b, p_residentA = rA, p_residentB = rB \<rparr>"
  by (simp add: prepareSwap_Inr_iff)

lemma prepared_reason_cases:
  assumes "gatesPass a b ctx rA rB"
    and "evaluateSwap (Some a) (Some b) (Some ctx) coll = Some (Infeasible r adv)"
  shows "(\<exists>x y z w v. r = shabbos_restriction x y z w v)
       \<or> (\<exists>x y z. r = vacation_conflict x y z)
       \<or> (\<exists>x y z w v. r = rotation_block x y z w v)
       \<or> (\<exists>c rid. r = rule_violation c rid (shift_id a) (shift_id b))
       \<or> (\<exists>m. r = unexpected_error m (shift_id a) (shift_id b))"
  using assms(2) unfolding evaluateSwap_def prepared_eq[OF assms(1)]
  by (auto simp: Let_def split: option.splits if_splits
        dest: evaluateShabbosRestriction_Some validateTimelines_kind)

lemma evaluateSwap_staged:
  assumes g: "gatesPass a b ctx rA rB"
  shows "evaluateSwap (Some a) (Some b) (Some ctx) coll =
     (case resolveShabbosRestrictionForSwap (shabbosObservers ctx)
             [(rA, received b rA), (rB, received a rB)] of
        Some r \<Rightarrow> Some (Infeasible r None)
      | None \<Rightarrow>
          personDateChecks rA (received b rA)
            (personDateChecks rB (received a rB)
               (Some (validateTimelines (otherShiftsOf ctx a @ [received b rA])
                        (otherShiftsOf ctx b @ [received a rB]) (ruleConfig ctx) rA rB
                        (received b rA) (received a rB) a b coll))))"
  unfolding evaluateSwap_def prepared_eq[OF g]
  by (simp add: Let_def personDateChecks_def received_def otherShiftsOf_def
      del: resolveShabbosRestrictionForSwap.simps split: option.splits)

lemma resolveShabbos_two:
  "resolveShabbosRestrictionForSwap obs [(rA, sA), (rB, sB)] =
     (case evaluateShabbosRestriction rA sA obs of
        Some r \<Rightarrow> Some r | None \<Rightarrow> evaluateShabbosRestriction rB sB obs)"
  by (simp split: option.splits)

lemma personDateChecks_Infeasible:
  "personDateChecks r inc rest = Some (Infeasible x adv) \<Longrightarrow>
     (\<exists>c. x = vacation_conflict (res_id r) (shift_id inc) c \<and> adv = None)
     \<or> (\<exists>u v w. x = rotation_block (res_id r) (shift_id inc) u v w \<and> adv = None)
     \<or> rest = Some (Infeasible x adv)"
  unfolding personDateChecks_def by (auto split: option.splits if_splits)

lemma personDateChecks_Feasible:
  "personDateChecks r inc rest = Some (Feasible adv) \<longleftrightarrow>
     shiftVacationConflicts inc r = Some [] \<and> shiftRotationConflicts inc r = Some None
     \<and> rest = Some (Feasible adv)"
  unfolding personDateChecks_def by (auto split: option.splits if_splits)

lemma prepared_shabbos_iff:
  assumes g: "gatesPass a b ctx rA rB"
  shows "(\<exists>x y z w v adv. evaluateSwap (Some a) (Some b) (Some ctx) coll
              = Some (Infeasible (shabbos_restriction x y z w v) adv))
     \<longleftrightarrow> (evaluateShabbosRestriction rA (received b rA) (shabbosObservers ctx) \<noteq> None
          \<or> evaluateShabbosRestriction rB (received a rB) (shabbosObservers ctx) \<noteq> None)"
proof (cases "resolveShabbosRestrictionForSwap (shabbosObservers ctx)
                [(rA, received b rA), (rB, received a rB)]")
  case None
  then have none: "evaluateShabbosRestriction rA (received b rA) (shabbosObservers ctx) = None"
    "evaluateShabbosRestriction rB (received a rB) (shabbosObservers ctx) = None"
    by (auto simp: resolveShabbos_two split: option.splits)
  have "\<not> (\<exists>x y z w v adv. evaluateSwap (Some a) (Some b) (Some ctx) coll
              = Some (Infeasible (shabbos_restriction x y z w v) adv))"
  proof
    assume "\<exists>x y z w v adv. evaluateSwap (Some a) (Some b) (Some ctx) coll
              = Some (Infeasible (shabbos_restriction x y z w v) adv)"
    then obtain x y z w v adv where
      "evaluateSwap (Some a) (Some b) (Some ctx) coll
         = Some (Infeasible (shabbos_restriction x y z w v) adv)" by blast
    then have "personDateChecks rA (received b rA)
            (personDateChecks rB (received a rB)
               (Some (validateTimelines (otherShiftsOf ctx a @ [received b rA])
                        (otherShiftsOf ctx b @ [received a rB]) (ruleConfig ctx) rA rB
                        (received b rA) (received a rB) a b coll)))
          = Some (Infeasible (shabbos_restriction x y z w v) adv)"
      unfolding evaluateSwap_staged[OF g] None by simp
    from personDateChecks_Infeasible[OF this]
    have "personDateChecks rB (received a rB)
               (Some (validateTimelines (otherShiftsOf ctx a @ [received b rA])
                        (otherShiftsOf ctx b @ [received a rB]) (ruleConfig ctx) rA rB
                        (received b rA) (received a rB) a b coll))
          = Some (Infeasible (shabbos_restriction x y z w v) adv)" by auto
    from personDateChecks_Infeasible[OF this]
    have "validateTimelines (otherShiftsOf ctx a @ [received b rA])
                        (otherShiftsOf ctx b @ [received a rB]) (ruleConfig ctx) rA rB
                        (received b rA) (received a rB) a b coll
          = Infeasible (shabbos_restriction x y z w v) adv" by auto
    from validateTimelines_kind[OF this] show False by auto
  qed
  with none show ?thesis by simp
next
  case (Some r)
  then have fires: "evaluateShabbosRestriction rA (received b rA) (shabbosObservers ctx) \<noteq> None
          \<or> evaluateShabbosRestriction rB (received a rB) (shabbosObservers ctx) \<noteq> None"
    by (auto simp: resolveShabbos_two split: option.splits)
  from Some have "\<exists>x y z w v. r = shabbos_restriction x y z w v"
    by (auto simp: resolveShabbos_two split: option.splits
        dest!: evaluateShabbosRestriction_Some)
  moreover have "evaluateSwap (Some a) (Some b) (Some ctx) coll = Some (Infeasible r None)"
    unfolding evaluateSwap_staged[OF g] Some by simp
  ultimately show ?thesis using fires by auto
qed

text \<open>
  C5.  For one person and the assignment they would receive, the Shabbos check rejects
  exactly when: the person is in the observer set and the assignment is a non-Saturday night
  float, a Friday call or a Saturday daytime call; or the person is not in the observer set
  and the assignment is a non-Saturday night float.  A Saturday night float is never
  rejected.  The derived observer set holds exactly the resident ids of the schedule map
  whose shifts contain no Saturday daytime call.  A swap that passes the earlier gates is
  rejected with \<open>shabbos_restriction\<close> exactly when the check rejects for one of the two
  persons.
\<close>

theorem shabbos_restriction_rule:
  "(evaluateShabbosRestriction resident incoming observers \<noteq> None \<longleftrightarrow>
      (if res_id resident \<in> set observers
       then (isNightFloat incoming \<and> \<not> isSaturdayNightFloat incoming)
            \<or> isFridayCall incoming \<or> isSaturdayDaytimeCall incoming
       else isNightFloat incoming \<and> \<not> isSaturdayNightFloat incoming))
   \<and> (isSaturdayNightFloat incoming
        \<longrightarrow> evaluateShabbosRestriction resident incoming observers = None)
   \<and> (rid \<in> set (resolveShabbosObservers sbr) \<longleftrightarrow>
        (\<exists>shifts. (rid, shifts) \<in> set sbr \<and> \<not> list_ex isSaturdayDaytimeCall shifts))
   \<and> (gatesPass a b ctx rA rB \<longrightarrow>
        ((\<exists>x y z w v adv. evaluateSwap (Some a) (Some b) (Some ctx) coll
              = Some (Infeasible (shabbos_restriction x y z w v) adv))
         \<longleftrightarrow> (evaluateShabbosRestriction rA (received b rA) (shabbosObservers ctx) \<noteq> None
              \<or> evaluateShabbosRestriction rB (received a rB) (shabbosObservers ctx)
                   \<noteq> None)))"
proof -
  have "isSaturdayNightFloat incoming
        \<Longrightarrow> evaluateShabbosRestriction resident incoming observers = None"
    using saturdayNightFloat_not_friday[of incoming]
      evaluateShabbosRestriction_fires[of resident incoming observers]
    by (cases "evaluateShabbosRestriction resident incoming observers") (auto split: if_splits)
  then show ?thesis
    using evaluateShabbosRestriction_fires[of resident incoming observers]
      resolveShabbosObservers_iff[of rid sbr] prepared_shabbos_iff[of a b ctx rA rB]
    by blast
qed


lemmas ex2_defs = ex2_n1_def ex2_a_def ex2_n2_def ex2_b_def ex2_R1_def ex2_R2_def ex2_ctx_def
lemmas ex3_defs = ex3_rotation_def ex3_a_def ex3_b_def ex3_R1_def ex3_R2_def ex3_ctx_def
lemmas ex4_defs = ex4_jr_def ex4_sr_def ex4_sr2_def ex4_ctx_def ex1_R1_def ex1_R2_def
lemmas ex5_defs = ex5_rotation_def ex5_a_def ex5_b_def ex5_R1_def ex5_ctx_def ex1_R2_def

lemma ex1_gates: "gatesPass ex1_S1 ex1_S2 ex1_ctx ex1_R1 ex1_R2"
  by (simp add: gatesPass_def getMosesTier_def string_defs builder_defs ex1_defs date_defs)

theorem shabbos_restriction_rule_witness:
  "isSaturdayNightFloat ex2_a \<and> evaluateShabbosRestriction ex1_R1 ex2_a [''R1''] = None
   \<and> ''R1'' \<in> set (resolveShabbosObservers (shiftsByResident ex1_ctx))
   \<and> gatesPass ex1_S1 ex1_S2 ex1_ctx ex1_R1 ex1_R2
   \<and> \<not> (\<exists>x y z w v adv. evaluateSwap (Some ex1_S1) (Some ex1_S2) (Some ex1_ctx) codeUnitOrder
              = Some (Infeasible (shabbos_restriction x y z w v) adv))"
  using shabbos_restriction_rule [of ex1_R1 ex2_a "[''R1'']" "''R1''" "shiftsByResident ex1_ctx"
      ex1_S1 ex1_S2 ex1_ctx ex1_R1 ex1_R2, where coll = codeUnitOrder] ex1_gates ex1_feasible
  by (simp add: builder_defs ex1_defs ex2_defs date_defs)

subsection \<open>The tier gate\<close>

lemma getMosesTier_MOSES: "getMosesTier s \<noteq> None \<Longrightarrow> shift_type s = MOSES"
  by (auto simp: getMosesTier_def split: if_splits)

lemma prepareSwap_tier:
  "(\<exists>x y tA tB. prepareSwap a' b' ctx' = Inl (moses_tier_mismatch x y tA tB)) \<longleftrightarrow>
     (\<exists>a b ctx. a' = Some a \<and> b' = Some b \<and> ctx' = Some ctx
        \<and> shift_id a \<noteq> shift_id b \<and> residentId a \<noteq> residentId b
        \<and> map_of (residentsById ctx) (residentId a) \<noteq> None
        \<and> map_of (residentsById ctx) (residentId b) \<noteq> None
        \<and> getMosesTier a \<noteq> None \<and> getMosesTier b \<noteq> None
        \<and> getMosesTier a \<noteq> getMosesTier b)"
  unfolding prepareSwap_def
  by (cases a'; cases b'; cases ctx') (auto simp: Let_def split: option.splits)

text \<open>
  C9, amended.  \<open>evaluateSwap\<close> returns a \<open>moses_tier_mismatch\<close> rejection exactly when
  both shifts and the context are present, the shift ids differ, the owners differ, both
  owners are found in the context, both shifts are of type MOSES, both tiers resolve, and the
  tiers differ.  In particular a shift whose tier does not resolve never causes it.
\<close>

theorem moses_tier_mismatch_iff:
  "(\<exists>x y tA tB adv. evaluateSwap a' b' ctx' coll
        = Some (Infeasible (moses_tier_mismatch x y tA tB) adv)) \<longleftrightarrow>
     (\<exists>a b ctx. a' = Some a \<and> b' = Some b \<and> ctx' = Some ctx
        \<and> shift_id a \<noteq> shift_id b \<and> residentId a \<noteq> residentId b
        \<and> map_of (residentsById ctx) (residentId a) \<noteq> None
        \<and> map_of (residentsById ctx) (residentId b) \<noteq> None
        \<and> shift_type a = MOSES \<and> shift_type b = MOSES
        \<and> getMosesTier a \<noteq> None \<and> getMosesTier b \<noteq> None
        \<and> getMosesTier a \<noteq> getMosesTier b)"
proof (cases "prepareSwap a' b' ctx'")
  case (Inl f)
  then have "evaluateSwap a' b' ctx' coll = Some (Infeasible f None)"
    by (simp add: evaluateSwap_def)
  then have "(\<exists>x y tA tB adv. evaluateSwap a' b' ctx' coll
        = Some (Infeasible (moses_tier_mismatch x y tA tB) adv))
      \<longleftrightarrow> (\<exists>x y tA tB. prepareSwap a' b' ctx' = Inl (moses_tier_mismatch x y tA tB))"
    using Inl by auto
  then show ?thesis
    unfolding prepareSwap_tier using getMosesTier_MOSES by blast
next
  case (Inr p)
  then obtain a b ctx rA rB where eq: "a' = Some a" "b' = Some b" "ctx' = Some ctx"
    and g: "gatesPass a b ctx rA rB"
    using prepareSwap_Inr_iff[of a' b' ctx' p] by auto
  have "\<not> (\<exists>x y tA tB adv. evaluateSwap a' b' ctx' coll
        = Some (Infeasible (moses_tier_mismatch x y tA tB) adv))"
    using prepared_reason_cases[OF g] unfolding eq by fastforce
  moreover have "\<not> (getMosesTier a \<noteq> None \<and> getMosesTier b \<noteq> None
        \<and> getMosesTier a \<noteq> getMosesTier b)"
    using g by (auto simp: gatesPass_def)
  ultimately show ?thesis using eq by auto
qed

lemma ex4_tiers:
  "getMosesTier ex4_jr = Some junior \<and> getMosesTier ex4_sr = Some senior
   \<and> getMosesTier ex4_sr2 = Some senior"
  by (simp add: getMosesTier_def string_defs builder_defs ex4_defs)

theorem moses_tier_mismatch_iff_witness:
  "\<exists>x y tA tB adv. evaluateSwap (Some ex4_jr) (Some ex4_sr2) (Some ex4_ctx) codeUnitOrder
        = Some (Infeasible (moses_tier_mismatch x y tA tB) adv)"
  using moses_tier_mismatch_iff [of "Some ex4_jr" "Some ex4_sr2" "Some ex4_ctx", where coll = codeUnitOrder] ex4_tiers
  by (simp add: builder_defs ex4_defs)

text \<open>
  C9 as stated fails: a junior and a senior Moses call with resolved, different tiers that
  belong to one resident are rejected with \<open>same_resident\<close>, not with the tier mismatch.
\<close>

theorem moses_tier_same_resident_counterexample:
  "shift_type ex4_jr = MOSES \<and> shift_type ex4_sr = MOSES
   \<and> getMosesTier ex4_jr = Some junior \<and> getMosesTier ex4_sr = Some senior
   \<and> evaluateSwap (Some ex4_jr) (Some ex4_sr) (Some ex4_ctx) codeUnitOrder
       = Some (Infeasible (same_resident ''R1'' ''moses_jr_1'' ''moses_sr_1'') None)"
  using ex4_tiers
  by (simp add: evaluateSwap_def prepareSwap_def builder_defs ex4_defs)

subsection \<open>The rotation block\<close>

lemma collectRotationBlockedDates_valid:
  assumes "dayjs (weekStartISO asg) = Some ws"
  shows "set (collectRotationBlockedDates asg)
         = YMD ` ({dayOf ws - 2..dayOf ws + 6} \<union> {dayOf ws + 12, dayOf ws + 13})"
proof -
  let ?d = "dayOf ws"
  have week: "(\<lambda>offset. ?d + offset) ` {0..6} = {?d..?d + 6}"
    using image_add_atLeastAtMost[of ?d 0 6] by simp
  have "set (collectRotationBlockedDates asg)
        = {YMD (?d - 2), YMD (?d - 1)} \<union> (\<lambda>offset. YMD (?d + offset)) ` {0..6}
          \<union> {YMD (?d + 12), YMD (?d + 13)}"
    using assms by (simp add: collectRotationBlockedDates_def Let_def Un_commute insert_commute)
  also have "(\<lambda>offset. YMD (?d + offset)) ` {0..6} = YMD ` {?d..?d + 6}"
  proof -
    have "(\<lambda>offset. YMD (?d + offset)) ` {0..6} = YMD ` ((\<lambda>offset. ?d + offset) ` {0..6})"
      by (simp only: image_image)
    then show ?thesis by (simp only: week)
  qed
  also have "{YMD (?d - 2), YMD (?d - 1)} \<union> YMD ` {?d..?d + 6}
               \<union> {YMD (?d + 12), YMD (?d + 13)}
             = YMD ` ({?d - 2..?d + 6} \<union> {?d + 12, ?d + 13})"
  proof -
    have "{?d - 2..?d + 6} = {?d - 2, ?d - 1} \<union> {?d..?d + 6}" by auto
    then show ?thesis by (simp add: image_Un Un_commute insert_commute)
  qed
  finally show ?thesis .
qed

lemma enumerateShiftCalendarDays_valid:
  "dayjs (startISO sh) = Some s0 \<Longrightarrow> dayjs (endISO sh) = Some e0 \<Longrightarrow>
     enumerateShiftCalendarDays sh = Some (map YMD [dayOf s0..dayOf e0])"
  by (simp add: enumerateShiftCalendarDays_def enumerateLoop_valid)

lemma firstRotationConflict_iff:
  "firstRotationConflict asgs r sh dates \<noteq> None \<longleftrightarrow>
     (\<exists>asg \<in> set asgs. isRotationBlockedForResident asg r sh
        \<and> (\<exists>d \<in> set dates. d \<in> set (collectRotationBlockedDates asg)))"
  by (induction asgs) (auto simp: Let_def filter_empty_conv)

lemma shiftRotationConflicts_valid:
  assumes "dayjs (startISO sh) = Some s0" "dayjs (endISO sh) = Some e0"
  shows "shiftRotationConflicts sh r
         = Some (firstRotationConflict (rotations r) r sh (map YMD [dayOf s0..dayOf e0]))"
proof (cases "map YMD [dayOf s0..dayOf e0] = []")
  case True
  have "firstRotationConflict (rotations r) r sh [] = None"
    using firstRotationConflict_iff[of "rotations r" r sh "[]"] by simp
  then show ?thesis
    using True
    by (simp add: shiftRotationConflicts_def Let_def enumerateShiftCalendarDays_valid[OF assms])
next
  case False
  then show ?thesis
    by (cases "rotations r")
      (simp_all add: shiftRotationConflicts_def Let_def
         enumerateShiftCalendarDays_valid[OF assms])
qed

lemma prepared_rotation_block_iff:
  assumes g: "gatesPass a b ctx rA rB"
    and sh: "evaluateShabbosRestriction rA (received b rA) (shabbosObservers ctx) = None"
      "evaluateShabbosRestriction rB (received a rB) (shabbosObservers ctx) = None"
    and vac: "shiftVacationConflicts (received b rA) rA = Some []"
  shows "(\<exists>u v w adv. evaluateSwap (Some a) (Some b) (Some ctx) coll
              = Some (Infeasible (rotation_block (res_id rA) (shift_id b) u v w) adv))
     \<longleftrightarrow> (\<exists>c. shiftRotationConflicts (received b rA) rA = Some (Some c))"
proof -
  let ?rest = "personDateChecks rB (received a rB)
               (Some (validateTimelines (otherShiftsOf ctx a @ [received b rA])
                        (otherShiftsOf ctx b @ [received a rB]) (ruleConfig ctx) rA rB
                        (received b rA) (received a rB) a b coll))"
  have ids: "shift_id (received b rA) = shift_id b" "shift_id (received a rB) = shift_id a"
    by (simp_all add: received_def)
  have ev: "evaluateSwap (Some a) (Some b) (Some ctx) coll = personDateChecks rA (received b rA) ?rest"
    unfolding evaluateSwap_staged[OF g] resolveShabbos_two sh by simp
  have rest_no: "?rest \<noteq> Some (Infeasible (rotation_block (res_id rA) (shift_id b) u v w) adv)"
    for u v w adv
  proof
    assume "?rest = Some (Infeasible (rotation_block (res_id rA) (shift_id b) u v w) adv)"
    from personDateChecks_Infeasible[OF this]
    have "shift_id a = shift_id b
        \<or> validateTimelines (otherShiftsOf ctx a @ [received b rA])
                        (otherShiftsOf ctx b @ [received a rB]) (ruleConfig ctx) rA rB
                        (received b rA) (received a rB) a b coll
           = Infeasible (rotation_block (res_id rA) (shift_id b) u v w) adv"
      by (auto simp: ids)
    then show False
      using g validateTimelines_kind by (fastforce simp: gatesPass_def)
  qed
  show ?thesis
  proof (cases "shiftRotationConflicts (received b rA) rA")
    case None
    then show ?thesis unfolding ev by (simp add: personDateChecks_def vac)
  next
    case (Some c)
    show ?thesis
    proof (cases c)
      case None
      with Some have "personDateChecks rA (received b rA) ?rest = ?rest"
        by (simp add: personDateChecks_def vac)
      then show ?thesis unfolding ev using rest_no Some None by simp
    next
      case (Some block)
      with \<open>shiftRotationConflicts (received b rA) rA = Some c\<close> show ?thesis
        unfolding ev by (simp add: personDateChecks_def vac ids)
    qed
  qed
qed

lemma personDateChecks_rotation_block:
  "(\<exists>x y u v w adv. personDateChecks r inc rest
        = Some (Infeasible (rotation_block x y u v w) adv)) \<longleftrightarrow>
     shiftVacationConflicts inc r = Some []
     \<and> ((\<exists>c. shiftRotationConflicts inc r = Some (Some c))
        \<or> (shiftRotationConflicts inc r = Some None
            \<and> (\<exists>x y u v w adv. rest = Some (Infeasible (rotation_block x y u v w) adv))))"
  unfolding personDateChecks_def by (auto split: option.splits if_splits)

lemma validateTimelines_not_rotation_block:
  "validateTimelines tA tB cfg rA rB sA sB a b coll \<noteq> Infeasible (rotation_block x y u v w) adv"
  using validateTimelines_kind[of tA tB cfg rA rB sA sB a b coll "rotation_block x y u v w" adv]
  by auto

lemma prepared_rotation_block_any_iff:
  assumes g: "gatesPass a b ctx rA rB"
  shows "(\<exists>x y u v w adv. evaluateSwap (Some a) (Some b) (Some ctx) coll
              = Some (Infeasible (rotation_block x y u v w) adv))
     \<longleftrightarrow> (evaluateShabbosRestriction rA (received b rA) (shabbosObservers ctx) = None
          \<and> evaluateShabbosRestriction rB (received a rB) (shabbosObservers ctx) = None
          \<and> shiftVacationConflicts (received b rA) rA = Some []
          \<and> ((\<exists>c. shiftRotationConflicts (received b rA) rA = Some (Some c))
             \<or> (shiftRotationConflicts (received b rA) rA = Some None
                 \<and> shiftVacationConflicts (received a rB) rB = Some []
                 \<and> (\<exists>c. shiftRotationConflicts (received a rB) rB = Some (Some c)))))"
proof (cases "resolveShabbosRestrictionForSwap (shabbosObservers ctx)
                [(rA, received b rA), (rB, received a rB)]")
  case (Some r)
  then have fires: "evaluateShabbosRestriction rA (received b rA) (shabbosObservers ctx) \<noteq> None
          \<or> evaluateShabbosRestriction rB (received a rB) (shabbosObservers ctx) \<noteq> None"
    by (auto simp: resolveShabbos_two split: option.splits)
  from Some have "\<exists>x y z w v. r = shabbos_restriction x y z w v"
    by (auto simp: resolveShabbos_two split: option.splits
        dest!: evaluateShabbosRestriction_Some)
  moreover have "evaluateSwap (Some a) (Some b) (Some ctx) coll = Some (Infeasible r None)"
    unfolding evaluateSwap_staged[OF g] Some by simp
  ultimately show ?thesis using fires by auto
next
  case None
  then have none: "evaluateShabbosRestriction rA (received b rA) (shabbosObservers ctx) = None"
    "evaluateShabbosRestriction rB (received a rB) (shabbosObservers ctx) = None"
    by (auto simp: resolveShabbos_two split: option.splits)
  let ?vt = "validateTimelines (otherShiftsOf ctx a @ [received b rA])
               (otherShiftsOf ctx b @ [received a rB]) (ruleConfig ctx) rA rB
               (received b rA) (received a rB) a b coll"
  have ev: "evaluateSwap (Some a) (Some b) (Some ctx) coll
            = personDateChecks rA (received b rA)
                (personDateChecks rB (received a rB) (Some ?vt))"
    unfolding evaluateSwap_staged[OF g] None by simp
  have vt: "\<not> (\<exists>x y u v w adv. Some ?vt = Some (Infeasible (rotation_block x y u v w) adv))"
    using validateTimelines_not_rotation_block by auto
  show ?thesis
    unfolding ev personDateChecks_rotation_block using vt none by simp
qed

lemma prepared_rotation_block_second_iff:
  assumes g: "gatesPass a b ctx rA rB"
    and sh: "evaluateShabbosRestriction rA (received b rA) (shabbosObservers ctx) = None"
      "evaluateShabbosRestriction rB (received a rB) (shabbosObservers ctx) = None"
    and first: "shiftVacationConflicts (received b rA) rA = Some []"
      "shiftRotationConflicts (received b rA) rA = Some None"
    and vac: "shiftVacationConflicts (received a rB) rB = Some []"
  shows "(\<exists>u v w adv. evaluateSwap (Some a) (Some b) (Some ctx) coll
              = Some (Infeasible (rotation_block (res_id rB) (shift_id a) u v w) adv))
     \<longleftrightarrow> (\<exists>c. shiftRotationConflicts (received a rB) rB = Some (Some c))"
proof -
  let ?vt = "validateTimelines (otherShiftsOf ctx a @ [received b rA])
               (otherShiftsOf ctx b @ [received a rB]) (ruleConfig ctx) rA rB
               (received b rA) (received a rB) a b coll"
  have ids: "shift_id (received a rB) = shift_id a" by (simp add: received_def)
  have ev: "evaluateSwap (Some a) (Some b) (Some ctx) coll
            = personDateChecks rB (received a rB) (Some ?vt)"
    unfolding evaluateSwap_staged[OF g] resolveShabbos_two sh
    by (simp add: personDateChecks_def first)
  show ?thesis
  proof (cases "shiftRotationConflicts (received a rB) rB")
    case None
    then show ?thesis unfolding ev by (simp add: personDateChecks_def vac)
  next
    case (Some c)
    show ?thesis
    proof (cases c)
      case None
      with Some have "personDateChecks rB (received a rB) (Some ?vt) = Some ?vt"
        by (simp add: personDateChecks_def vac)
      then show ?thesis
        unfolding ev using validateTimelines_not_rotation_block Some None by simp
    next
      case (Some block)
      with \<open>shiftRotationConflicts (received a rB) rB = Some c\<close> show ?thesis
        unfolding ev by (simp add: personDateChecks_def vac ids)
    qed
  qed
qed

lemma firstRotationConflict_Some:
  "firstRotationConflict asgs r sh dates = Some c \<Longrightarrow>
     \<exists>asg \<in> set asgs. isRotationBlockedForResident asg r sh
        \<and> rbc_rotation c = rotation asg \<and> rbc_rotationWeekStartISO c = weekStartISO asg
        \<and> rbc_conflictDates c = filter (\<lambda>d. d \<in> set (collectRotationBlockedDates asg)) dates
        \<and> rbc_conflictDates c \<noteq> []"
  by (induction asgs) (auto simp: Let_def split: if_splits)

text \<open>
  C6, amended.  A rotation assignment whose week start parses blocks exactly the days from
  two days before the week start through six days after it, and the days twelve and thirteen
  days after it; one whose week start does not parse blocks no day.  For an incoming
  assignment whose dates parse, the rotation check reports a conflict exactly when some day
  from its start day through its end day is blocked by a blocking rotation of the receiving
  person, and the conflict it reports names such a rotation, its week start and the blocked
  days among the days of the assignment.  A swap that reaches the rotation check of the first
  person is rejected with that person's \<open>rotation_block\<close> exactly when the check reports a
  conflict; one that passes the first person's checks and reaches the rotation check of the
  second person is rejected with the second person's \<open>rotation_block\<close> exactly when that check
  reports a conflict; and a swap that passes the gates is rejected with a \<open>rotation_block\<close>
  exactly when the Shabbos check passes, the first person has no vacation conflict and either
  the first person's rotation check reports a conflict, or it reports none, the second person
  has no vacation conflict and the second person's rotation check reports a conflict.
\<close>

theorem rotation_block_reach:
  "(dayjs (weekStartISO asg) = Some ws \<longrightarrow>
      set (collectRotationBlockedDates asg)
        = YMD ` ({dayOf ws - 2..dayOf ws + 6} \<union> {dayOf ws + 12, dayOf ws + 13}))
   \<and> (dayjs (weekStartISO asg) = None \<longrightarrow> collectRotationBlockedDates asg = [])
   \<and> (dayjs (startISO sh) = Some s0 \<and> dayjs (endISO sh) = Some e0 \<longrightarrow>
        (\<exists>c. shiftRotationConflicts sh r = Some c
           \<and> ((c \<noteq> None) \<longleftrightarrow>
                (\<exists>x \<in> set (rotations r). isRotationBlockedForResident x r sh
                   \<and> (\<exists>d \<in> {dayOf s0..dayOf e0}. YMD d \<in> set (collectRotationBlockedDates x))))
           \<and> (\<forall>block. c = Some block \<longrightarrow>
                (\<exists>x \<in> set (rotations r). isRotationBlockedForResident x r sh
                   \<and> rbc_rotation block = rotation x
                   \<and> rbc_rotationWeekStartISO block = weekStartISO x
                   \<and> rbc_conflictDates block
                       = filter (\<lambda>d. d \<in> set (collectRotationBlockedDates x))
                           (map YMD [dayOf s0..dayOf e0])
                   \<and> rbc_conflictDates block \<noteq> []))))
   \<and> (gatesPass a b ctx rA rB
        \<and> evaluateShabbosRestriction rA (received b rA) (shabbosObservers ctx) = None
        \<and> evaluateShabbosRestriction rB (received a rB) (shabbosObservers ctx) = None
        \<and> shiftVacationConflicts (received b rA) rA = Some [] \<longrightarrow>
        ((\<exists>u v w adv. evaluateSwap (Some a) (Some b) (Some ctx) coll
              = Some (Infeasible (rotation_block (res_id rA) (shift_id b) u v w) adv))
         \<longleftrightarrow> (\<exists>c. shiftRotationConflicts (received b rA) rA = Some (Some c))))
   \<and> (gatesPass a b ctx rA rB
        \<and> evaluateShabbosRestriction rA (received b rA) (shabbosObservers ctx) = None
        \<and> evaluateShabbosRestriction rB (received a rB) (shabbosObservers ctx) = None
        \<and> shiftVacationConflicts (received b rA) rA = Some []
        \<and> shiftRotationConflicts (received b rA) rA = Some None
        \<and> shiftVacationConflicts (received a rB) rB = Some [] \<longrightarrow>
        ((\<exists>u v w adv. evaluateSwap (Some a) (Some b) (Some ctx) coll
              = Some (Infeasible (rotation_block (res_id rB) (shift_id a) u v w) adv))
         \<longleftrightarrow> (\<exists>c. shiftRotationConflicts (received a rB) rB = Some (Some c))))
   \<and> (gatesPass a b ctx rA rB \<longrightarrow>
        ((\<exists>x y u v w adv. evaluateSwap (Some a) (Some b) (Some ctx) coll
              = Some (Infeasible (rotation_block x y u v w) adv))
         \<longleftrightarrow> (evaluateShabbosRestriction rA (received b rA) (shabbosObservers ctx) = None
              \<and> evaluateShabbosRestriction rB (received a rB) (shabbosObservers ctx) = None
              \<and> shiftVacationConflicts (received b rA) rA = Some []
              \<and> ((\<exists>c. shiftRotationConflicts (received b rA) rA = Some (Some c))
                 \<or> (shiftRotationConflicts (received b rA) rA = Some None
                     \<and> shiftVacationConflicts (received a rB) rB = Some []
                     \<and> (\<exists>c. shiftRotationConflicts (received a rB) rB = Some (Some c)))))))"
proof -
  have 1: "dayjs (weekStartISO asg) = None \<longrightarrow> collectRotationBlockedDates asg = []"
    by (simp add: collectRotationBlockedDates_def)
  have 0: "dayjs (weekStartISO asg) = Some ws \<longrightarrow>
      set (collectRotationBlockedDates asg)
        = YMD ` ({dayOf ws - 2..dayOf ws + 6} \<union> {dayOf ws + 12, dayOf ws + 13})"
    using collectRotationBlockedDates_valid[of asg ws] by blast
  have 2: "dayjs (startISO sh) = Some s0 \<and> dayjs (endISO sh) = Some e0 \<longrightarrow>
        (\<exists>c. shiftRotationConflicts sh r = Some c
           \<and> ((c \<noteq> None) \<longleftrightarrow>
                (\<exists>x \<in> set (rotations r). isRotationBlockedForResident x r sh
                   \<and> (\<exists>d \<in> {dayOf s0..dayOf e0}. YMD d \<in> set (collectRotationBlockedDates x))))
           \<and> (\<forall>block. c = Some block \<longrightarrow>
                (\<exists>x \<in> set (rotations r). isRotationBlockedForResident x r sh
                   \<and> rbc_rotation block = rotation x
                   \<and> rbc_rotationWeekStartISO block = weekStartISO x
                   \<and> rbc_conflictDates block
                       = filter (\<lambda>d. d \<in> set (collectRotationBlockedDates x))
                           (map YMD [dayOf s0..dayOf e0])
                   \<and> rbc_conflictDates block \<noteq> [])))"
  proof
    assume v: "dayjs (startISO sh) = Some s0 \<and> dayjs (endISO sh) = Some e0"
    let ?c = "firstRotationConflict (rotations r) r sh (map YMD [dayOf s0..dayOf e0])"
    have eq: "shiftRotationConflicts sh r = Some ?c"
      using v shiftRotationConflicts_valid[of sh s0 e0 r] by blast
    have iff: "(?c \<noteq> None) \<longleftrightarrow>
                (\<exists>x \<in> set (rotations r). isRotationBlockedForResident x r sh
                   \<and> (\<exists>d \<in> {dayOf s0..dayOf e0}. YMD d \<in> set (collectRotationBlockedDates x)))"
      using firstRotationConflict_iff[of "rotations r" r sh "map YMD [dayOf s0..dayOf e0]"]
      by auto
    have content: "\<forall>block. ?c = Some block \<longrightarrow>
                (\<exists>x \<in> set (rotations r). isRotationBlockedForResident x r sh
                   \<and> rbc_rotation block = rotation x
                   \<and> rbc_rotationWeekStartISO block = weekStartISO x
                   \<and> rbc_conflictDates block
                       = filter (\<lambda>d. d \<in> set (collectRotationBlockedDates x))
                           (map YMD [dayOf s0..dayOf e0])
                   \<and> rbc_conflictDates block \<noteq> [])"
      using firstRotationConflict_Some[of "rotations r" r sh "map YMD [dayOf s0..dayOf e0]"]
      by blast
    from eq iff content show "\<exists>c. shiftRotationConflicts sh r = Some c
           \<and> ((c \<noteq> None) \<longleftrightarrow>
                (\<exists>x \<in> set (rotations r). isRotationBlockedForResident x r sh
                   \<and> (\<exists>d \<in> {dayOf s0..dayOf e0}. YMD d \<in> set (collectRotationBlockedDates x))))
           \<and> (\<forall>block. c = Some block \<longrightarrow>
                (\<exists>x \<in> set (rotations r). isRotationBlockedForResident x r sh
                   \<and> rbc_rotation block = rotation x
                   \<and> rbc_rotationWeekStartISO block = weekStartISO x
                   \<and> rbc_conflictDates block
                       = filter (\<lambda>d. d \<in> set (collectRotationBlockedDates x))
                           (map YMD [dayOf s0..dayOf e0])
                   \<and> rbc_conflictDates block \<noteq> []))"
      by blast
  qed
  have 3: "gatesPass a b ctx rA rB
        \<and> evaluateShabbosRestriction rA (received b rA) (shabbosObservers ctx) = None
        \<and> evaluateShabbosRestriction rB (received a rB) (shabbosObservers ctx) = None
        \<and> shiftVacationConflicts (received b rA) rA = Some [] \<longrightarrow>
        ((\<exists>u v w adv. evaluateSwap (Some a) (Some b) (Some ctx) coll
              = Some (Infeasible (rotation_block (res_id rA) (shift_id b) u v w) adv))
         \<longleftrightarrow> (\<exists>c. shiftRotationConflicts (received b rA) rA = Some (Some c)))"
    using prepared_rotation_block_iff[of a b ctx rA rB] by blast
  have 4: "gatesPass a b ctx rA rB
        \<and> evaluateShabbosRestriction rA (received b rA) (shabbosObservers ctx) = None
        \<and> evaluateShabbosRestriction rB (received a rB) (shabbosObservers ctx) = None
        \<and> shiftVacationConflicts (received b rA) rA = Some []
        \<and> shiftRotationConflicts (received b rA) rA = Some None
        \<and> shiftVacationConflicts (received a rB) rB = Some [] \<longrightarrow>
        ((\<exists>u v w adv. evaluateSwap (Some a) (Some b) (Some ctx) coll
              = Some (Infeasible (rotation_block (res_id rB) (shift_id a) u v w) adv))
         \<longleftrightarrow> (\<exists>c. shiftRotationConflicts (received a rB) rB = Some (Some c)))"
    using prepared_rotation_block_second_iff[of a b ctx rA rB] by blast
  have 5: "gatesPass a b ctx rA rB \<longrightarrow>
        ((\<exists>x y u v w adv. evaluateSwap (Some a) (Some b) (Some ctx) coll
              = Some (Infeasible (rotation_block x y u v w) adv))
         \<longleftrightarrow> (evaluateShabbosRestriction rA (received b rA) (shabbosObservers ctx) = None
              \<and> evaluateShabbosRestriction rB (received a rB) (shabbosObservers ctx) = None
              \<and> shiftVacationConflicts (received b rA) rA = Some []
              \<and> ((\<exists>c. shiftRotationConflicts (received b rA) rA = Some (Some c))
                 \<or> (shiftRotationConflicts (received b rA) rA = Some None
                     \<and> shiftVacationConflicts (received a rB) rB = Some []
                     \<and> (\<exists>c. shiftRotationConflicts (received a rB) rB = Some (Some c))))))"
    using prepared_rotation_block_any_iff[of a b ctx rA rB] by blast
  from 0 1 2 3 4 5 show ?thesis by (intro conjI)
qed

lemma ex5_gates: "gatesPass ex5_a ex5_b ex5_ctx ex5_R1 ex1_R2"
  by code_simp

lemma ex5_gates_rev: "gatesPass ex5_b ex5_a ex5_ctx ex1_R2 ex5_R1"
  using ex5_gates by (rule gatesPass_sym)

lemma ex5_dates:
  "collectRotationBlockedDates ex5_rotation
     = map YMD [20365, 20366, 20367, 20368, 20369, 20370, 20371, 20372, 20373, 20379, 20380]"
  by code_simp

lemma ex5_blocked: "isRotationBlockedForResident ex5_rotation ex5_R1 (received ex5_b ex5_R1)"
  by code_simp

lemma ex5_rotation_conflict:
  "shiftRotationConflicts (received ex5_b ex5_R1) ex5_R1
     = Some (Some \<lparr> rbc_rotation = ''Vacation'',
                     rbc_rotationWeekStartISO = weekStartISO ex5_rotation,
                     rbc_conflictDates = [YMD 20379] \<rparr>)"
proof -
  have days: "enumerateShiftCalendarDays (received ex5_b ex5_R1) = Some [YMD 20379]"
    by (simp add: enumerateShiftCalendarDays_def enumerateLoop_valid received_def
        builder_defs ex5_defs date_defs)
  have rots: "rotations ex5_R1 = [ex5_rotation]" "rotation ex5_rotation = ''Vacation''"
    by (simp_all add: builder_defs ex5_R1_def ex5_rotation_def)
  show ?thesis
    by (simp add: shiftRotationConflicts_def days rots ex5_blocked ex5_dates Let_def)
qed

lemma ex5_checks:
  "evaluateShabbosRestriction ex5_R1 (received ex5_b ex5_R1) (shabbosObservers ex5_ctx) = None"
  "evaluateShabbosRestriction ex1_R2 (received ex5_a ex1_R2) (shabbosObservers ex5_ctx) = None"
  "shiftVacationConflicts (received ex5_b ex5_R1) ex5_R1 = Some []"
  "shiftVacationConflicts (received ex5_a ex1_R2) ex1_R2 = Some []"
  "shiftRotationConflicts (received ex5_a ex1_R2) ex1_R2 = Some None"
  "res_id ex5_R1 = ''R1''" "shift_id ex5_b = ''S2''"
  "dayjs (weekStartISO ex5_rotation) = Some 1759708800000"
  "dayOf 1759708800000 = 20367"
  by code_simp+

lemma ex5_rejected:
  "evaluateSwap (Some ex5_a) (Some ex5_b) (Some ex5_ctx) codeUnitOrder
     = Some (Infeasible (rotation_block ''R1'' ''S2'' ''Vacation'' (weekStartISO ex5_rotation)
                           [YMD 20379]) None)"
proof -
  have sh: "resolveShabbosRestrictionForSwap (shabbosObservers ex5_ctx)
              [(ex5_R1, received ex5_b ex5_R1), (ex1_R2, received ex5_a ex1_R2)] = None"
    by (simp add: resolveShabbos_two ex5_checks)
  have ids: "shift_id (received ex5_b ex5_R1) = ''S2''"
    by (simp add: received_def ex5_checks)
  show ?thesis
    unfolding evaluateSwap_staged[OF ex5_gates] sh
    by (simp add: personDateChecks_def ex5_checks ex5_rotation_conflict ids)
qed

text \<open>
  Example 5: the vacation week of R1 starts on day 20367; it blocks the days 20365 to 20373
  and the days 20379 and 20380.  R1 would receive the call of day 20379: the rotation check
  reports the conflict, whether R1 is the first person of the swap or the second.
\<close>

theorem rotation_block_reach_witness:
  "set (collectRotationBlockedDates ex5_rotation)
     = YMD ` ({20367 - 2..20367 + 6} \<union> {20367 + 12, 20367 + 13})
   \<and> (\<exists>c. shiftRotationConflicts (received ex5_b ex5_R1) ex5_R1 = Some (Some c))
   \<and> (\<exists>u v w adv. evaluateSwap (Some ex5_a) (Some ex5_b) (Some ex5_ctx) codeUnitOrder
          = Some (Infeasible (rotation_block ''R1'' ''S2'' u v w) adv))
   \<and> (\<exists>u v w adv. evaluateSwap (Some ex5_b) (Some ex5_a) (Some ex5_ctx) codeUnitOrder
          = Some (Infeasible (rotation_block ''R1'' ''S2'' u v w) adv))"
proof -
  have 1: "set (collectRotationBlockedDates ex5_rotation)
     = YMD ` ({20367 - 2..20367 + 6} \<union> {20367 + 12, 20367 + 13})"
    using rotation_block_reach [of ex5_rotation 1759708800000, where coll = codeUnitOrder] ex5_checks(8,9) by simp
  have 2: "\<exists>c. shiftRotationConflicts (received ex5_b ex5_R1) ex5_R1 = Some (Some c)"
    using ex5_rotation_conflict by simp
  have 3: "\<exists>u v w adv. evaluateSwap (Some ex5_a) (Some ex5_b) (Some ex5_ctx) codeUnitOrder
          = Some (Infeasible (rotation_block ''R1'' ''S2'' u v w) adv)"
    using ex5_rejected by simp
  have "(\<exists>u v w adv. evaluateSwap (Some ex5_b) (Some ex5_a) (Some ex5_ctx) codeUnitOrder
              = Some (Infeasible (rotation_block (res_id ex5_R1) (shift_id ex5_b) u v w) adv))
         \<longleftrightarrow> (\<exists>c. shiftRotationConflicts (received ex5_b ex5_R1) ex5_R1 = Some (Some c))"
    using rotation_block_reach [of ex5_rotation 1759708800000 ex5_b 0 0 ex5_R1
        ex5_b ex5_a ex5_ctx ex1_R2 ex5_R1, where coll = codeUnitOrder] ex5_gates_rev ex5_checks(1-5)
    by simp
  then have 4: "\<exists>u v w adv. evaluateSwap (Some ex5_b) (Some ex5_a) (Some ex5_ctx) codeUnitOrder
          = Some (Infeasible (rotation_block ''R1'' ''S2'' u v w) adv)"
    using 2 by (simp add: ex5_checks(6,7))
  from 1 2 3 4 show ?thesis by (intro conjI)
qed

text \<open>
  C6 as stated fails: the vacation week of R1 starts on day 20367 (Monday 6 October 2025);
  day 20379 (Saturday 18 October, twelve days later) is blocked and a call on that day is
  rejected with \<open>rotation_block\<close>, while day 20374 (the Monday after the week) is not
  blocked.
\<close>

theorem rotation_block_reach_counterexample:
  "map_option dayOf (dayjs (weekStartISO ex5_rotation)) = Some 20367
   \<and> YMD (20367 + 12) \<in> set (collectRotationBlockedDates ex5_rotation)
   \<and> YMD (20367 + 7) \<notin> set (collectRotationBlockedDates ex5_rotation)
   \<and> evaluateSwap (Some ex5_a) (Some ex5_b) (Some ex5_ctx) codeUnitOrder
       = Some (Infeasible (rotation_block ''R1'' ''S2'' ''Vacation'' (weekStartISO ex5_rotation)
                             [YMD (20367 + 12)]) None)"
proof -
  have "map_option dayOf (dayjs (weekStartISO ex5_rotation)) = Some 20367"
    by code_simp
  then show ?thesis using ex5_rejected by (simp add: ex5_dates)
qed

subsection \<open>Returning a typed value\<close>

lemma enumerateShiftCalendarDays_total:
  "validShift sh \<Longrightarrow> \<exists>days. enumerateShiftCalendarDays sh = Some days"
  by (auto simp: validShift_def enumerateShiftCalendarDays_def enumerateLoop_valid)

lemma personDateChecks_total:
  assumes "validShift inc" "rest \<noteq> None"
  shows "personDateChecks r inc rest \<noteq> None"
proof -
  obtain days where d: "enumerateShiftCalendarDays inc = Some days"
    using enumerateShiftCalendarDays_total[OF assms(1)] by blast
  have "shiftVacationConflicts inc r \<noteq> None"
    by (simp add: shiftVacationConflicts_def Let_def d)
  moreover have "shiftRotationConflicts inc r \<noteq> None"
    by (simp add: shiftRotationConflicts_def Let_def d)
  ultimately show ?thesis
    using assms(2) by (auto simp: personDateChecks_def split: option.splits)
qed

lemma validShift_received: "validShift (received sh r) = validShift sh"
  by (simp add: validShift_def received_def)

lemma evaluateSwap_total:
  assumes "\<And>s. a' = Some s \<Longrightarrow> validShift s" "\<And>s. b' = Some s \<Longrightarrow> validShift s"
  shows "\<exists>e. evaluateSwap a' b' ctx' coll = Some e"
proof (cases "prepareSwap a' b' ctx'")
  case (Inl f)
  then show ?thesis by (simp add: evaluateSwap_def)
next
  case (Inr p)
  then obtain a b ctx rA rB where eq: "a' = Some a" "b' = Some b" "ctx' = Some ctx"
    and g: "gatesPass a b ctx rA rB"
    using prepareSwap_Inr_iff[of a' b' ctx' p] by auto
  have v: "validShift (received b rA)" "validShift (received a rB)"
    using assms eq by (simp_all add: validShift_received)
  have "personDateChecks rA (received b rA)
            (personDateChecks rB (received a rB)
               (Some (validateTimelines (otherShiftsOf ctx a @ [received b rA])
                        (otherShiftsOf ctx b @ [received a rB]) (ruleConfig ctx) rA rB
                        (received b rA) (received a rB) a b coll))) \<noteq> None"
    by (intro personDateChecks_total v) simp
  then show ?thesis
    unfolding eq evaluateSwap_staged[OF g] by (auto split: option.splits)
qed

lemma syncLoop_total:
  "(\<And>p. p \<in> set pairs \<Longrightarrow> validShift (pair_a p) \<and> validShift (pair_b p)) \<Longrightarrow>
     \<exists>res. syncLoop pairs ctx out reasons smp acc coll = Some res"
proof (induction pairs arbitrary: out reasons smp acc)
  case Nil
  then show ?case by simp
next
  case (Cons pair rest)
  have "validShift (pair_a pair)" "validShift (pair_b pair)" using Cons.prems by auto
  then obtain e where e: "explainSwap (pair_a pair) (pair_b pair) ctx coll = Some e"
    using evaluateSwap_total[of "Some (pair_a pair)" "Some (pair_b pair)" "Some ctx"]
    by (auto simp: explainSwap_def)
  have rest: "\<And>p. p \<in> set rest \<Longrightarrow> validShift (pair_a p) \<and> validShift (pair_b p)"
    using Cons.prems by auto
  show ?case
    using Cons.IH[OF rest] by (cases e) (simp_all add: e)
qed

lemma evaluateSwap_unparsable:
  assumes g: "gatesPass a b ctx rA rB"
    and sh: "evaluateShabbosRestriction rA (received b rA) (shabbosObservers ctx) = None"
      "evaluateShabbosRestriction rB (received a rB) (shabbosObservers ctx) = None"
    and bad: "\<not> validShift b"
    and rot: "rotations rA \<noteq> []"
  shows "evaluateSwap (Some a) (Some b) (Some ctx) coll = None"
proof -
  have "map_option dayOf (dayjs (startISO (received b rA))) = None
        \<or> map_option dayOf (dayjs (endISO (received b rA))) = None"
    using bad by (auto simp: validShift_def received_def)
  then have days: "enumerateShiftCalendarDays (received b rA) = None"
    by (simp add: enumerateShiftCalendarDays_def enumerateLoop_invalid)
  have stuck: "personDateChecks rA (received b rA) rest = None" for rest
  proof (cases "collectVacationDates rA = []")
    case True
    then have "shiftVacationConflicts (received b rA) rA = Some []"
      by (simp add: shiftVacationConflicts_def)
    moreover have "shiftRotationConflicts (received b rA) rA = None"
      using rot days by (simp add: shiftRotationConflicts_def Let_def)
    ultimately show ?thesis by (simp add: personDateChecks_def)
  next
    case False
    then have "shiftVacationConflicts (received b rA) rA = None"
      using days by (simp add: shiftVacationConflicts_def Let_def)
    then show ?thesis by (simp add: personDateChecks_def)
  qed
  show ?thesis
    unfolding evaluateSwap_staged[OF g] resolveShabbos_two sh by (simp add: stuck)
qed

lemma syncLoop_stuck:
  "explainSwap (pair_a p) (pair_b p) ctx coll = None \<Longrightarrow>
     syncLoop (pre @ p # post) ctx out reasons smp acc coll = None"
proof (induction pre arbitrary: out reasons smp acc)
  case Nil
  then show ?case by simp
next
  case (Cons q pre)
  show ?case
  proof (cases "explainSwap (pair_a q) (pair_b q) ctx coll")
    case None
    then show ?thesis by simp
  next
    case (Some e)
    then show ?thesis using Cons by (cases e) simp_all
  qed
qed

text \<open>
  C8.  For shifts whose start and end texts parse, \<open>evaluateSwap\<close> returns a typed
  evaluation, whatever else the shifts and the context hold, and a serial batch of such pairs
  returns its candidates.  For a pair that passes the gates and the Shabbos check, where the
  shift the first person would receive has a start or end text that does not parse and that
  person has a rotation assignment, the day loop of the vacation or rotation check never ends:
  \<open>evaluateSwap\<close> returns nothing, and so does every serial batch that holds the pair.
\<close>

theorem evaluate_unparsable_date_never_returns:
  "((\<forall>s. a' = Some s \<longrightarrow> validShift s) \<and> (\<forall>s. b' = Some s \<longrightarrow> validShift s)
      \<longrightarrow> (\<exists>e. evaluateSwap a' b' ctx' coll = Some e))
   \<and> ((\<forall>p \<in> set pairs. validShift (pair_a p) \<and> validShift (pair_b p))
      \<longrightarrow> (\<exists>out. evaluatePairsSync pairs ctx0 coll = Some out))
   \<and> (gatesPass a b ctx rA rB
        \<and> evaluateShabbosRestriction rA (received b rA) (shabbosObservers ctx) = None
        \<and> evaluateShabbosRestriction rB (received a rB) (shabbosObservers ctx) = None
        \<and> \<not> validShift b \<and> rotations rA \<noteq> []
      \<longrightarrow> evaluateSwap (Some a) (Some b) (Some ctx) coll = None
          \<and> evaluatePairsSync (pre @ \<lparr> pair_a = a, pair_b = b \<rparr> # post) ctx coll = None)"
proof -
  have 1: "(\<forall>s. a' = Some s \<longrightarrow> validShift s) \<and> (\<forall>s. b' = Some s \<longrightarrow> validShift s)
      \<longrightarrow> (\<exists>e. evaluateSwap a' b' ctx' coll = Some e)"
    using evaluateSwap_total[of a' b' ctx'] by blast
  have 2: "(\<forall>p \<in> set pairs. validShift (pair_a p) \<and> validShift (pair_b p))
      \<longrightarrow> (\<exists>out. evaluatePairsSync pairs ctx0 coll = Some out)"
  proof
    assume "\<forall>p \<in> set pairs. validShift (pair_a p) \<and> validShift (pair_b p)"
    then obtain res where "syncLoop pairs ctx0 [] [] [] 0 coll = Some res"
      using syncLoop_total[of pairs ctx0 "[]" "[]" "[]" 0] by blast
    then show "\<exists>out. evaluatePairsSync pairs ctx0 coll = Some out"
      by (cases res) (simp add: evaluatePairsSync_def)
  qed
  have 3: "evaluateSwap (Some a) (Some b) (Some ctx) coll = None
          \<and> evaluatePairsSync (pre @ \<lparr> pair_a = a, pair_b = b \<rparr> # post) ctx coll = None"
    if h: "gatesPass a b ctx rA rB
        \<and> evaluateShabbosRestriction rA (received b rA) (shabbosObservers ctx) = None
        \<and> evaluateShabbosRestriction rB (received a rB) (shabbosObservers ctx) = None
        \<and> \<not> validShift b \<and> rotations rA \<noteq> []"
  proof -
    have none: "evaluateSwap (Some a) (Some b) (Some ctx) coll = None"
      using h evaluateSwap_unparsable[of a b ctx rA rB] by blast
    then have "explainSwap (pair_a \<lparr> pair_a = a, pair_b = b \<rparr>)
                 (pair_b \<lparr> pair_a = a, pair_b = b \<rparr>) ctx coll = None"
      by (simp add: explainSwap_def)
    from syncLoop_stuck[OF this, of pre post "[]" "[]" "[]" 0] none
    show ?thesis by (simp add: evaluatePairsSync_def)
  qed
  from 1 2 3 show ?thesis by blast
qed

lemma ex1_valid: "validShift ex1_S1 \<and> validShift ex1_S2"
  by code_simp

lemma ex3_gates: "gatesPass ex3_a ex3_b ex3_ctx ex3_R1 ex3_R2"
  by code_simp

lemma ex3_checks:
  "evaluateShabbosRestriction ex3_R1 (received ex3_b ex3_R1) (shabbosObservers ex3_ctx) = None"
  "evaluateShabbosRestriction ex3_R2 (received ex3_a ex3_R2) (shabbosObservers ex3_ctx) = None"
  "\<not> validShift ex3_b" "rotations ex3_R1 \<noteq> []"
  "isoText (startISO ex3_b) = ''not-a-date''"
  "collectRotationBlockedDates (ex3_rotation \<lparr> weekStartISO := startISO ex3_b \<rparr>) = []"
  "evaluateSwap (Some ex3_a) (Some ex3_a) (Some ex3_ctx) codeUnitOrder
     = Some (Infeasible (identical_shift ''S1'') None)"
  by code_simp+

text \<open>
  Example 3: the start text of the call R1 would receive is \<^verbatim>\<open>not-a-date\<close> and R1 has a
  rotation week.  The rotation reader, which tests \<^verbatim>\<open>isValid()\<close>, returns for that text; the
  evaluation of the swap does not, and a batch made of a pair that is rejected at once
  followed by this pair returns nothing.  The swap of example 1, whose texts parse, is
  evaluated.
\<close>

theorem evaluate_unparsable_date_never_returns_witness:
  "isoText (startISO ex3_b) = ''not-a-date'' \<and> \<not> validShift ex3_b \<and> rotations ex3_R1 \<noteq> []
   \<and> collectRotationBlockedDates (ex3_rotation \<lparr> weekStartISO := startISO ex3_b \<rparr>) = []
   \<and> gatesPass ex3_a ex3_b ex3_ctx ex3_R1 ex3_R2
   \<and> evaluateSwap (Some ex3_a) (Some ex3_a) (Some ex3_ctx) codeUnitOrder
       = Some (Infeasible (identical_shift ''S1'') None)
   \<and> evaluateSwap (Some ex3_a) (Some ex3_b) (Some ex3_ctx) codeUnitOrder = None
   \<and> evaluatePairsSync [\<lparr> pair_a = ex3_a, pair_b = ex3_a \<rparr>, \<lparr> pair_a = ex3_a, pair_b = ex3_b \<rparr>]
       ex3_ctx codeUnitOrder = None
   \<and> validShift ex1_S1 \<and> validShift ex1_S2
   \<and> (\<exists>e. evaluateSwap (Some ex1_S1) (Some ex1_S2) (Some ex1_ctx) codeUnitOrder = Some e)"
  using evaluate_unparsable_date_never_returns
      [of "Some ex1_S1" "Some ex1_S2" "Some ex1_ctx" codeUnitOrder "[]" ex1_ctx ex3_a ex3_b
          ex3_ctx ex3_R1 ex3_R2 "[\<lparr> pair_a = ex3_a, pair_b = ex3_a \<rparr>]" "[]"]
    ex1_valid ex3_gates ex3_checks
  by simp

subsection \<open>The rest window\<close>

lemma evaluatePair_rest:
  assumes "shift_type prev \<notin> set softTypes" "shift_type current \<notin> set softTypes"
    and "\<not> hasOverlap (startISO prev) (endISO prev) (startISO current) (endISO current)"
    and "0 < restHoursMin cfg"
    and "diffHours (dayjs (startISO current)) (dayjs (endISO prev)) = Some gap"
  shows "evaluatePair prev current cfg r softTypes
         = (if gap < restHoursMin cfg then Inl (RuleViolationError REST_WINDOW (res_id r))
            else Inr [])"
  using assms by (simp add: evaluatePair_def Let_def)

lemma evaluatePair_overlap:
  assumes "shift_type prev \<notin> set softTypes" "shift_type current \<notin> set softTypes"
    and "hasOverlap (startISO prev) (endISO prev) (startISO current) (endISO current)"
  shows "evaluatePair prev current cfg r softTypes = Inl (RuleViolationError OVERLAP (res_id r))"
  using assms by (simp add: evaluatePair_def Let_def)

lemma evaluateTimelinePairs_examined:
  "evaluateTimelinePairs shifts (Some [fid]) cfg r soft acc =
     (case firstPairError
             (filter (\<lambda>(p, c). shift_id p = fid \<or> shift_id c = fid) (adjacentPairs shifts))
             cfg r soft of
        Some e \<Rightarrow> Inl e
      | None \<Rightarrow>
          Inr (acc @ concat (map (\<lambda>(p, c). projr (evaluatePair p c cfg r soft))
                              (filter (\<lambda>(p, c). shift_id p = fid \<or> shift_id c = fid)
                                 (adjacentPairs shifts)))))"
proof (induction shifts arbitrary: acc rule: adjacentPairs.induct)
  case (1 x y rest)
  show ?case
  proof (cases "shift_id x = fid \<or> shift_id y = fid")
    case False
    then show ?thesis
      using "1.IH"[of acc] by (simp add: shouldEvaluatePair_def split: option.splits)
  next
    case True
    show ?thesis
    proof (cases "evaluatePair x y cfg r soft")
      case (Inl e)
      then show ?thesis using True by (simp add: shouldEvaluatePair_def)
    next
      case (Inr advs)
      then show ?thesis
        using True "1.IH"[of "acc @ advs"]
        by (simp add: shouldEvaluatePair_def split: option.splits)
    qed
  qed
qed simp_all

lemma validateResidentTimeline_verdict:
  "validateResidentTimeline (others @ [incoming]) cfg r (Some [shift_id incoming])
       (Some BACKUP_SOFT_TYPES) coll
     = (case timelineVerdict incoming others cfg r coll of
          Some e \<Rightarrow> Inl e
        | None \<Rightarrow> Inr (timelineAdvisories incoming others cfg r coll))"
  by (simp add: validateResidentTimeline_def timelineVerdict_def timelineAdvisories_def
      startOrdered_def examinedPairs_def Let_def evaluateTimelinePairs_examined
      split: sum.splits option.splits)

lemma evaluateSwap_timelines:
  assumes g: "gatesPass a b ctx rA rB"
    and pA: "passesDateChecks ctx rA (received b rA)"
    and pB: "passesDateChecks ctx rB (received a rB)"
  shows "evaluateSwap (Some a) (Some b) (Some ctx) coll =
     Some (case timelineVerdict (received b rA) (otherShiftsOf ctx a) (ruleConfig ctx) rA coll of
             Some e \<Rightarrow> catchTimelineError e a b []
           | None \<Rightarrow>
               (case timelineVerdict (received a rB) (otherShiftsOf ctx b) (ruleConfig ctx) rB coll of
                  Some e \<Rightarrow>
                    catchTimelineError e a b
                      (timelineAdvisories (received b rA) (otherShiftsOf ctx a) (ruleConfig ctx) rA coll)
                | None \<Rightarrow>
                    (let advisories =
                           timelineAdvisories (received b rA) (otherShiftsOf ctx a)
                             (ruleConfig ctx) rA coll
                           @ timelineAdvisories (received a rB) (otherShiftsOf ctx b)
                               (ruleConfig ctx) rB coll
                     in if advisories \<noteq> [] then Feasible (Some advisories)
                        else Feasible None)))"
proof -
  have ids: "shift_id (received b rA) = shift_id b" "shift_id (received a rB) = shift_id a"
    by (simp_all add: received_def)
  have "evaluateSwap (Some a) (Some b) (Some ctx) coll
        = Some (validateTimelines (otherShiftsOf ctx a @ [received b rA])
                  (otherShiftsOf ctx b @ [received a rB]) (ruleConfig ctx) rA rB
                  (received b rA) (received a rB) a b coll)"
    using pA pB unfolding evaluateSwap_staged[OF g] resolveShabbos_two passesDateChecks_def
    by (simp add: personDateChecks_def)
  then show ?thesis
    unfolding validateTimelines_def validateResidentTimeline_verdict
    by (simp add: Let_def split: option.splits)
qed

lemma set_insertBy: "set (insertBy le x ys) = insert x (set ys)"
  by (induction ys) auto

lemma set_sortBy: "set (sortBy le xs) = set xs"
  by (induction xs) (simp_all add: sortBy_def set_insertBy)

lemma assertShiftsAllowed_pass:
  "(\<And>s. s \<in> set shifts \<Longrightarrow> shift_id s = fid \<Longrightarrow> assertShiftAllowed s cfg r = Inr ())
     \<Longrightarrow> assertShiftsAllowed shifts (Some [fid]) cfg r = Inr ()"
  by (induction shifts) (simp_all add: Let_def)

lemma gatesPass_allowed:
  assumes "gatesPass a b ctx rA rB"
  shows "assertShiftAllowed (received b rA) (ruleConfig ctx) rA = Inr ()"
    and "assertShiftAllowed (received a rB) (ruleConfig ctx) rB = Inr ()"
  using assms by (auto simp: gatesPass_def assertShiftAllowed_def received_def)

lemma timelineVerdict_fresh:
  assumes ok: "assertShiftAllowed incoming cfg r = Inr ()"
    and fresh: "freshId incoming others"
  shows "timelineVerdict incoming others cfg r coll
         = firstPairError (examinedPairs incoming others coll) cfg r BACKUP_SOFT_TYPES"
proof -
  have "assertShiftsAllowed (startOrdered (others @ [incoming]) coll) (Some [shift_id incoming]) cfg r
        = Inr ()"
  proof (rule assertShiftsAllowed_pass)
    fix s
    assume "s \<in> set (startOrdered (others @ [incoming]) coll)" "shift_id s = shift_id incoming"
    then have "s = incoming"
      using fresh by (auto simp: startOrdered_def set_sortBy freshId_def list_all_iff)
    then show "assertShiftAllowed s cfg r = Inr ()" using ok by simp
  qed
  then show ?thesis by (simp add: timelineVerdict_def)
qed

lemma evaluatePair_plain:
  assumes "plainPair (p, c)" "0 < restHoursMin cfg"
  shows "evaluatePair p c cfg r BACKUP_SOFT_TYPES
         = (if \<exists>gap. pairGap (p, c) = Some gap \<and> gap < restHoursMin cfg
            then Inl (RuleViolationError REST_WINDOW (res_id r)) else Inr [])"
proof -
  obtain gap where gap: "diffHours (dayjs (startISO c)) (dayjs (endISO p)) = Some gap"
    using assms(1) by (auto simp: plainPair_def pairGap_def)
  have "evaluatePair p c cfg r BACKUP_SOFT_TYPES
         = (if gap < restHoursMin cfg then Inl (RuleViolationError REST_WINDOW (res_id r))
            else Inr [])"
    using assms by (intro evaluatePair_rest gap) (simp_all add: plainPair_def BACKUP_SOFT_TYPES_def)
  then show ?thesis by (simp add: pairGap_def gap)
qed

lemma firstPairError_plain:
  assumes "\<forall>pc \<in> set ps. plainPair pc" "0 < restHoursMin cfg"
  shows "firstPairError ps cfg r BACKUP_SOFT_TYPES
         = (if \<exists>pc \<in> set ps. \<exists>gap. pairGap pc = Some gap \<and> gap < restHoursMin cfg
            then Some (RuleViolationError REST_WINDOW (res_id r)) else None)"
  using assms(1)
proof (induction ps)
  case Nil
  then show ?case by simp
next
  case (Cons pc ps)
  obtain p c where pc: "pc = (p, c)" by (cases pc)
  have plain: "plainPair (p, c)" using Cons.prems pc by simp
  show ?case
    using Cons evaluatePair_plain[OF plain assms(2), of r]
    by (auto simp: pc)
qed

lemma advisories_plain:
  assumes "\<forall>pc \<in> set ps. plainPair pc" "0 < restHoursMin cfg"
    and "\<not> (\<exists>pc \<in> set ps. \<exists>gap. pairGap pc = Some gap \<and> gap < restHoursMin cfg)"
  shows "concat (map (\<lambda>(p, c). projr (evaluatePair p c cfg r BACKUP_SOFT_TYPES)) ps) = []"
  using assms(1,3)
proof (induction ps)
  case Nil
  then show ?case by simp
next
  case (Cons pc ps)
  obtain p c where pc: "pc = (p, c)" by (cases pc)
  have plain: "plainPair (p, c)" using Cons.prems pc by simp
  show ?case
    using Cons evaluatePair_plain[OF plain assms(2), of r]
    by (auto simp: pc)
qed

lemma evaluateSwap_plain:
  assumes g: "gatesPass a b ctx rA rB"
    and pA: "passesDateChecks ctx rA (received b rA)"
    and pB: "passesDateChecks ctx rB (received a rB)"
    and m: "0 < restHoursMin (ruleConfig ctx)"
    and fA: "freshId (received b rA) (otherShiftsOf ctx a)"
    and fB: "freshId (received a rB) (otherShiftsOf ctx b)"
    and plain: "\<forall>pc \<in> set (examinedPairs (received b rA) (otherShiftsOf ctx a) coll)
                       \<union> set (examinedPairs (received a rB) (otherShiftsOf ctx b) coll). plainPair pc"
    and violA: "violA \<longleftrightarrow> (\<exists>pc \<in> set (examinedPairs (received b rA) (otherShiftsOf ctx a) coll).
                 \<exists>gap. pairGap pc = Some gap \<and> gap < restHoursMin (ruleConfig ctx))"
    and violB: "violB \<longleftrightarrow> (\<exists>pc \<in> set (examinedPairs (received a rB) (otherShiftsOf ctx b) coll).
                 \<exists>gap. pairGap pc = Some gap \<and> gap < restHoursMin (ruleConfig ctx))"
  shows "evaluateSwap (Some a) (Some b) (Some ctx) coll =
     Some (if violA
           then Infeasible (rule_violation REST_WINDOW (res_id rA) (shift_id a) (shift_id b)) None
           else if violB
           then Infeasible (rule_violation REST_WINDOW (res_id rB) (shift_id a) (shift_id b)) None
           else Feasible None)"
proof -
  let ?exA = "examinedPairs (received b rA) (otherShiftsOf ctx a) coll"
  let ?exB = "examinedPairs (received a rB) (otherShiftsOf ctx b) coll"
  have plA: "\<forall>pc \<in> set ?exA. plainPair pc" and plB: "\<forall>pc \<in> set ?exB. plainPair pc"
    using plain by auto
  have vA: "timelineVerdict (received b rA) (otherShiftsOf ctx a) (ruleConfig ctx) rA coll
            = (if violA then Some (RuleViolationError REST_WINDOW (res_id rA)) else None)"
    unfolding timelineVerdict_fresh[OF gatesPass_allowed(1)[OF g] fA] violA
    by (rule firstPairError_plain[OF plA m])
  have vB: "timelineVerdict (received a rB) (otherShiftsOf ctx b) (ruleConfig ctx) rB coll
            = (if violB then Some (RuleViolationError REST_WINDOW (res_id rB)) else None)"
    unfolding timelineVerdict_fresh[OF gatesPass_allowed(2)[OF g] fB] violB
    by (rule firstPairError_plain[OF plB m])
  have aA: "timelineAdvisories (received b rA) (otherShiftsOf ctx a) (ruleConfig ctx) rA coll = []"
    if "\<not> violA"
    unfolding timelineAdvisories_def
    using that unfolding violA by (rule advisories_plain[OF plA m])
  have aB: "timelineAdvisories (received a rB) (otherShiftsOf ctx b) (ruleConfig ctx) rB coll = []"
    if "\<not> violB"
    unfolding timelineAdvisories_def
    using that unfolding violB by (rule advisories_plain[OF plB m])
  show ?thesis
  proof (cases violA)
    case True
    then show ?thesis
      unfolding evaluateSwap_timelines[OF g pA pB] vA
      by (simp add: catchTimelineError_def)
  next
    case nA: False
    show ?thesis
    proof (cases violB)
      case True
      then show ?thesis
        unfolding evaluateSwap_timelines[OF g pA pB] vA vB using nA aA[OF nA]
        by (simp add: catchTimelineError_def)
    next
      case False
      then show ?thesis
        unfolding evaluateSwap_timelines[OF g pA pB] vA vB using nA aA[OF nA] aB[OF False]
        by (simp add: Let_def)
    qed
  qed
qed

text \<open>
  C7, amended.  For a pair of assignments of which neither is soft, with a positive configured
  minimum and a gap that is a number, the pair check raises \<open>OVERLAP\<close> when the two overlap;
  when they do not, it raises \<open>REST_WINDOW\<close> if the gap is strictly less than the minimum and
  passes without advisory if the gap equals or exceeds the minimum.  The re-validation of a
  person's timeline after the swap throws the error of the type checks of the incoming
  assignment or else the error of the first rejected pair among the neighbouring pairs, in
  start order, that include the incoming assignment; pairs without the incoming assignment
  are not examined.  A swap that passes the gates and the Shabbos, vacation and rotation
  checks of both persons returns the conversion of the first person's error, else of the
  second person's error, else is accepted with the advisories of the examined pairs.  When in
  addition the incoming ids are fresh, the minimum is positive and every examined pair is a
  pair of non-backup assignments that do not overlap, the swap is rejected with a
  \<open>rule_violation\<close> of code \<open>REST_WINDOW\<close> exactly when some examined pair has a gap strictly
  less than the minimum, and is accepted without advisory exactly when every examined pair
  has a gap equal to or greater than the minimum.
\<close>

theorem rest_window_boundary:
  "(shift_type prev \<notin> set softTypes \<and> shift_type current \<notin> set softTypes
      \<and> 0 < restHoursMin cfg
      \<and> diffHours (dayjs (startISO current)) (dayjs (endISO prev)) = Some gap
      \<longrightarrow> (hasOverlap (startISO prev) (endISO prev) (startISO current) (endISO current)
            \<longrightarrow> evaluatePair prev current cfg r softTypes
                = Inl (RuleViolationError OVERLAP (res_id r)))
          \<and> (\<not> hasOverlap (startISO prev) (endISO prev) (startISO current) (endISO current)
            \<longrightarrow> (gap < restHoursMin cfg \<longrightarrow>
                   evaluatePair prev current cfg r softTypes
                     = Inl (RuleViolationError REST_WINDOW (res_id r)))
                \<and> (gap = restHoursMin cfg \<longrightarrow>
                     evaluatePair prev current cfg r softTypes = Inr [])
                \<and> (gap > restHoursMin cfg \<longrightarrow>
                     evaluatePair prev current cfg r softTypes = Inr [])))
   \<and> validateResidentTimeline (others @ [incoming]) cfg r (Some [shift_id incoming])
         (Some BACKUP_SOFT_TYPES) coll
       = (case timelineVerdict incoming others cfg r coll of
            Some e \<Rightarrow> Inl e
          | None \<Rightarrow> Inr (timelineAdvisories incoming others cfg r coll))
   \<and> (gatesPass a b ctx rA rB \<and> passesDateChecks ctx rA (received b rA)
        \<and> passesDateChecks ctx rB (received a rB)
      \<longrightarrow> evaluateSwap (Some a) (Some b) (Some ctx) coll =
            Some (case timelineVerdict (received b rA) (otherShiftsOf ctx a) (ruleConfig ctx) rA coll of
                    Some e \<Rightarrow> catchTimelineError e a b []
                  | None \<Rightarrow>
                      (case timelineVerdict (received a rB) (otherShiftsOf ctx b)
                              (ruleConfig ctx) rB coll of
                         Some e \<Rightarrow>
                           catchTimelineError e a b
                             (timelineAdvisories (received b rA) (otherShiftsOf ctx a)
                                (ruleConfig ctx) rA coll)
                       | None \<Rightarrow>
                           (let advisories =
                                  timelineAdvisories (received b rA) (otherShiftsOf ctx a)
                                    (ruleConfig ctx) rA coll
                                  @ timelineAdvisories (received a rB) (otherShiftsOf ctx b)
                                      (ruleConfig ctx) rB coll
                            in if advisories \<noteq> [] then Feasible (Some advisories)
                               else Feasible None))))
   \<and> (gatesPass a b ctx rA rB \<and> passesDateChecks ctx rA (received b rA)
        \<and> passesDateChecks ctx rB (received a rB)
        \<and> 0 < restHoursMin (ruleConfig ctx)
        \<and> freshId (received b rA) (otherShiftsOf ctx a)
        \<and> freshId (received a rB) (otherShiftsOf ctx b)
        \<and> (\<forall>pc \<in> set (examinedPairs (received b rA) (otherShiftsOf ctx a) coll)
                    \<union> set (examinedPairs (received a rB) (otherShiftsOf ctx b) coll). plainPair pc)
      \<longrightarrow> ((\<exists>rid adv. evaluateSwap (Some a) (Some b) (Some ctx) coll
                = Some (Infeasible (rule_violation REST_WINDOW rid (shift_id a) (shift_id b)) adv))
            \<longleftrightarrow> (\<exists>pc \<in> set (examinedPairs (received b rA) (otherShiftsOf ctx a) coll)
                          \<union> set (examinedPairs (received a rB) (otherShiftsOf ctx b) coll).
                    \<exists>g. pairGap pc = Some g \<and> g < restHoursMin (ruleConfig ctx)))
          \<and> (evaluateSwap (Some a) (Some b) (Some ctx) coll = Some (Feasible None)
            \<longleftrightarrow> (\<forall>pc \<in> set (examinedPairs (received b rA) (otherShiftsOf ctx a) coll)
                          \<union> set (examinedPairs (received a rB) (otherShiftsOf ctx b) coll).
                    \<forall>g. pairGap pc = Some g \<longrightarrow> restHoursMin (ruleConfig ctx) \<le> g)))"
proof -
  have 1: "shift_type prev \<notin> set softTypes \<and> shift_type current \<notin> set softTypes
      \<and> 0 < restHoursMin cfg
      \<and> diffHours (dayjs (startISO current)) (dayjs (endISO prev)) = Some gap
      \<longrightarrow> (hasOverlap (startISO prev) (endISO prev) (startISO current) (endISO current)
            \<longrightarrow> evaluatePair prev current cfg r softTypes
                = Inl (RuleViolationError OVERLAP (res_id r)))
          \<and> (\<not> hasOverlap (startISO prev) (endISO prev) (startISO current) (endISO current)
            \<longrightarrow> (gap < restHoursMin cfg \<longrightarrow>
                   evaluatePair prev current cfg r softTypes
                     = Inl (RuleViolationError REST_WINDOW (res_id r)))
                \<and> (gap = restHoursMin cfg \<longrightarrow>
                     evaluatePair prev current cfg r softTypes = Inr [])
                \<and> (gap > restHoursMin cfg \<longrightarrow>
                     evaluatePair prev current cfg r softTypes = Inr []))"
    using evaluatePair_rest[of prev softTypes current cfg gap r]
      evaluatePair_overlap[of prev softTypes current cfg r]
    by auto
  have 2: "validateResidentTimeline (others @ [incoming]) cfg r (Some [shift_id incoming])
         (Some BACKUP_SOFT_TYPES) coll
       = (case timelineVerdict incoming others cfg r coll of
            Some e \<Rightarrow> Inl e
          | None \<Rightarrow> Inr (timelineAdvisories incoming others cfg r coll))"
    by (rule validateResidentTimeline_verdict)
  have 3: "gatesPass a b ctx rA rB \<and> passesDateChecks ctx rA (received b rA)
        \<and> passesDateChecks ctx rB (received a rB)
      \<longrightarrow> evaluateSwap (Some a) (Some b) (Some ctx) coll =
            Some (case timelineVerdict (received b rA) (otherShiftsOf ctx a) (ruleConfig ctx) rA coll of
                    Some e \<Rightarrow> catchTimelineError e a b []
                  | None \<Rightarrow>
                      (case timelineVerdict (received a rB) (otherShiftsOf ctx b)
                              (ruleConfig ctx) rB coll of
                         Some e \<Rightarrow>
                           catchTimelineError e a b
                             (timelineAdvisories (received b rA) (otherShiftsOf ctx a)
                                (ruleConfig ctx) rA coll)
                       | None \<Rightarrow>
                           (let advisories =
                                  timelineAdvisories (received b rA) (otherShiftsOf ctx a)
                                    (ruleConfig ctx) rA coll
                                  @ timelineAdvisories (received a rB) (otherShiftsOf ctx b)
                                      (ruleConfig ctx) rB coll
                            in if advisories \<noteq> [] then Feasible (Some advisories)
                               else Feasible None)))"
    using evaluateSwap_timelines[of a b ctx rA rB] by blast
  have 4: "(\<exists>rid adv. evaluateSwap (Some a) (Some b) (Some ctx) coll
                = Some (Infeasible (rule_violation REST_WINDOW rid (shift_id a) (shift_id b)) adv))
            \<longleftrightarrow> (\<exists>pc \<in> set (examinedPairs (received b rA) (otherShiftsOf ctx a) coll)
                          \<union> set (examinedPairs (received a rB) (otherShiftsOf ctx b) coll).
                    \<exists>g. pairGap pc = Some g \<and> g < restHoursMin (ruleConfig ctx))"
    and 5: "evaluateSwap (Some a) (Some b) (Some ctx) coll = Some (Feasible None)
            \<longleftrightarrow> (\<forall>pc \<in> set (examinedPairs (received b rA) (otherShiftsOf ctx a) coll)
                          \<union> set (examinedPairs (received a rB) (otherShiftsOf ctx b) coll).
                    \<forall>g. pairGap pc = Some g \<longrightarrow> restHoursMin (ruleConfig ctx) \<le> g)"
    if h: "gatesPass a b ctx rA rB \<and> passesDateChecks ctx rA (received b rA)
        \<and> passesDateChecks ctx rB (received a rB)
        \<and> 0 < restHoursMin (ruleConfig ctx)
        \<and> freshId (received b rA) (otherShiftsOf ctx a)
        \<and> freshId (received a rB) (otherShiftsOf ctx b)
        \<and> (\<forall>pc \<in> set (examinedPairs (received b rA) (otherShiftsOf ctx a) coll)
                    \<union> set (examinedPairs (received a rB) (otherShiftsOf ctx b) coll). plainPair pc)"
  proof -
    define violA where "violA \<longleftrightarrow>
      (\<exists>pc \<in> set (examinedPairs (received b rA) (otherShiftsOf ctx a) coll).
         \<exists>gap. pairGap pc = Some gap \<and> gap < restHoursMin (ruleConfig ctx))"
    define violB where "violB \<longleftrightarrow>
      (\<exists>pc \<in> set (examinedPairs (received a rB) (otherShiftsOf ctx b) coll).
         \<exists>gap. pairGap pc = Some gap \<and> gap < restHoursMin (ruleConfig ctx))"
    have ev: "evaluateSwap (Some a) (Some b) (Some ctx) coll =
     Some (if violA
           then Infeasible (rule_violation REST_WINDOW (res_id rA) (shift_id a) (shift_id b)) None
           else if violB
           then Infeasible (rule_violation REST_WINDOW (res_id rB) (shift_id a) (shift_id b)) None
           else Feasible None)"
      using h violA_def violB_def by (intro evaluateSwap_plain) blast+
    have some: "(\<exists>pc \<in> set (examinedPairs (received b rA) (otherShiftsOf ctx a) coll)
                          \<union> set (examinedPairs (received a rB) (otherShiftsOf ctx b) coll).
                    \<exists>g. pairGap pc = Some g \<and> g < restHoursMin (ruleConfig ctx))
                \<longleftrightarrow> violA \<or> violB"
      unfolding violA_def violB_def by blast
    have all: "(\<forall>pc \<in> set (examinedPairs (received b rA) (otherShiftsOf ctx a) coll)
                          \<union> set (examinedPairs (received a rB) (otherShiftsOf ctx b) coll).
                    \<forall>g. pairGap pc = Some g \<longrightarrow> restHoursMin (ruleConfig ctx) \<le> g)
                \<longleftrightarrow> \<not> violA \<and> \<not> violB"
      unfolding violA_def violB_def by (auto simp: not_less)
    show "(\<exists>rid adv. evaluateSwap (Some a) (Some b) (Some ctx) coll
                = Some (Infeasible (rule_violation REST_WINDOW rid (shift_id a) (shift_id b)) adv))
            \<longleftrightarrow> (\<exists>pc \<in> set (examinedPairs (received b rA) (otherShiftsOf ctx a) coll)
                          \<union> set (examinedPairs (received a rB) (otherShiftsOf ctx b) coll).
                    \<exists>g. pairGap pc = Some g \<and> g < restHoursMin (ruleConfig ctx))"
      unfolding some ev by auto
    show "evaluateSwap (Some a) (Some b) (Some ctx) coll = Some (Feasible None)
            \<longleftrightarrow> (\<forall>pc \<in> set (examinedPairs (received b rA) (otherShiftsOf ctx a) coll)
                          \<union> set (examinedPairs (received a rB) (otherShiftsOf ctx b) coll).
                    \<forall>g. pairGap pc = Some g \<longrightarrow> restHoursMin (ruleConfig ctx) \<le> g)"
      unfolding all ev by auto
  qed
  from 1 2 3 4 5 show ?thesis by blast
qed

lemmas ex7_defs = ex7_P_def ex7_O_def ex7_S1_def ex7_S2_def ex7_ctx_def ex1_R1_def ex1_R2_def

lemma ex7_facts:
  "gatesPass ex7_S1 ex7_S2 ex7_ctx ex1_R1 ex1_R2"
  "passesDateChecks ex7_ctx ex1_R1 (received ex7_S2 ex1_R1)"
  "passesDateChecks ex7_ctx ex1_R2 (received ex7_S1 ex1_R2)"
  "freshId (received ex7_S2 ex1_R1) (otherShiftsOf ex7_ctx ex7_S1)"
  "freshId (received ex7_S1 ex1_R2) (otherShiftsOf ex7_ctx ex7_S2)"
  "examinedPairs (received ex7_S2 ex1_R1) (otherShiftsOf ex7_ctx ex7_S1) codeUnitOrder
     = [(ex7_P, received ex7_S2 ex1_R1)]"
  "examinedPairs (received ex7_S1 ex1_R2) (otherShiftsOf ex7_ctx ex7_S2) codeUnitOrder = []"
  "plainPair (ex7_P, received ex7_S2 ex1_R1)"
  "pairGap (ex7_P, received ex7_S2 ex1_R1) = Some 10"
  "restHoursMin (ruleConfig ex7_ctx) = 10"
  "shift_id ex7_S1 = ''S1''" "shift_id ex7_S2 = ''S2''"
  by code_simp+

lemma ex7_with:
  "gatesPass ex7_S1 ex7_S2 (withRestHoursMin ex7_ctx m) ex1_R1 ex1_R2
     = gatesPass ex7_S1 ex7_S2 ex7_ctx ex1_R1 ex1_R2"
  "passesDateChecks (withRestHoursMin ex7_ctx m) r inc = passesDateChecks ex7_ctx r inc"
  "otherShiftsOf (withRestHoursMin ex7_ctx m) sh = otherShiftsOf ex7_ctx sh"
  "restHoursMin (ruleConfig (withRestHoursMin ex7_ctx m)) = m"
  by (simp_all add: gatesPass_def passesDateChecks_def otherShiftsOf_def withRestHoursMin_def)

text \<open>
  Example 7 at the boundary: after the swap the timeline of R1 is the call that ends at 08:00
  and the incoming call that starts at 18:00, a gap of ten hours.  With a minimum of ten
  hours the swap is accepted; with a minimum of eleven hours it is rejected with
  \<open>REST_WINDOW\<close>.
\<close>

theorem rest_window_boundary_witness:
  "examinedPairs (received ex7_S2 ex1_R1) (otherShiftsOf ex7_ctx ex7_S1) codeUnitOrder
     = [(ex7_P, received ex7_S2 ex1_R1)]
   \<and> pairGap (ex7_P, received ex7_S2 ex1_R1) = Some 10
   \<and> restHoursMin (ruleConfig ex7_ctx) = 10
   \<and> evaluateSwap (Some ex7_S1) (Some ex7_S2) (Some ex7_ctx) codeUnitOrder = Some (Feasible None)
   \<and> (\<exists>rid adv. evaluateSwap (Some ex7_S1) (Some ex7_S2) (Some (withRestHoursMin ex7_ctx 11)) codeUnitOrder
          = Some (Infeasible (rule_violation REST_WINDOW rid ''S1'' ''S2'') adv))"
proof -
  have h10: "gatesPass ex7_S1 ex7_S2 ex7_ctx ex1_R1 ex1_R2
        \<and> passesDateChecks ex7_ctx ex1_R1 (received ex7_S2 ex1_R1)
        \<and> passesDateChecks ex7_ctx ex1_R2 (received ex7_S1 ex1_R2)
        \<and> 0 < restHoursMin (ruleConfig ex7_ctx)
        \<and> freshId (received ex7_S2 ex1_R1) (otherShiftsOf ex7_ctx ex7_S1)
        \<and> freshId (received ex7_S1 ex1_R2) (otherShiftsOf ex7_ctx ex7_S2)
        \<and> (\<forall>pc \<in> set (examinedPairs (received ex7_S2 ex1_R1) (otherShiftsOf ex7_ctx ex7_S1) codeUnitOrder)
                    \<union> set (examinedPairs (received ex7_S1 ex1_R2) (otherShiftsOf ex7_ctx ex7_S2) codeUnitOrder).
              plainPair pc)"
    using ex7_facts by simp
  have 1: "evaluateSwap (Some ex7_S1) (Some ex7_S2) (Some ex7_ctx) codeUnitOrder = Some (Feasible None)"
    using rest_window_boundary [of ex7_P "[]" ex7_O "ruleConfig ex7_ctx" 0 ex1_R1 "[]" ex7_S1
        codeUnitOrder ex7_S1 ex7_S2 ex7_ctx ex1_R1 ex1_R2, THEN conjunct2, THEN conjunct2,
        THEN conjunct2,
        THEN mp, OF h10, THEN conjunct2]
    by (simp add: ex7_facts)
  have h11: "gatesPass ex7_S1 ex7_S2 (withRestHoursMin ex7_ctx 11) ex1_R1 ex1_R2
        \<and> passesDateChecks (withRestHoursMin ex7_ctx 11) ex1_R1 (received ex7_S2 ex1_R1)
        \<and> passesDateChecks (withRestHoursMin ex7_ctx 11) ex1_R2 (received ex7_S1 ex1_R2)
        \<and> 0 < restHoursMin (ruleConfig (withRestHoursMin ex7_ctx 11))
        \<and> freshId (received ex7_S2 ex1_R1) (otherShiftsOf (withRestHoursMin ex7_ctx 11) ex7_S1)
        \<and> freshId (received ex7_S1 ex1_R2) (otherShiftsOf (withRestHoursMin ex7_ctx 11) ex7_S2)
        \<and> (\<forall>pc \<in> set (examinedPairs (received ex7_S2 ex1_R1)
                           (otherShiftsOf (withRestHoursMin ex7_ctx 11) ex7_S1) codeUnitOrder)
                    \<union> set (examinedPairs (received ex7_S1 ex1_R2)
                             (otherShiftsOf (withRestHoursMin ex7_ctx 11) ex7_S2) codeUnitOrder).
              plainPair pc)"
    using ex7_facts by (simp add: ex7_with)
  have 2: "\<exists>rid adv. evaluateSwap (Some ex7_S1) (Some ex7_S2) (Some (withRestHoursMin ex7_ctx 11)) codeUnitOrder
          = Some (Infeasible (rule_violation REST_WINDOW rid ''S1'' ''S2'') adv)"
    using rest_window_boundary [of ex7_P "[]" ex7_O "ruleConfig ex7_ctx" 0 ex1_R1 "[]" ex7_S1
        codeUnitOrder ex7_S1 ex7_S2 "withRestHoursMin ex7_ctx 11" ex1_R1 ex1_R2, THEN conjunct2,
        THEN conjunct2, THEN conjunct2, THEN mp, OF h11, THEN conjunct1]
    by (simp add: ex7_facts ex7_with)
  from 1 2 ex7_facts(6,9,10) show ?thesis by (intro conjI)
qed

lemma ex1_pair:
  "shift_type ex1_C1 \<notin> set BACKUP_SOFT_TYPES" "shift_type ex1_C2 \<notin> set BACKUP_SOFT_TYPES"
  "\<not> hasOverlap (startISO ex1_C1) (endISO ex1_C1) (startISO ex1_C2) (endISO ex1_C2)"
  "restHoursMin (ruleConfig ex1_ctx) = 10"
  "diffHours (dayjs (startISO ex1_C2)) (dayjs (endISO ex1_C1)) = Some 6"
  by code_simp+

lemma ex1_timeline:
  "startOrdered (otherShiftsOf ex1_ctx ex1_S1 @ [received ex1_S2 ex1_R1]) codeUnitOrder
     = [ex1_C1, ex1_C2, received ex1_S2 ex1_R1]"
  "examinedPairs (received ex1_S2 ex1_R1) (otherShiftsOf ex1_ctx ex1_S1) codeUnitOrder
     = [(ex1_C2, received ex1_S2 ex1_R1)]"
  by code_simp+

text \<open>
  C7 as stated fails: after the swap of example 1 the timeline of R1 is C1, C2 and the
  incoming S2; C1 and C2 are adjacent, neither is soft, they do not overlap and their gap of
  six hours is below the minimum of ten, yet the pair is not examined and the swap is
  accepted.
\<close>

theorem rest_window_unrelated_pair_counterexample:
  "startOrdered (otherShiftsOf ex1_ctx ex1_S1 @ [received ex1_S2 ex1_R1]) codeUnitOrder
     = [ex1_C1, ex1_C2, received ex1_S2 ex1_R1]
   \<and> examinedPairs (received ex1_S2 ex1_R1) (otherShiftsOf ex1_ctx ex1_S1) codeUnitOrder
       = [(ex1_C2, received ex1_S2 ex1_R1)]
   \<and> shift_type ex1_C1 \<notin> set BACKUP_SOFT_TYPES \<and> shift_type ex1_C2 \<notin> set BACKUP_SOFT_TYPES
   \<and> \<not> hasOverlap (startISO ex1_C1) (endISO ex1_C1) (startISO ex1_C2) (endISO ex1_C2)
   \<and> diffHours (dayjs (startISO ex1_C2)) (dayjs (endISO ex1_C1)) = Some 6
   \<and> restHoursMin (ruleConfig ex1_ctx) = 10
   \<and> evaluateSwap (Some ex1_S1) (Some ex1_S2) (Some ex1_ctx) codeUnitOrder = Some (Feasible None)"
  using ex1_timeline ex1_pair ex1_feasible by simp

subsection \<open>A minimum rest of zero or less\<close>

lemma evaluatePair_nonpositive_Inl:
  "restHoursMin cfg \<le> 0 \<Longrightarrow> evaluatePair prev current cfg r softTypes = Inl err
     \<Longrightarrow> err = RuleViolationError OVERLAP (res_id r)"
  by (auto simp: evaluatePair_def Let_def split: if_splits)

lemma evaluatePair_nonpositive_Inr:
  "restHoursMin cfg \<le> 0 \<Longrightarrow> evaluatePair prev current cfg r softTypes = Inr advs
     \<Longrightarrow> \<forall>adv \<in> set advs. adv_code adv = ADV_OVERLAP"
  by (auto simp: evaluatePair_def Let_def buildOverlapAdvisory_def split: if_splits prod.splits)

lemma evaluateTimelinePairs_nonpositive:
  "restHoursMin cfg \<le> 0 \<Longrightarrow> \<forall>adv \<in> set acc. adv_code adv \<noteq> ADV_REST_WINDOW \<Longrightarrow>
       (evaluateTimelinePairs shifts focus cfg r softTypes acc = Inl err
            \<longrightarrow> err = RuleViolationError OVERLAP (res_id r))
       \<and> (evaluateTimelinePairs shifts focus cfg r softTypes acc = Inr advs
            \<longrightarrow> (\<forall>adv \<in> set advs. adv_code adv \<noteq> ADV_REST_WINDOW))"
proof (induction shifts focus cfg r softTypes acc rule: evaluateTimelinePairs.induct)
  case (1 prev current rest focusShiftIds cfg resident softTypes advisories)
  show ?case
  proof (cases "shouldEvaluatePair prev current focusShiftIds")
    case False
    then show ?thesis using 1 by simp
  next
    case True
    show ?thesis
    proof (cases "evaluatePair prev current cfg resident softTypes")
      case (Inl e)
      then show ?thesis
        using True evaluatePair_nonpositive_Inl[OF "1.prems"(1) Inl] by simp
    next
      case (Inr pairAdvs)
      have "\<forall>adv \<in> set pairAdvs. adv_code adv = ADV_OVERLAP"
        using evaluatePair_nonpositive_Inr[OF "1.prems"(1) Inr] .
      then have acc: "\<forall>adv \<in> set (advisories @ pairAdvs). adv_code adv \<noteq> ADV_REST_WINDOW"
        using "1.prems"(2) by auto
      have nn: "\<not> \<not> shouldEvaluatePair prev current focusShiftIds" using True by simp
      show ?thesis
        using "1.IH"(2)[OF nn Inr "1.prems"(1) acc] True Inr by simp
    qed
  qed
qed simp_all

lemma assertShiftsAllowed_Inl:
  "assertShiftsAllowed shifts focus cfg r = Inl err \<Longrightarrow>
     err = RuleViolationError TYPE_WHITELIST (res_id r)
     \<or> err = RuleViolationError ELIGIBILITY (res_id r)"
  by (induction shifts)
    (auto simp: Let_def assertShiftAllowed_def split: if_splits sum.splits)

lemma validateResidentTimeline_nonpositive:
  assumes "restHoursMin cfg \<le> 0"
  shows "(validateResidentTimeline shifts cfg r focus soft coll = Inl err
            \<longrightarrow> (\<exists>c. err = RuleViolationError c (res_id r) \<and> c \<noteq> REST_WINDOW))
       \<and> (validateResidentTimeline shifts cfg r focus soft coll = Inr advs
            \<longrightarrow> (\<forall>adv \<in> set advs. adv_code adv \<noteq> ADV_REST_WINDOW))"
proof -
  let ?sorted = "sortBy (\<lambda>a b. localeCompare (isoText (startISO a)) (isoText (startISO b)) coll \<le> 0)
                   shifts"
  let ?soft = "case soft of None \<Rightarrow> EMPTY_SOFT_TYPES | Some t \<Rightarrow> t"
  show ?thesis
  proof (cases "assertShiftsAllowed ?sorted focus cfg r")
    case (Inl e)
    then show ?thesis
      using assertShiftsAllowed_Inl[OF Inl]
      by (auto simp: validateResidentTimeline_def Let_def)
  next
    case (Inr u)
    have "validateResidentTimeline shifts cfg r focus soft coll
          = evaluateTimelinePairs ?sorted focus cfg r ?soft []"
      using Inr by (simp add: validateResidentTimeline_def Let_def)
    then show ?thesis
      using evaluateTimelinePairs_nonpositive[OF assms, of "[]" ?sorted focus r ?soft err advs]
      by auto
  qed
qed

lemma validateTimelines_nonpositive:
  assumes "restHoursMin cfg \<le> 0"
  shows "(\<forall>rid x y adv. validateTimelines tA tB cfg rA rB sA sB a b coll
              \<noteq> Infeasible (rule_violation REST_WINDOW rid x y) adv)
       \<and> (\<forall>adv \<in> set (advisoriesOf (validateTimelines tA tB cfg rA rB sA sB a b coll)).
              adv_code adv \<noteq> ADV_REST_WINDOW)"
proof -
  let ?vA = "validateResidentTimeline tA cfg rA (Some [shift_id sA]) (Some BACKUP_SOFT_TYPES) coll"
  let ?vB = "validateResidentTimeline tB cfg rB (Some [shift_id sB]) (Some BACKUP_SOFT_TYPES) coll"
  show ?thesis
  proof (cases ?vA)
    case (Inl e)
    then obtain c where "e = RuleViolationError c (res_id rA)" "c \<noteq> REST_WINDOW"
      using validateResidentTimeline_nonpositive[OF assms, of tA rA _ _ _ e] by blast
    then show ?thesis
      using Inl by (simp add: validateTimelines_def catchTimelineError_def advisoriesOf_def)
  next
    case (Inr advsA)
    then have okA: "\<forall>adv \<in> set advsA. adv_code adv \<noteq> ADV_REST_WINDOW"
      using validateResidentTimeline_nonpositive[OF assms, of tA rA _ _ _ _ advsA] by blast
    show ?thesis
    proof (cases ?vB)
      case (Inl e)
      then obtain c where "e = RuleViolationError c (res_id rB)" "c \<noteq> REST_WINDOW"
        using validateResidentTimeline_nonpositive[OF assms, of tB rB _ _ _ e] by blast
      then show ?thesis
        using Inl Inr okA
        by (simp add: validateTimelines_def catchTimelineError_def advisoriesOf_def)
    next
      case (Inr advsB)
      then have "\<forall>adv \<in> set advsB. adv_code adv \<noteq> ADV_REST_WINDOW"
        using validateResidentTimeline_nonpositive[OF assms, of tB rB _ _ _ _ advsB] by blast
      then show ?thesis
        using Inr \<open>?vA = Inr advsA\<close> okA
        by (auto simp: validateTimelines_def advisoriesOf_def Let_def)
    qed
  qed
qed


lemma prepareSwap_not_rule_violation:
  "prepareSwap a' b' ctx' = Inl f \<Longrightarrow> f \<noteq> rule_violation c rid x y"
  unfolding prepareSwap_def
  by (cases a'; cases b'; cases ctx') (auto simp: Let_def split: option.splits if_splits)

lemma evaluateSwap_nonpositive:
  assumes m: "restHoursMin (ruleConfig ctx) \<le> 0"
    and ev: "evaluateSwap a' b' (Some ctx) coll = Some e"
  shows "(\<forall>rid x y adv. e \<noteq> Infeasible (rule_violation REST_WINDOW rid x y) adv)
       \<and> (\<forall>adv \<in> set (advisoriesOf e). adv_code adv \<noteq> ADV_REST_WINDOW)"
proof (cases "prepareSwap a' b' (Some ctx)")
  case (Inl f)
  then have "e = Infeasible f None" using ev by (simp add: evaluateSwap_def)
  then show ?thesis
    using prepareSwap_not_rule_violation[OF Inl] by (simp add: advisoriesOf_def)
next
  case (Inr p)
  then obtain a b rA rB where eq: "a' = Some a" "b' = Some b"
    and g: "gatesPass a b ctx rA rB"
    using prepareSwap_Inr_iff[of a' b' "Some ctx" p] by auto
  let ?vt = "validateTimelines (otherShiftsOf ctx a @ [received b rA])
               (otherShiftsOf ctx b @ [received a rB]) (ruleConfig ctx) rA rB
               (received b rA) (received a rB) a b coll"
  have vt: "(\<forall>rid x y adv. ?vt \<noteq> Infeasible (rule_violation REST_WINDOW rid x y) adv)
       \<and> (\<forall>adv \<in> set (advisoriesOf ?vt). adv_code adv \<noteq> ADV_REST_WINDOW)"
    using validateTimelines_nonpositive[OF m] by blast
  show ?thesis
  proof (cases "resolveShabbosRestrictionForSwap (shabbosObservers ctx)
                  [(rA, received b rA), (rB, received a rB)]")
    case (Some r)
    then have "e = Infeasible r None"
      using ev unfolding eq evaluateSwap_staged[OF g] by simp
    moreover have "\<exists>x y z w v. r = shabbos_restriction x y z w v"
      using Some by (auto simp: resolveShabbos_two split: option.splits
          dest!: evaluateShabbosRestriction_Some)
    ultimately show ?thesis by (auto simp: advisoriesOf_def)
  next
    case None
    then have e: "personDateChecks rA (received b rA)
                    (personDateChecks rB (received a rB) (Some ?vt)) = Some e"
      using ev unfolding eq evaluateSwap_staged[OF g] by simp
    show ?thesis
    proof (cases e)
      case (Feasible adv)
      then have "?vt = e"
        using e by (simp add: personDateChecks_Feasible)
      then show ?thesis using vt by simp
    next
      case (Infeasible x adv)
      from personDateChecks_Infeasible[OF e[unfolded Infeasible]]
      consider "\<exists>c. x = vacation_conflict (res_id rA) (shift_id (received b rA)) c \<and> adv = None"
        | "\<exists>u v w. x = rotation_block (res_id rA) (shift_id (received b rA)) u v w \<and> adv = None"
        | "personDateChecks rB (received a rB) (Some ?vt) = Some (Infeasible x adv)"
        by blast
      then show ?thesis
      proof cases
        case 1
        then show ?thesis using Infeasible by (auto simp: advisoriesOf_def)
      next
        case 2
        then show ?thesis using Infeasible by (auto simp: advisoriesOf_def)
      next
        case 3
        from personDateChecks_Infeasible[OF 3]
        consider "\<exists>c. x = vacation_conflict (res_id rB) (shift_id (received a rB)) c \<and> adv = None"
          | "\<exists>u v w. x = rotation_block (res_id rB) (shift_id (received a rB)) u v w
                \<and> adv = None"
          | "?vt = Infeasible x adv"
          by auto
        then show ?thesis
        proof cases
          case 1
          then show ?thesis using Infeasible by (auto simp: advisoriesOf_def)
        next
          case 2
          then show ?thesis using Infeasible by (auto simp: advisoriesOf_def)
        next
          case 3
          then show ?thesis using vt Infeasible by simp
        qed
      qed
    qed
  qed
qed

lemma calculateSwapPressure_clamps:
  assumes "restHoursMin (ruleConfig ctx) \<le> 0"
  shows "calculateSwapPressure a' b' (Some ctx) coll
         = calculateSwapPressure a' b' (Some (withRestHoursMin ctx 0)) coll"
proof -
  have m: "max 0 (restHoursMin (ruleConfig (withRestHoursMin ctx 0)))
           = max 0 (restHoursMin (ruleConfig ctx))"
    using assms by (simp add: withRestHoursMin_def)
  have sb: "shiftsByResident (withRestHoursMin ctx 0) = shiftsByResident ctx"
    by (simp add: withRestHoursMin_def)
  have sp: "scaledPressure a b (withRestHoursMin ctx 0) rA rB coll = scaledPressure a b ctx rA rB coll"
    for a b rA rB
    unfolding scaledPressure_def m sb by (rule refl)
  have ip: "resolveIpConsultPenalty a b (withRestHoursMin ctx 0) = resolveIpConsultPenalty a b ctx"
    for a b
    by (simp add: resolveIpConsultPenalty_def hasAssociatedIpConsult_def withRestHoursMin_def)
  have rb: "residentsById (withRestHoursMin ctx 0) = residentsById ctx"
    by (simp add: withRestHoursMin_def)
  show ?thesis
    by (cases a'; cases b')
      (simp_all add: calculateSwapPressure_def sp ip rb Let_def split: option.splits)
qed

text \<open>
  C10.  When the configured minimum rest is zero or negative, the pair check of the timeline
  validation can only raise \<open>OVERLAP\<close>; no evaluation returned by \<open>evaluateSwap\<close> is a
  \<open>rule_violation\<close> with code \<open>REST_WINDOW\<close>, and none carries a \<open>REST_WINDOW\<close> advisory;
  and the pressure breakdown equals the one computed with a minimum of zero.
\<close>

theorem nonpositive_rest_minimum:
  "restHoursMin (ruleConfig ctx) \<le> 0 \<longrightarrow>
     (evaluatePair prev current (ruleConfig ctx) r softTypes = Inl err
        \<longrightarrow> err = RuleViolationError OVERLAP (res_id r))
     \<and> (evaluateSwap a' b' (Some ctx) coll = Some e
        \<longrightarrow> (\<forall>rid x y adv. e \<noteq> Infeasible (rule_violation REST_WINDOW rid x y) adv)
            \<and> (\<forall>adv \<in> set (advisoriesOf e). adv_code adv \<noteq> ADV_REST_WINDOW))
     \<and> calculateSwapPressure a' b' (Some ctx) coll
         = calculateSwapPressure a' b' (Some (withRestHoursMin ctx 0)) coll"
  using evaluatePair_nonpositive_Inl[of "ruleConfig ctx" prev current r softTypes err]
    evaluateSwap_nonpositive[of ctx a' b' coll e] calculateSwapPressure_clamps[of ctx a' b']
  by blast

lemma ex7_negative:
  "restHoursMin (ruleConfig (withRestHoursMin ex7_ctx (- 5))) \<le> 0"
  "withRestHoursMin (withRestHoursMin ex7_ctx (- 5)) 0 = withRestHoursMin ex7_ctx 0"
  by (simp_all add: withRestHoursMin_def)

lemma ex7_evaluations:
  "evaluatePair ex7_P ex7_O (ruleConfig (withRestHoursMin ex7_ctx (- 5))) ex1_R1
       BACKUP_SOFT_TYPES = Inl (RuleViolationError OVERLAP ''R1'')"
  "evaluateSwap (Some ex7_S1) (Some ex7_S2) (Some (withRestHoursMin ex7_ctx 11)) codeUnitOrder
     = Some (Infeasible (rule_violation REST_WINDOW ''R1'' ''S1'' ''S2'') None)"
  "evaluateSwap (Some ex7_S1) (Some ex7_S2) (Some (withRestHoursMin ex7_ctx (- 5))) codeUnitOrder
     = Some (Feasible None)"
  "length (s_calls (original (calculateSwapPressure (Some ex7_S1) (Some ex7_S2)
                                (Some (withRestHoursMin ex7_ctx 0)) codeUnitOrder))) = 1"
  "calculateSwapPressure (Some ex7_S1) (Some ex7_S2) (Some (withRestHoursMin ex7_ctx 0)) codeUnitOrder
     \<noteq> calculateSwapPressure (Some ex7_S1) (Some ex7_S2) (Some (withRestHoursMin ex7_ctx 7)) codeUnitOrder"
  by code_simp+

text \<open>
  Example 7 with a minimum of minus five hours: the overlapping pair is still rejected with
  \<open>OVERLAP\<close>; the swap that a minimum of eleven hours rejects with \<open>REST_WINDOW\<close> is accepted;
  and the breakdown, whose first section has a call, is the one computed with a minimum of
  zero, which is not the one computed with a minimum of seven.
\<close>

theorem nonpositive_rest_minimum_witness:
  "restHoursMin (ruleConfig (withRestHoursMin ex7_ctx (- 5))) \<le> 0
   \<and> evaluatePair ex7_P ex7_O (ruleConfig (withRestHoursMin ex7_ctx (- 5))) ex1_R1
         BACKUP_SOFT_TYPES = Inl (RuleViolationError OVERLAP ''R1'')
   \<and> evaluateSwap (Some ex7_S1) (Some ex7_S2) (Some (withRestHoursMin ex7_ctx 11)) codeUnitOrder
       = Some (Infeasible (rule_violation REST_WINDOW ''R1'' ''S1'' ''S2'') None)
   \<and> evaluateSwap (Some ex7_S1) (Some ex7_S2) (Some (withRestHoursMin ex7_ctx (- 5))) codeUnitOrder
       = Some (Feasible None)
   \<and> length (s_calls (original (calculateSwapPressure (Some ex7_S1) (Some ex7_S2)
                                  (Some (withRestHoursMin ex7_ctx 0)) codeUnitOrder))) = 1
   \<and> calculateSwapPressure (Some ex7_S1) (Some ex7_S2) (Some (withRestHoursMin ex7_ctx (- 5))) codeUnitOrder
       = calculateSwapPressure (Some ex7_S1) (Some ex7_S2) (Some (withRestHoursMin ex7_ctx 0)) codeUnitOrder
   \<and> calculateSwapPressure (Some ex7_S1) (Some ex7_S2) (Some (withRestHoursMin ex7_ctx (- 5))) codeUnitOrder
       \<noteq> calculateSwapPressure (Some ex7_S1) (Some ex7_S2) (Some (withRestHoursMin ex7_ctx 7)) codeUnitOrder"
proof -
  have eq: "calculateSwapPressure (Some ex7_S1) (Some ex7_S2)
              (Some (withRestHoursMin ex7_ctx (- 5))) codeUnitOrder
            = calculateSwapPressure (Some ex7_S1) (Some ex7_S2)
                (Some (withRestHoursMin ex7_ctx 0)) codeUnitOrder"
    using nonpositive_rest_minimum [of "withRestHoursMin ex7_ctx (- 5)" ex7_P ex7_O ex1_R1
        BACKUP_SOFT_TYPES "RuleViolationError OVERLAP ''R1''" "Some ex7_S1" "Some ex7_S2"
        codeUnitOrder "Feasible None"] ex7_negative ex7_evaluations(1,3)
    by simp
  then have "calculateSwapPressure (Some ex7_S1) (Some ex7_S2)
               (Some (withRestHoursMin ex7_ctx (- 5))) codeUnitOrder
       \<noteq> calculateSwapPressure (Some ex7_S1) (Some ex7_S2) (Some (withRestHoursMin ex7_ctx 7)) codeUnitOrder"
    using ex7_evaluations(5) by simp
  with eq ex7_negative(1) ex7_evaluations(1-4) show ?thesis by (intro conjI)
qed

subsection \<open>Consistency of the pressure breakdown\<close>





















subsection \<open>The size of the score\<close>

lemma ex2_feasible:
  "evaluateSwap (Some ex2_a) (Some ex2_b) (Some ex2_ctx) codeUnitOrder = Some (Feasible None)"
  by code_simp

lemma ex2_multipliers:
  "resolveShiftMultiplier ex2_a = 4" "resolveShiftMultiplier ex2_b = 4"
  by code_simp+

lemma ex2_scaled: "score (scaledPressure ex2_a ex2_b ex2_ctx ex2_R1 ex2_R2 codeUnitOrder) = 3200"
  by code_simp

lemma ex2_score:
  "score (calculateSwapPressure (Some ex2_a) (Some ex2_b) (Some ex2_ctx) codeUnitOrder) = 3200"
  by code_simp

text \<open>
  C4 at example 2: the swap of the two Saturday night floats is accepted; each section's
  delta is 1 before scaling, both multipliers are 4, and the score is 3200, before and after
  the consult penalty and the rotation-pressure calls (there are none), above the bound of
  1600.
\<close>

theorem score_bound_exceeded:
  "evaluateSwap (Some ex2_a) (Some ex2_b) (Some ex2_ctx) codeUnitOrder = Some (Feasible None)
   \<and> resolveShiftMultiplier ex2_a = 4 \<and> resolveShiftMultiplier ex2_b = 4
   \<and> score (scaledPressure ex2_a ex2_b ex2_ctx ex2_R1 ex2_R2 codeUnitOrder) = 3200
   \<and> proximityPressure ex2_a ex2_b ex2_ctx codeUnitOrder = 3200
   \<and> \<not> proximityPressure ex2_a ex2_b ex2_ctx codeUnitOrder \<le> 1600"
  using ex2_feasible ex2_multipliers ex2_scaled ex2_score by (simp add: proximityPressure_def)

subsection \<open>Serial and parallel batches\<close>

lemma mapSet_fresh: "k \<notin> fst ` set m \<Longrightarrow> mapSet m k v = m @ [(k, v)]"
  by (induction m) auto

lemma newMap_distinct_aux:
  "distinct (map fst (m @ es)) \<Longrightarrow> foldl (\<lambda>m (k, v). mapSet m k v) m es = m @ es"
proof (induction es arbitrary: m)
  case Nil
  then show ?case by simp
next
  case (Cons e es)
  obtain k v where e: "e = (k, v)" by (cases e)
  have fresh: "k \<notin> fst ` set m" using Cons.prems e by auto
  have d: "distinct (map fst ((m @ [(k, v)]) @ es))" using Cons.prems e by simp
  show ?case
    using Cons.IH[OF d] by (simp add: e mapSet_fresh[OF fresh])
qed

lemma newMap_distinct: "distinct (map fst es) \<Longrightarrow> newMap es = es"
  using newMap_distinct_aux[of "[]" es] by (simp add: newMap_def)

lemma newSet_distinct: "distinct xs \<Longrightarrow> newSet xs = xs"
  by (simp add: newSet_def setOrder_def distinct_remdups_id)

lemma hydrate_serialize:
  "wellFormedContext ctx \<Longrightarrow> hydrateContext (serializeContext ctx) = ctx"
  by (cases ctx)
    (simp add: wellFormedContext_def hydrateContext_def serializeContext_def newMap_distinct
      newSet_distinct)

lemma syncLoop_candidates:
  "(candidatesOf pairs ctx coll = None \<longrightarrow> syncLoop pairs ctx out reasons smp acc coll = None)
   \<and> (\<forall>cs. candidatesOf pairs ctx coll = Some cs \<longrightarrow>
         (\<exists>reasons' smp'. syncLoop pairs ctx out reasons smp acc coll
                            = Some (out @ cs, reasons', smp', acc + length cs)))"
proof (induction pairs arbitrary: out reasons smp acc)
  case Nil
  then show ?case by simp
next
  case (Cons pair rest)
  show ?case
  proof (cases "explainSwap (pair_a pair) (pair_b pair) ctx coll")
    case None
    then show ?thesis by simp
  next
    case (Some e)
    show ?thesis
    proof (cases e)
      case (Feasible advs)
      show ?thesis
        using Cons.IH[of "out @ [makeCandidate pair ctx advs coll]" reasons smp "acc + 1"]
        by (auto simp: Some Feasible split: option.splits)
    next
      case (Infeasible reason advs)
      show ?thesis
        using Cons.IH[of out "countReason reasons (kind reason)" "pushSample smp reason pair" acc]
        by (simp add: Some Infeasible)
    qed
  qed
qed

lemma evaluatePairsSync_candidates: "evaluatePairsSync pairs ctx coll = candidatesOf pairs ctx coll"
proof (cases "candidatesOf pairs ctx coll")
  case None
  then show ?thesis
    using syncLoop_candidates[of pairs ctx coll "[]" "[]" "[]" 0]
    by (simp add: evaluatePairsSync_def)
next
  case (Some cs)
  then obtain reasons' smp' where
    "syncLoop pairs ctx [] [] [] 0 coll = Some ([] @ cs, reasons', smp', 0 + length cs)"
    using syncLoop_candidates[of pairs ctx coll "[]" "[]" "[]" 0] by blast
  then show ?thesis by (simp add: evaluatePairsSync_def Some)
qed

lemma workerLoop_candidates:
  "(candidatesOf pairs ctx coll = None \<longrightarrow> workerLoop pairs ctx cands reasons smp coll = None)
   \<and> (\<forall>cs. candidatesOf pairs ctx coll = Some cs \<longrightarrow>
         (\<exists>reasons' smp'. workerLoop pairs ctx cands reasons smp coll
                            = Some (cands @ cs, reasons', smp')))"
proof (induction pairs arbitrary: cands reasons smp)
  case Nil
  then show ?case by simp
next
  case (Cons pair rest)
  show ?case
  proof (cases "explainSwap (pair_a pair) (pair_b pair) ctx coll")
    case None
    then show ?thesis by simp
  next
    case (Some e)
    show ?thesis
    proof (cases e)
      case (Feasible advs)
      show ?thesis
        using Cons.IH[of "cands @ [makeCandidate pair ctx advs coll]" reasons smp]
        by (auto simp: Some Feasible split: option.splits)
    next
      case (Infeasible reason advs)
      show ?thesis
        using Cons.IH[of cands "countReason reasons (kind reason)" "pushSample smp reason pair"]
        by (simp add: Some Infeasible)
    qed
  qed
qed

lemma workerOnMessage_candidates:
  assumes "wellFormedContext ctx"
  shows "map_option candidates
           (workerOnMessage \<lparr> in_pairs = chunk, in_ctx = serializeContext ctx \<rparr> coll)
         = candidatesOf chunk ctx coll"
proof (cases "candidatesOf chunk ctx coll")
  case None
  then have "workerLoop chunk ctx [] [] [] coll = None"
    using workerLoop_candidates[of chunk ctx coll "[]" "[]" "[]"] by simp
  then show ?thesis
    by (simp add: workerOnMessage_def hydrate_serialize[OF assms] None)
next
  case (Some cs)
  then obtain reasons' smp' where
    "workerLoop chunk ctx [] [] [] coll = Some ([] @ cs, reasons', smp')"
    using workerLoop_candidates[of chunk ctx coll "[]" "[]" "[]"] by blast
  then show ?thesis
    by (simp add: workerOnMessage_def hydrate_serialize[OF assms] Some)
qed

lemma candidatesOf_append:
  "candidatesOf (xs @ ys) ctx coll =
     (case candidatesOf xs ctx coll of None \<Rightarrow> None
      | Some cs \<Rightarrow> (case candidatesOf ys ctx coll of None \<Rightarrow> None | Some ds \<Rightarrow> Some (cs @ ds)))"
proof (induction xs)
  case Nil
  then show ?case by (simp split: option.splits)
next
  case (Cons pair rest)
  show ?case
  proof (cases "explainSwap (pair_a pair) (pair_b pair) ctx coll")
    case None
    then show ?thesis by simp
  next
    case (Some e)
    then show ?thesis using Cons.IH by (cases e) (simp_all split: option.splits)
  qed
qed

lemma promiseAll_chunks:
  assumes w: "\<And>chunk. map_option candidates (W chunk) = candidatesOf chunk ctx coll"
  shows "map_option (\<lambda>results. concat (map candidates results)) (promiseAll (map W chunks))
         = candidatesOf (concat chunks) ctx coll"
proof (induction chunks)
  case Nil
  then show ?case by simp
next
  case (Cons chunk rest)
  show ?case
  proof (cases "W chunk")
    case None
    then have "candidatesOf chunk ctx coll = None" using w[of chunk] by simp
    then show ?thesis using None by (simp add: candidatesOf_append)
  next
    case (Some r)
    then have c: "candidatesOf chunk ctx coll = Some (candidates r)" using w[of chunk] by simp
    show ?thesis
    proof (cases "promiseAll (map W rest)")
      case None
      then have "candidatesOf (concat rest) ctx coll = None" using Cons.IH by simp
      then show ?thesis by (simp add: Some None c candidatesOf_append)
    next
      case rs: (Some results)
      then have "candidatesOf (concat rest) ctx coll = Some (concat (map candidates results))"
        using Cons.IH by simp
      then show ?thesis by (simp add: Some rs c candidatesOf_append)
    qed
  qed
qed

lemma concat_chunkPairs: "0 < k \<Longrightarrow> concat (chunkPairs k xs) = xs"
proof (induction k xs rule: chunkPairs.induct)
  case (1 k xs)
  show ?case
  proof (cases "xs = []")
    case True
    then show ?thesis by (subst chunkPairs.simps) simp
  next
    case False
    have "chunkPairs k xs = take k xs # chunkPairs k (drop k xs)"
      using False "1.prems" by (subst chunkPairs.simps) simp
    moreover have "concat (chunkPairs k (drop k xs)) = drop k xs"
      using "1.IH" False "1.prems" by simp
    ultimately show ?thesis by simp
  qed
qed

lemma evaluatePairs_workers:
  assumes wf: "wellFormedContext ctx"
  shows "(case promiseAll (map (\<lambda>chunk. workerOnMessage
                                   \<lparr> in_pairs = chunk, in_ctx = serializeContext ctx \<rparr> coll)
                             (chunkPairs (max 1 k) pairs)) of
            None \<Rightarrow> None
          | Some results \<Rightarrow>
              (let flattened = concat (map candidates results);
                   diag = mergeDiagnostics (map diagnostics results);
                   diagnosticsMismatch =
                     (case diag of None \<Rightarrow> True | Some d \<Rightarrow> accepted d \<noteq> length flattened)
               in if length pairs > 0 \<and> diagnosticsMismatch
                  then map_option Inr (evaluatePairsSync pairs ctx coll)
                  else Some (Inr flattened)))
         = map_option Inr (evaluatePairsSync pairs ctx coll)"
proof -
  let ?W = "\<lambda>chunk. workerOnMessage \<lparr> in_pairs = chunk, in_ctx = serializeContext ctx \<rparr> coll"
  have c: "map_option (\<lambda>results. concat (map candidates results))
             (promiseAll (map ?W (chunkPairs (max 1 k) pairs)))
           = evaluatePairsSync pairs ctx coll"
  proof -
    have k: "concat (chunkPairs (max 1 k) pairs) = pairs"
      by (rule concat_chunkPairs) simp
    show ?thesis
      unfolding evaluatePairsSync_candidates
      using promiseAll_chunks[of ?W ctx coll "chunkPairs (max 1 k) pairs",
          OF workerOnMessage_candidates[OF wf]]
      unfolding k .
  qed
  show ?thesis
  proof (cases "promiseAll (map ?W (chunkPairs (max 1 k) pairs))")
    case None
    then have "evaluatePairsSync pairs ctx coll = None"
      using c by (simp del: chunkPairs.simps)
    then show ?thesis unfolding None by simp
  next
    case (Some results)
    then have "evaluatePairsSync pairs ctx coll = Some (concat (map candidates results))"
      using c by (simp del: chunkPairs.simps)
    then show ?thesis unfolding Some by (simp add: Let_def)
  qed
qed

lemma foldl_accepted:
  "foldl (\<lambda>acc item. acc + accepted item) n ds = n + sum_list (map accepted ds)"
  by (induction ds arbitrary: n) simp_all

lemma mergeDiagnostics_accepted:
  assumes "\<forall>r \<in> set results. \<exists>d. diagnostics r = Some d \<and> accepted d = length (candidates r)"
    and "results \<noteq> []"
  shows "\<exists>d. mergeDiagnostics (map diagnostics results) = Some d
           \<and> accepted d = length (concat (map candidates results))"
proof -
  define present where
    "present = concat (map (\<lambda>entry. case entry of None \<Rightarrow> [] | Some d \<Rightarrow> [d])
                         (map diagnostics results))"
  have p: "present = map (\<lambda>r. the (diagnostics r)) results"
    unfolding present_def using assms(1) by (induction results) auto
  have ne: "present \<noteq> []" unfolding p using assms(2) by simp
  have acc: "sum_list (map accepted present) = length (concat (map candidates results))"
    unfolding p using assms(1) by (induction results) auto
  have "mergeDiagnostics (map diagnostics results)
        = Some \<lparr> totalPairs = foldl (\<lambda>acc item. acc + totalPairs item) 0 present,
                 accepted = foldl (\<lambda>acc item. acc + accepted item) 0 present,
                 rejectionReasons =
                   foldl (\<lambda>target entry. addReasonCounts target (rejectionReasons entry))
                     [] present,
                 samples = (if collectSamples present \<noteq> [] then Some (collectSamples present)
                            else None) \<rparr>"
    unfolding mergeDiagnostics_def Let_def present_def[symmetric] using ne by simp
  then show ?thesis by (simp add: foldl_accepted acc)
qed

lemma workerOnMessage_diagnostics:
  "workerOnMessage msg coll = Some r \<Longrightarrow>
     \<exists>d. diagnostics r = Some d \<and> accepted d = length (candidates r)"
  by (auto simp: workerOnMessage_def Let_def split: option.splits)

lemma promiseAll_Some:
  "promiseAll (map W chunks) = Some results \<Longrightarrow>
     length results = length chunks \<and> (\<forall>r \<in> set results. \<exists>chunk \<in> set chunks. W chunk = Some r)"
proof (induction chunks arbitrary: results)
  case Nil
  then show ?case by simp
next
  case (Cons chunk rest)
  then obtain r rs where w: "W chunk = Some r" and rs: "promiseAll (map W rest) = Some rs"
    and res: "results = r # rs"
    by (cases "W chunk"; cases "promiseAll (map W rest)") auto
  from Cons.IH[OF rs] w res show ?case by auto
qed

lemma chunkPairs_nonempty: "0 < k \<Longrightarrow> xs \<noteq> [] \<Longrightarrow> chunkPairs k xs \<noteq> []"
  by (subst chunkPairs.simps) simp

lemma workers_merge:
  assumes wf: "wellFormedContext ctx" and k: "0 < k"
  shows "map_option (\<lambda>results. concat (map candidates results))
           (promiseAll (map (\<lambda>chunk. workerOnMessage
                                \<lparr> in_pairs = chunk, in_ctx = serializeContext ctx \<rparr> coll)
                          (chunkPairs k pairs)))
         = evaluatePairsSync pairs ctx coll"
proof -
  have c: "concat (chunkPairs k pairs) = pairs"
    using k by (rule concat_chunkPairs)
  show ?thesis
    unfolding evaluatePairsSync_candidates
    using promiseAll_chunks[of "\<lambda>chunk. workerOnMessage
                                \<lparr> in_pairs = chunk, in_ctx = serializeContext ctx \<rparr> coll"
        ctx coll "chunkPairs k pairs", OF workerOnMessage_candidates[OF wf]]
    unfolding c .
qed

lemma workers_no_mismatch:
  assumes k: "0 < k" and ne: "pairs \<noteq> []"
    and res: "promiseAll (map (\<lambda>chunk. workerOnMessage
                                \<lparr> in_pairs = chunk, in_ctx = sctx \<rparr> coll)
                          (chunkPairs k pairs)) = Some results"
  shows "\<exists>d. mergeDiagnostics (map diagnostics results) = Some d
           \<and> accepted d = length (concat (map candidates results))"
proof -
  from promiseAll_Some[OF res]
  have len: "length results = length (chunkPairs k pairs)"
    and each: "\<forall>r \<in> set results. \<exists>chunk \<in> set (chunkPairs k pairs).
                 workerOnMessage \<lparr> in_pairs = chunk, in_ctx = sctx \<rparr> coll = Some r"
    by blast+
  have "results \<noteq> []"
    using len chunkPairs_nonempty[OF k ne] by auto
  moreover have "\<forall>r \<in> set results. \<exists>d. diagnostics r = Some d
                   \<and> accepted d = length (candidates r)"
    using each workerOnMessage_diagnostics by blast
  ultimately show ?thesis by (rule mergeDiagnostics_accepted[rotated])
qed

text \<open>
  C3.  For a pool that has not been terminated and a context whose maps and set are
  JavaScript maps and a set: the worker's handler, given a chunk and the serialized context,
  replies with exactly the candidates the serial evaluation finds for the chunk (and does not
  reply when the serial evaluation does not return); for every positive chunk size the
  replies of the workers, concatenated in task order, are exactly the candidates of the
  serial evaluation of the whole batch, with the same scores and in the same order; the
  merged diagnostics of the replies count exactly these candidates, so that the pool returns
  the merged replies and not its serial fallback; and \<open>evaluatePairs\<close> returns what
  \<open>evaluatePairsSync\<close> returns.  Scheduling between workers is not modelled.
\<close>

theorem serial_parallel_equivalence:
  "wellFormedContext ctx \<and> \<not> terminated pool
     \<longrightarrow> evaluatePairs pool pairs ctx coll = map_option Inr (evaluatePairsSync pairs ctx coll)
        \<and> map_option candidates
            (workerOnMessage \<lparr> in_pairs = chunk, in_ctx = serializeContext ctx \<rparr> coll)
          = evaluatePairsSync chunk ctx coll
        \<and> (0 < k \<longrightarrow>
             map_option (\<lambda>results. concat (map candidates results))
               (promiseAll (map (\<lambda>chunk. workerOnMessage
                                    \<lparr> in_pairs = chunk, in_ctx = serializeContext ctx \<rparr> coll)
                              (chunkPairs k pairs)))
             = evaluatePairsSync pairs ctx coll
             \<and> (pairs \<noteq> []
                  \<and> promiseAll (map (\<lambda>chunk. workerOnMessage
                                        \<lparr> in_pairs = chunk, in_ctx = serializeContext ctx \<rparr> coll)
                                  (chunkPairs k pairs)) = Some results
                \<longrightarrow> (\<exists>d. mergeDiagnostics (map diagnostics results) = Some d
                         \<and> accepted d = length (concat (map candidates results)))))"
proof
  assume a: "wellFormedContext ctx \<and> \<not> terminated pool"
  then have wf: "wellFormedContext ctx" by simp
  have 1: "evaluatePairs pool pairs ctx coll = map_option Inr (evaluatePairsSync pairs ctx coll)"
  proof (cases "shouldUseWorkers pool (length pairs)")
    case False
    then show ?thesis using a by (simp add: evaluatePairs_def)
  next
    case True
    then have sz: "canSpawnWorkers pool" "1 < pool_size pool"
      by (auto simp: shouldUseWorkers_def split: if_splits)
    have "\<exists>n. ensureAdapters pool = Inr n"
      using sz by (simp add: ensureAdapters_def)
    then obtain n where n: "ensureAdapters pool = Inr n" ..
    have live: "terminated pool = False" using a by simp
    have par: "shouldUseWorkers pool (length pairs) = True" using True by simp
    show ?thesis
      unfolding evaluatePairs_def Let_def n sum.case live par
      by (simp only: if_False simp_thms
          evaluatePairs_workers[OF conjunct1[OF a], unfolded Let_def])
  qed
  have 2: "map_option candidates
            (workerOnMessage \<lparr> in_pairs = chunk, in_ctx = serializeContext ctx \<rparr> coll)
          = evaluatePairsSync chunk ctx coll"
    unfolding evaluatePairsSync_candidates by (rule workerOnMessage_candidates[OF wf])
  have 3: "0 < k \<longrightarrow>
             map_option (\<lambda>results. concat (map candidates results))
               (promiseAll (map (\<lambda>chunk. workerOnMessage
                                    \<lparr> in_pairs = chunk, in_ctx = serializeContext ctx \<rparr> coll)
                              (chunkPairs k pairs)))
             = evaluatePairsSync pairs ctx coll
             \<and> (pairs \<noteq> []
                  \<and> promiseAll (map (\<lambda>chunk. workerOnMessage
                                        \<lparr> in_pairs = chunk, in_ctx = serializeContext ctx \<rparr> coll)
                                  (chunkPairs k pairs)) = Some results
                \<longrightarrow> (\<exists>d. mergeDiagnostics (map diagnostics results) = Some d
                         \<and> accepted d = length (concat (map candidates results))))"
    using workers_merge[OF wf, of k coll pairs]
      workers_no_mismatch[of k pairs "serializeContext ctx" coll results]
    by blast
  from 1 2 3 show "evaluatePairs pool pairs ctx coll = map_option Inr (evaluatePairsSync pairs ctx coll)
        \<and> map_option candidates
            (workerOnMessage \<lparr> in_pairs = chunk, in_ctx = serializeContext ctx \<rparr> coll)
          = evaluatePairsSync chunk ctx coll
        \<and> (0 < k \<longrightarrow>
             map_option (\<lambda>results. concat (map candidates results))
               (promiseAll (map (\<lambda>chunk. workerOnMessage
                                    \<lparr> in_pairs = chunk, in_ctx = serializeContext ctx \<rparr> coll)
                              (chunkPairs k pairs)))
             = evaluatePairsSync pairs ctx coll
             \<and> (pairs \<noteq> []
                  \<and> promiseAll (map (\<lambda>chunk. workerOnMessage
                                        \<lparr> in_pairs = chunk, in_ctx = serializeContext ctx \<rparr> coll)
                                  (chunkPairs k pairs)) = Some results
                \<longrightarrow> (\<exists>d. mergeDiagnostics (map diagnostics results) = Some d
                         \<and> accepted d = length (concat (map candidates results)))))"
    by (intro conjI)
qed

lemma ex6_wf: "wellFormedContext ex1_ctx"
  by code_simp

lemma ex6_live: "\<not> terminated ex6_pool"
  by (simp add: ex6_pool_def)

lemma ex6_parallel: "shouldUseWorkers ex6_pool (length ex6_pairs)"
  by (simp add: shouldUseWorkers_def ex6_pool_def ex6_pairs_def)

lemma ex6_chunks:
  "chunkPairs 2 ex6_pairs
     = [[\<lparr> pair_a = ex1_S1, pair_b = ex1_S2 \<rparr>, \<lparr> pair_a = ex1_S1, pair_b = ex1_C1 \<rparr>],
        [\<lparr> pair_a = ex1_S2, pair_b = ex1_C2 \<rparr>]]"
  by (simp add: ex6_pairs_def)

lemma ex6_serial:
  "evaluatePairsSync ex6_pairs ex1_ctx codeUnitOrder
     = Some [makeCandidate \<lparr> pair_a = ex1_S1, pair_b = ex1_S2 \<rparr> ex1_ctx None codeUnitOrder,
             makeCandidate \<lparr> pair_a = ex1_S2, pair_b = ex1_C2 \<rparr> ex1_ctx None codeUnitOrder]"
proof -
  have "explainSwap ex1_S1 ex1_S2 ex1_ctx codeUnitOrder = Some (Feasible None)"
    using ex1_feasible by (simp add: explainSwap_def)
  moreover have "explainSwap ex1_S1 ex1_C1 ex1_ctx codeUnitOrder
                 = Some (Infeasible (same_resident ''R1'' ''S1'' ''C1'') None)"
    by code_simp
  moreover have "explainSwap ex1_S2 ex1_C2 ex1_ctx codeUnitOrder = Some (Feasible None)"
    by code_simp
  ultimately show ?thesis
    by (simp add: evaluatePairsSync_def ex6_pairs_def)
qed

text \<open>
  Example 6: a pool of two workers takes the three pairs of the batch in chunks of two.  The
  first and the third pair are accepted, the second is rejected; the pool returns the two
  candidates of the serial evaluation.
\<close>

theorem serial_parallel_equivalence_witness:
  "wellFormedContext ex1_ctx \<and> \<not> terminated ex6_pool
   \<and> shouldUseWorkers ex6_pool (length ex6_pairs)
   \<and> evaluatePairs ex6_pool ex6_pairs ex1_ctx codeUnitOrder
       = Some (Inr [makeCandidate \<lparr> pair_a = ex1_S1, pair_b = ex1_S2 \<rparr> ex1_ctx None codeUnitOrder,
                    makeCandidate \<lparr> pair_a = ex1_S2, pair_b = ex1_C2 \<rparr> ex1_ctx None codeUnitOrder])
   \<and> map_option candidates
       (workerOnMessage \<lparr> in_pairs = ex6_pairs, in_ctx = serializeContext ex1_ctx \<rparr> codeUnitOrder)
     = Some [makeCandidate \<lparr> pair_a = ex1_S1, pair_b = ex1_S2 \<rparr> ex1_ctx None codeUnitOrder,
             makeCandidate \<lparr> pair_a = ex1_S2, pair_b = ex1_C2 \<rparr> ex1_ctx None codeUnitOrder]"
  using serial_parallel_equivalence [of ex1_ctx ex6_pool ex6_pairs codeUnitOrder ex6_pairs 2] ex6_wf ex6_live
    ex6_parallel ex6_serial
  by (simp only: simp_thms map_option_case option.simps)

end
